theory Spec2Isabelle
  imports Main "HOL-Library.AList"
begin

section \<open>JavaScript values\<close>

text \<open>
  The values that travel through the SDK are JSON documents (\<open>Record<string, any>\<close>),
  together with JavaScript's \<open>undefined\<close>. An object is the list of its own entries in
  insertion order, with distinct keys; numbers are restricted to integers, since the code
  never calculates with them.
\<close>

datatype jvalue =
    JUndefined
  | JNull
  | JBool bool
  | JNum int
  | JStr string
  | JArr "jvalue list"
  | JObj "(string \<times> jvalue) list"

text \<open>The truthiness test behind \<open>!x\<close>, \<open>x || y\<close> and \<open>if (x)\<close>.\<close>

fun truthy :: "jvalue \<Rightarrow> bool" where
  "truthy JUndefined = False"
| "truthy JNull = False"
| "truthy (JBool b) = b"
| "truthy (JNum n) = (n \<noteq> 0)"
| "truthy (JStr s) = (s \<noteq> [])"
| "truthy (JArr xs) = True"
| "truthy (JObj kvs) = True"

text \<open>\<open>a || b\<close> on values.\<close>

definition js_or :: "jvalue \<Rightarrow> jvalue \<Rightarrow> jvalue" where
  "js_or a b = (if truthy a then a else b)"

text \<open>
  Everything the platform throws or rejects with here (a failed \<open>fetch\<close>, a body that is not
  JSON, a property read on \<open>null\<close>) and everything the code throws itself is an instance of
  \<open>Error\<close>; the constructor records which class it is, since one handler tests
  \<open>instanceof SyntaxError\<close>.
\<close>

datatype js_error = Error string | TypeError string | SyntaxError string

fun message :: "js_error \<Rightarrow> string" where
  "message (Error m) = m"
| "message (TypeError m) = m"
| "message (SyntaxError m) = m"

text \<open>Decimal digits of a number, as a template literal prints it.\<close>

function show_nat :: "nat \<Rightarrow> string" where
  "show_nat n =
     (if n < 10 then [char_of (48 + n)]
      else show_nat (n div 10) @ [char_of (48 + n mod 10)])"
  by pat_completeness auto
termination
  by (relation "measure id") auto

text \<open>A string between double quotes, for the messages that quote an object name.\<close>

definition quoted :: "string \<Rightarrow> string" where
  "quoted s = CHR 0x22 # s @ [CHR 0x22]"

text \<open>
  \<open>x.k\<close> and \<open>x?.k\<close> on a JSON value. The property names the code reads from such
  values are fixed (\<open>variant_config\<close>, \<open>objects\<close>, \<open>props\<close> and the like): none is
  \<open>length\<close>, an index or a member of \<open>Object.prototype\<close>, so arrays and primitive
  values have none of them and an object has them only as own properties.
\<close>

fun member :: "jvalue \<Rightarrow> string \<Rightarrow> js_error + jvalue" where
  "member JUndefined k =
     Inl (TypeError (''Cannot read properties of undefined (reading '' @
                     [CHR 0x27] @ k @ [CHR 0x27] @ '')''))"
| "member JNull k =
     Inl (TypeError (''Cannot read properties of null (reading '' @
                     [CHR 0x27] @ k @ [CHR 0x27] @ '')''))"
| "member (JObj kvs) k = Inr (case map_of kvs k of None \<Rightarrow> JUndefined | Some v \<Rightarrow> v)"
| "member v k = Inr JUndefined"

definition opt_member :: "jvalue \<Rightarrow> string \<Rightarrow> jvalue" where
  "opt_member v k = (case member v k of Inl e \<Rightarrow> JUndefined | Inr x \<Rightarrow> x)"

text \<open>
  \<open>{...base, ...extra}\<close>: later keys overwrite earlier ones in place, new keys go last.
  A spread defines own properties, whatever the key.
\<close>

definition js_spread :: "(string \<times> 'a) list \<Rightarrow> (string \<times> 'a) list \<Rightarrow> (string \<times> 'a) list" where
  "js_spread base extra = fold (\<lambda>(k, v). AList.update k v) extra base"

fun indexed :: "nat \<Rightarrow> 'a list \<Rightarrow> (string \<times> 'a) list" where
  "indexed i [] = []"
| "indexed i (x # xs) = (show_nat i, x) # indexed (Suc i) xs"

text \<open>\<open>Object.entries\<close>: it throws on \<open>null\<close> and \<open>undefined\<close>.\<close>

fun Object_entries :: "jvalue \<Rightarrow> js_error + (string \<times> jvalue) list" where
  "Object_entries JUndefined =
     Inl (TypeError ''Cannot convert undefined or null to object'')"
| "Object_entries JNull =
     Inl (TypeError ''Cannot convert undefined or null to object'')"
| "Object_entries (JObj kvs) = Inr kvs"
| "Object_entries (JArr xs) = Inr (indexed 0 xs)"
| "Object_entries (JStr s) = Inr (indexed 0 (map (\<lambda>c. JStr [c]) s))"
| "Object_entries v = Inr []"

section \<open>The data model of the context\<close>

record NovaConfig =
  organisationId :: string
  appId :: string
  apiEndpoint :: string

record NovaUser =
  userId :: string
  userProfile :: jvalue
  novaUserId :: "string option"

text \<open>
  A property of a cache entry holds a JSON value or, for \<open>lastFetched\<close>, a \<open>Date\<close>, kept
  as the clock reading in milliseconds. A \<open>Date\<close> is truthy.
\<close>

type_synonym date = nat

datatype jsval = Val jvalue | Date date

fun truthy_val :: "jsval \<Rightarrow> bool" where
  "truthy_val (Val v) = truthy v"
| "truthy_val (Date t) = True"

definition val_or :: "jsval \<Rightarrow> jsval \<Rightarrow> jsval" where
  "val_or a b = (if truthy_val a then a else b)"

text \<open>
  A cache entry is the list of its own properties. The interface \<open>NovaObject\<close> declares
  \<open>name\<close>, \<open>defaultProps\<close>, \<open>props\<close>, \<open>isLoaded\<close> and \<open>lastFetched\<close>, but the reducer
  builds entries by spreading whatever it finds under a name, so at run time any of them can
  be absent and others can be there. Every entry is made by an object literal, so its
  prototype is \<open>Object.prototype\<close>.
\<close>

type_synonym NovaObject = "(string \<times> jsval) list"

text \<open>
  The object map \<open>state.objects\<close> is a plain object used as a dictionary: its own entries
  and its prototype. \<open>None\<close> is \<open>Object.prototype\<close>, which every object literal and
  every spread starts from; \<open>Some e\<close> is the entry \<open>e\<close>, which the map gets for prototype
  when an assignment \<open>map["__proto__"] = e\<close> runs the setter it inherits.
\<close>

record NovaObjects =
  own :: "(string \<times> NovaObject) list"
  proto :: "NovaObject option"

record NovaState =
  config :: NovaConfig
  user :: "NovaUser option"
  objects :: NovaObjects
  isLoading :: bool
  error :: "string option"

text \<open>
  The payload of \<open>SET_CONFIG\<close> is a \<open>Partial<NovaConfig>\<close>: each of the three fields is
  present or not. The payloads of \<open>SET_DEFAULTS\<close> and \<open>SET_BULK_OBJECTS\<close> are given by
  their own entries, which is what \<open>Object.entries\<close> reads. \<open>OTHER_ACTION\<close> stands for an
  action type outside the union, which the \<open>switch\<close> sends to its \<open>default\<close> branch.
\<close>

datatype NovaAction =
    SET_CONFIG "string option" "string option" "string option"
  | SET_USER NovaUser
  | SET_DEFAULTS "(string \<times> jvalue) list"
  | UPDATE_OBJECT_PROPS string jvalue
  | SET_BULK_OBJECTS "(string \<times> jvalue) list"
  | SET_LOADING bool
  | SET_ERROR "string option"
  | OTHER_ACTION

section \<open>Reading and writing the object map\<close>

text \<open>
  The names every plain object inherits from \<open>Object.prototype\<close>: eleven functions and the
  accessor \<open>__proto__\<close>.
\<close>

definition object_prototype_names :: "string list" where
  "object_prototype_names =
     [''constructor'', ''__defineGetter__'', ''__defineSetter__'', ''hasOwnProperty'',
      ''__lookupGetter__'', ''__lookupSetter__'', ''isPrototypeOf'', ''propertyIsEnumerable'',
      ''toString'', ''valueOf'', ''__proto__'', ''toLocaleString'']"

text \<open>
  What \<open>map[k]\<close> evaluates to: an entry (an own one, or the map's prototype when the
  getter of \<open>__proto__\<close> answers), a property of the entry that is the map's prototype, one
  of the built-in members of \<open>Object.prototype\<close> (a function, or \<open>Object.prototype\<close>
  itself for \<open>__proto__\<close>), or \<open>undefined\<close>.
\<close>

datatype looked = Entry NovaObject | Field jsval | Builtin | Missing

definition builtin_or_missing :: "string \<Rightarrow> looked" where
  "builtin_or_missing k = (if k \<in> set object_prototype_names then Builtin else Missing)"

text \<open>The lookup below the own entries, through a prototype that is the entry \<open>e\<close>.\<close>

definition inherited_from :: "NovaObject \<Rightarrow> string \<Rightarrow> looked" where
  "inherited_from e k =
     (case map_of e k of
        Some f \<Rightarrow> Field f
      | None \<Rightarrow> if k = ''__proto__'' then Entry e else builtin_or_missing k)"

definition dict_get :: "NovaObjects \<Rightarrow> string \<Rightarrow> looked" where
  "dict_get d k =
     (case map_of (own d) k of
        Some e \<Rightarrow> Entry e
      | None \<Rightarrow>
          (case proto d of
             None \<Rightarrow> builtin_or_missing k
           | Some e \<Rightarrow> inherited_from e k))"

text \<open>Truthiness of what was found: objects and functions are truthy.\<close>

fun found :: "looked \<Rightarrow> bool" where
  "found (Entry e) = True"
| "found (Field f) = truthy_val f"
| "found Builtin = True"
| "found Missing = False"

text \<open>
  \<open>{...x}\<close>: the own enumerable properties of \<open>x\<close>. An entry gives its properties, a JSON
  object its entries, an array and a string their indexed elements; \<open>undefined\<close>,
  \<open>null\<close>, numbers, booleans, a \<open>Date\<close>, a function and \<open>Object.prototype\<close> give none.
\<close>

definition spread_value :: "jvalue \<Rightarrow> NovaObject" where
  "spread_value v =
     map (\<lambda>(k, x). (k, Val x)) (case Object_entries v of Inl e \<Rightarrow> [] | Inr es \<Rightarrow> es)"

fun spread_looked :: "looked \<Rightarrow> NovaObject" where
  "spread_looked (Entry e) = e"
| "spread_looked (Field (Val v)) = spread_value v"
| "spread_looked (Field (Date t)) = []"
| "spread_looked Builtin = []"
| "spread_looked Missing = []"

text \<open>
  \<open>x.k\<close> and \<open>x?.k\<close> on what was found, for the three names the code reads there:
  \<open>props\<close>, \<open>defaultProps\<close> and \<open>isLoaded\<close>. No function, no \<open>Date\<close> and not
  \<open>Object.prototype\<close> has one of them. The plain read is only made of a truthy \<open>x\<close>.
\<close>

fun looked_member :: "looked \<Rightarrow> string \<Rightarrow> jsval" where
  "looked_member (Entry e) k = (case map_of e k of None \<Rightarrow> Val JUndefined | Some f \<Rightarrow> f)"
| "looked_member (Field (Val v)) k = Val (opt_member v k)"
| "looked_member (Field (Date t)) k = Val JUndefined"
| "looked_member Builtin k = Val JUndefined"
| "looked_member Missing k = Val JUndefined"

text \<open>
  The assignment \<open>map[k] = e\<close>. It writes an own property, except for the key
  \<open>__proto__\<close> when neither the map nor the entry that is its prototype has a property of
  that name: then the assignment reaches the setter of \<open>Object.prototype\<close>, which makes
  \<open>e\<close> the prototype of the map and adds no property.
\<close>

definition dict_set :: "NovaObjects \<Rightarrow> string \<Rightarrow> NovaObject \<Rightarrow> NovaObjects" where
  "dict_set d k e =
     (if k = ''__proto__'' \<and> map_of (own d) k = None \<and>
         (case proto d of None \<Rightarrow> True | Some p \<Rightarrow> map_of p k = None)
      then d\<lparr>proto := Some e\<rparr>
      else d\<lparr>own := AList.update k e (own d)\<rparr>)"

text \<open>\<open>{...map}\<close>: a new map with the same own entries and the prototype of a literal.\<close>

definition spread_dict :: "NovaObjects \<Rightarrow> NovaObjects" where
  "spread_dict d = \<lparr>own = own d, proto = None\<rparr>"

section \<open>The reducer\<close>

text \<open>
  The two entry literals. \<open>{...x, name: objectName, defaultProps: objectProps}\<close> and
  \<open>{...x, props, isLoaded: true, lastFetched: new Date()}\<close>: a property that the spread
  brought keeps its place and gets the new value, a new one goes last.
\<close>

definition with_defaults :: "looked \<Rightarrow> string \<Rightarrow> jvalue \<Rightarrow> NovaObject" where
  "with_defaults x objectName objectProps =
     AList.update ''defaultProps'' (Val objectProps)
       (AList.update ''name'' (Val (JStr objectName)) (spread_looked x))"

definition loaded_entry :: "looked \<Rightarrow> jvalue \<Rightarrow> date \<Rightarrow> NovaObject" where
  "loaded_entry x p t =
     AList.update ''lastFetched'' (Date t)
       (AList.update ''isLoaded'' (Val (JBool True))
          (AList.update ''props'' (Val p) (spread_looked x)))"

text \<open>
  The body of the \<open>forEach\<close> in \<open>SET_DEFAULTS\<close>: the entry is written only when
  \<open>newObjects[objectName]\<close> is truthy.
\<close>

fun set_defaults_step :: "NovaObjects \<Rightarrow> string \<times> jvalue \<Rightarrow> NovaObjects" where
  "set_defaults_step newObjects (objectName, objectProps) =
     (if found (dict_get newObjects objectName) then
        dict_set newObjects objectName
          (with_defaults (dict_get newObjects objectName) objectName objectProps)
      else newObjects)"

fun set_defaults_loop :: "(string \<times> jvalue) list \<Rightarrow> NovaObjects \<Rightarrow> NovaObjects" where
  "set_defaults_loop [] newObjects = newObjects"
| "set_defaults_loop (e # es) newObjects =
     set_defaults_loop es (set_defaults_step newObjects e)"

text \<open>
  The \<open>forEach\<close> in \<open>SET_BULK_OBJECTS\<close>. Every iteration evaluates \<open>new Date()\<close>; the
  clock is a function \<open>clk\<close> from the number of the reading (within one run of the reducer)
  to the time it shows.
\<close>

fun set_bulk_loop ::
  "(nat \<Rightarrow> date) \<Rightarrow> nat \<Rightarrow> (string \<times> jvalue) list \<Rightarrow> NovaObjects \<Rightarrow> NovaObjects" where
  "set_bulk_loop clk i [] updatedObjects = updatedObjects"
| "set_bulk_loop clk i ((objectName, objectProps) # es) updatedObjects =
     set_bulk_loop clk (Suc i) es
       (dict_set updatedObjects objectName
          (loaded_entry (dict_get updatedObjects objectName) objectProps (clk i)))"

definition merge_config ::
  "NovaConfig \<Rightarrow> string option \<Rightarrow> string option \<Rightarrow> string option \<Rightarrow> NovaConfig" where
  "merge_config c org app ep =
     \<lparr>organisationId = (case org of None \<Rightarrow> organisationId c | Some v \<Rightarrow> v),
      appId = (case app of None \<Rightarrow> appId c | Some v \<Rightarrow> v),
      apiEndpoint = (case ep of None \<Rightarrow> apiEndpoint c | Some v \<Rightarrow> v)\<rparr>"

text \<open>
  \<open>novaReducer\<close>, the same text in both versions of the context module. The clock is its
  third input besides state and action, because two branches call \<open>new Date()\<close>. In
  \<open>UPDATE_OBJECT_PROPS\<close> the entry is put under a computed key of an object literal, which
  defines an own property whatever the name.
\<close>

fun novaReducer :: "(nat \<Rightarrow> date) \<Rightarrow> NovaState \<Rightarrow> NovaAction \<Rightarrow> NovaState" where
  "novaReducer clk s (SET_CONFIG org app ep) =
     s\<lparr>config := merge_config (config s) org app ep\<rparr>"
| "novaReducer clk s (SET_USER u) = s\<lparr>user := Some u\<rparr>"
| "novaReducer clk s (SET_DEFAULTS payload) =
     s\<lparr>objects := set_defaults_loop payload \<lparr>own = [], proto = None\<rparr>\<rparr>"
| "novaReducer clk s (UPDATE_OBJECT_PROPS n p) =
     s\<lparr>objects :=
         \<lparr>own = AList.update n (loaded_entry (dict_get (objects s) n) p (clk 0))
                  (own (objects s)),
          proto = None\<rparr>\<rparr>"
| "novaReducer clk s (SET_BULK_OBJECTS payload) =
     s\<lparr>objects := set_bulk_loop clk 0 payload (spread_dict (objects s))\<rparr>"
| "novaReducer clk s (SET_LOADING b) = s\<lparr>isLoading := b\<rparr>"
| "novaReducer clk s (SET_ERROR e) = s\<lparr>error := e\<rparr>"
| "novaReducer clk s OTHER_ACTION = s"

section \<open>The reducer on the heap\<close>

text \<open>
  The reducer once more, this time on JavaScript objects as they are: cells in a heap, named
  by their addresses. The state object, its configuration, the object map and every cache
  entry are cells; a spread \<open>{...x}\<close> or an object literal allocates a new cell, and an
  assignment \<open>o[k] = v\<close> overwrites the cell of \<open>o\<close>. The cell of an object map holds the
  addresses of its own entries and, when it has got an entry for prototype, the address of
  that entry. The values the reducer only passes on (the user, the property values, the
  strings) stay values inside the cells. A heap is the list of its cells, and an address is
  an index into it.
\<close>

type_synonym addr = nat

datatype cell =
    StateCell addr "NovaUser option" addr bool "string option"
  | ConfigCell NovaConfig
  | ObjectsCell "(string \<times> addr) list" "addr option"
  | EntryCell NovaObject

type_synonym heap = "cell list"

text \<open>Reading a cell, and allocating one at the next free address.\<close>

definition lookup :: "heap \<Rightarrow> addr \<Rightarrow> cell option" where
  "lookup h a = (if a < length h then Some (h ! a) else None)"

definition alloc :: "heap \<Rightarrow> cell \<Rightarrow> addr \<times> heap" where
  "alloc h c = (length h, h @ [c])"

text \<open>
  Reading the entry behind an address. A read that finds no cell, or a cell of another kind,
  has no result: the functions below return \<open>None\<close> there.
\<close>

definition read_entry :: "heap \<Rightarrow> addr \<Rightarrow> NovaObject option" where
  "read_entry h a = (case lookup h a of Some (EntryCell ob) \<Rightarrow> Some ob | _ \<Rightarrow> None)"

text \<open>\<open>map[k]\<close> and the cell that \<open>map[k] = e\<close> leaves, for a map cell with the own entries
  \<open>kvs\<close> and the prototype \<open>pr\<close>, where \<open>a\<close> is the address of \<open>e\<close>.\<close>

definition dict_get_h :: "heap \<Rightarrow> (string \<times> addr) list \<Rightarrow> addr option \<Rightarrow> string \<Rightarrow> looked option" where
  "dict_get_h h kvs pr k =
     (case map_of kvs k of
        Some a \<Rightarrow> map_option Entry (read_entry h a)
      | None \<Rightarrow>
          (case pr of
             None \<Rightarrow> Some (builtin_or_missing k)
           | Some pa \<Rightarrow> map_option (\<lambda>e. inherited_from e k) (read_entry h pa)))"

definition dict_set_h :: "heap \<Rightarrow> (string \<times> addr) list \<Rightarrow> addr option \<Rightarrow> string \<Rightarrow> addr \<Rightarrow> cell option" where
  "dict_set_h h kvs pr k a =
     (if k = ''__proto__'' \<and> map_of kvs k = None then
        (case pr of
           None \<Rightarrow> Some (ObjectsCell kvs (Some a))
         | Some pa \<Rightarrow>
             (case read_entry h pa of
                None \<Rightarrow> None
              | Some p \<Rightarrow>
                  Some (if map_of p k = None then ObjectsCell kvs (Some a)
                        else ObjectsCell (AList.update k a kvs) pr)))
      else Some (ObjectsCell (AList.update k a kvs) pr))"

text \<open>
  The two \<open>forEach\<close> loops. Both write into the map cell they are given:
  \<open>newObjects[objectName] = ...\<close> and \<open>updatedObjects[objectName] = ...\<close>.
\<close>

fun set_defaults_loop_h :: "(string \<times> jvalue) list \<Rightarrow> addr \<Rightarrow> heap \<Rightarrow> heap option" where
  "set_defaults_loop_h [] newObjects h = Some h"
| "set_defaults_loop_h ((objectName, objectProps) # es) newObjects h =
     (case lookup h newObjects of
        Some (ObjectsCell kvs pr) \<Rightarrow>
          (case dict_get_h h kvs pr objectName of
             None \<Rightarrow> None
           | Some x \<Rightarrow>
               if found x then
                 (let (a, h1) = alloc h (EntryCell (with_defaults x objectName objectProps))
                  in case dict_set_h h1 kvs pr objectName a of
                       None \<Rightarrow> None
                     | Some c \<Rightarrow> set_defaults_loop_h es newObjects (h1[newObjects := c]))
               else set_defaults_loop_h es newObjects h)
      | _ \<Rightarrow> None)"

fun set_bulk_loop_h ::
  "(nat \<Rightarrow> date) \<Rightarrow> nat \<Rightarrow> (string \<times> jvalue) list \<Rightarrow> addr \<Rightarrow> heap \<Rightarrow> heap option" where
  "set_bulk_loop_h clk i [] updatedObjects h = Some h"
| "set_bulk_loop_h clk i ((objectName, objectProps) # es) updatedObjects h =
     (case lookup h updatedObjects of
        Some (ObjectsCell kvs pr) \<Rightarrow>
          (case dict_get_h h kvs pr objectName of
             None \<Rightarrow> None
           | Some x \<Rightarrow>
               (let (a, h1) = alloc h (EntryCell (loaded_entry x objectProps (clk i)))
                in case dict_set_h h1 kvs pr objectName a of
                     None \<Rightarrow> None
                   | Some c \<Rightarrow>
                       set_bulk_loop_h clk (Suc i) es updatedObjects (h1[updatedObjects := c])))
      | _ \<Rightarrow> None)"

text \<open>
  The \<open>switch\<close>, for a state object at address \<open>p\<close> whose cell holds \<open>c\<close>, \<open>u\<close>, \<open>ob\<close>,
  \<open>l\<close> and \<open>e\<close>. Every branch but the default one returns a newly allocated state object;
  \<open>SET_BULK_OBJECTS\<close> copies the object map into a new cell before the loop writes to it.
\<close>

fun reduce_cell ::
  "(nat \<Rightarrow> date) \<Rightarrow> heap \<Rightarrow> addr \<Rightarrow> addr \<Rightarrow> NovaUser option \<Rightarrow> addr \<Rightarrow> bool \<Rightarrow>
     string option \<Rightarrow> NovaAction \<Rightarrow> (addr \<times> heap) option" where
  "reduce_cell clk h p c u ob l e (SET_CONFIG org app ep) =
     (case lookup h c of
        Some (ConfigCell cfg) \<Rightarrow>
          let (c', h1) = alloc h (ConfigCell (merge_config cfg org app ep))
          in Some (alloc h1 (StateCell c' u ob l e))
      | _ \<Rightarrow> None)"
| "reduce_cell clk h p c u ob l e (SET_USER usr) =
     Some (alloc h (StateCell c (Some usr) ob l e))"
| "reduce_cell clk h p c u ob l e (SET_DEFAULTS payload) =
     (let (newObjects, h1) = alloc h (ObjectsCell [] None)
      in case set_defaults_loop_h payload newObjects h1 of
           None \<Rightarrow> None
         | Some h2 \<Rightarrow> Some (alloc h2 (StateCell c u newObjects l e)))"
| "reduce_cell clk h p c u ob l e (UPDATE_OBJECT_PROPS n v) =
     (case lookup h ob of
        Some (ObjectsCell kvs pr) \<Rightarrow>
          (case dict_get_h h kvs pr n of
             None \<Rightarrow> None
           | Some x \<Rightarrow>
               let (a, h1) = alloc h (EntryCell (loaded_entry x v (clk 0)));
                   (m, h2) = alloc h1 (ObjectsCell (AList.update n a kvs) None)
               in Some (alloc h2 (StateCell c u m l e)))
      | _ \<Rightarrow> None)"
| "reduce_cell clk h p c u ob l e (SET_BULK_OBJECTS payload) =
     (case lookup h ob of
        Some (ObjectsCell kvs pr) \<Rightarrow>
          let (updatedObjects, h1) = alloc h (ObjectsCell kvs None)
          in (case set_bulk_loop_h clk 0 payload updatedObjects h1 of
                None \<Rightarrow> None
              | Some h2 \<Rightarrow> Some (alloc h2 (StateCell c u updatedObjects l e)))
      | _ \<Rightarrow> None)"
| "reduce_cell clk h p c u ob l e (SET_LOADING b) = Some (alloc h (StateCell c u ob b e))"
| "reduce_cell clk h p c u ob l e (SET_ERROR er) = Some (alloc h (StateCell c u ob l er))"
| "reduce_cell clk h p c u ob l e OTHER_ACTION = Some (p, h)"

definition novaReducer_h ::
  "(nat \<Rightarrow> date) \<Rightarrow> heap \<Rightarrow> addr \<Rightarrow> NovaAction \<Rightarrow> (addr \<times> heap) option" where
  "novaReducer_h clk h p a =
     (case lookup h p of
        Some (StateCell c u ob l e) \<Rightarrow> reduce_cell clk h p c u ob l e a
      | _ \<Rightarrow> None)"

text \<open>The state that a state object on the heap stands for, when the heap is well formed.\<close>

fun read_entries :: "heap \<Rightarrow> (string \<times> addr) list \<Rightarrow> (string \<times> NovaObject) list option" where
  "read_entries h [] = Some []"
| "read_entries h ((k, a) # kvs) =
     (case read_entry h a of
        None \<Rightarrow> None
      | Some ob \<Rightarrow> map_option (\<lambda>r. (k, ob) # r) (read_entries h kvs))"

definition read_proto :: "heap \<Rightarrow> addr option \<Rightarrow> NovaObject option option" where
  "read_proto h pr =
     (case pr of None \<Rightarrow> Some None | Some pa \<Rightarrow> map_option Some (read_entry h pa))"

definition read_objects :: "heap \<Rightarrow> addr \<Rightarrow> NovaObjects option" where
  "read_objects h a =
     (case lookup h a of
        Some (ObjectsCell kvs pr) \<Rightarrow>
          (case read_entries h kvs of
             None \<Rightarrow> None
           | Some es \<Rightarrow> map_option (\<lambda>po. \<lparr>own = es, proto = po\<rparr>) (read_proto h pr))
      | _ \<Rightarrow> None)"

definition read_state :: "heap \<Rightarrow> addr \<Rightarrow> NovaState option" where
  "read_state h p =
     (case lookup h p of
        Some (StateCell c u ob l e) \<Rightarrow>
          (case lookup h c of
             Some (ConfigCell cfg) \<Rightarrow>
               map_option
                 (\<lambda>objs. \<lparr>config = cfg, user = u, objects = objs, isLoading = l, error = e\<rparr>)
                 (read_objects h ob)
           | _ \<Rightarrow> None)
      | _ \<Rightarrow> None)"

text \<open>How many times an action makes the reducer read the clock.\<close>

definition stamps :: "NovaAction \<Rightarrow> nat" where
  "stamps a = (case a of UPDATE_OBJECT_PROPS n p \<Rightarrow> 1
               | SET_BULK_OBJECTS payload \<Rightarrow> length payload | _ \<Rightarrow> 0)"

text \<open>
  A state with the time stamps of its entries blanked: every \<open>lastFetched\<close> that holds a
  \<open>Date\<close> holds the same one, in the own entries and in the entry that is the prototype.
\<close>

fun blank :: "jsval \<Rightarrow> jsval" where
  "blank (Date t) = Date 0"
| "blank (Val v) = Val v"

definition blank_at :: "string \<Rightarrow> jsval \<Rightarrow> jsval" where
  "blank_at k f = (if k = ''lastFetched'' then blank f else f)"

definition forget_time :: "NovaObject \<Rightarrow> NovaObject" where
  "forget_time ob = map (\<lambda>(k, f). (k, blank_at k f)) ob"

definition forget_times :: "NovaObjects \<Rightarrow> NovaObjects" where
  "forget_times d =
     \<lparr>own = map (\<lambda>(k, ob). (k, forget_time ob)) (own d),
      proto = map_option forget_time (proto d)\<rparr>"

definition without_times :: "NovaState \<Rightarrow> NovaState" where
  "without_times s = s\<lparr>objects := forget_times (objects s)\<rparr>"

section \<open>Requests and responses\<close>

text \<open>
  The second argument of \<open>fetch\<close>. \<open>body\<close> holds the value whose JSON text is sent
  (\<open>JSON.stringify\<close> belongs to the platform and is not unfolded); an absent \<open>headers\<close>
  property is \<open>None\<close>.
\<close>

record RequestInit =
  http_method :: "string option"
  body :: "jvalue option"
  headers :: "(string \<times> string) list option"

text \<open>
  What \<open>fetch\<close> resolves with: \<open>json\<close> is the outcome of \<open>response.json()\<close>, which rejects
  when the body is not a JSON text, and \<open>text\<close> that of \<open>response.text()\<close>.
\<close>

record response =
  status :: nat
  statusText :: string
  text_body :: string
  json :: "js_error + jvalue"

definition ok :: "response \<Rightarrow> bool" where
  "ok r = (200 \<le> status r \<and> status r \<le> 299)"

text \<open>The network: what a call of \<open>fetch\<close> with this URL and these options settles to.\<close>

type_synonym network = "string \<Rightarrow> RequestInit \<Rightarrow> js_error + response"

section \<open>The provider: store, console and network log\<close>

datatype console_line = Log string | ErrorLine string

text \<open>
  The part of the browser a provider function acts on: the state held by \<open>useReducer\<close>,
  the console, and the calls of \<open>fetch\<close> made so far, in order. The functions of the
  provider read \<open>state\<close> from their closure; it is taken to be the store's state at the
  moment of the call.
\<close>

record Browser =
  store :: NovaState
  console :: "console_line list"
  fetched :: "(string \<times> RequestInit) list"

definition dispatch :: "(nat \<Rightarrow> date) \<Rightarrow> NovaAction \<Rightarrow> Browser \<Rightarrow> Browser" where
  "dispatch clk a b = b\<lparr>store := novaReducer clk (store b) a\<rparr>"

definition setLoading :: "(nat \<Rightarrow> date) \<Rightarrow> bool \<Rightarrow> Browser \<Rightarrow> Browser" where
  "setLoading clk loading b = dispatch clk (SET_LOADING loading) b"

definition setError :: "(nat \<Rightarrow> date) \<Rightarrow> string option \<Rightarrow> Browser \<Rightarrow> Browser" where
  "setError clk e b = dispatch clk (SET_ERROR e) b"

definition console_log :: "string \<Rightarrow> Browser \<Rightarrow> Browser" where
  "console_log m b = b\<lparr>console := console b @ [Log m]\<rparr>"

definition console_error :: "string \<Rightarrow> Browser \<Rightarrow> Browser" where
  "console_error m b = b\<lparr>console := console b @ [ErrorLine m]\<rparr>"

subsection \<open>The transport helper\<close>

text \<open>
  \<open>callApi(url, options)\<close>: one \<open>fetch\<close> with \<open>{...options, headers: {"Content-Type":
  "application/json", ...options.headers}}\<close>, an \<open>Error\<close> when \<open>response.ok\<close> is false,
  else \<open>response.json()\<close> as it comes.
\<close>

definition callApi_init :: "RequestInit \<Rightarrow> RequestInit" where
  "callApi_init options =
     options\<lparr>headers :=
       Some (js_spread [(''Content-Type'', ''application/json'')]
               (case headers options of None \<Rightarrow> [] | Some h \<Rightarrow> h))\<rparr>"

definition callApi ::
  "network \<Rightarrow> string \<Rightarrow> RequestInit \<Rightarrow> Browser \<Rightarrow> (js_error + jvalue) \<times> Browser" where
  "callApi fetch url options b =
     (let init = callApi_init options;
          b' = b\<lparr>fetched := fetched b @ [(url, init)]\<rparr>
      in case fetch url init of
           Inl e \<Rightarrow> (Inl e, b')
         | Inr r \<Rightarrow>
             if \<not> ok r then
               (Inl (Error (''API error: '' @ show_nat (status r) @ '' - '' @ statusText r)), b')
             else (json r, b'))"

subsection \<open>Reading the cache\<close>

text \<open>\<open>state.objects[objectName]?.isLoaded || false\<close>, as the conditions see it.\<close>

definition isObjectLoaded :: "NovaState \<Rightarrow> string \<Rightarrow> bool" where
  "isObjectLoaded state objectName =
     truthy_val (looked_member (dict_get (objects state) objectName) ''isLoaded'')"

definition not_found :: "string \<Rightarrow> string" where
  "not_found objectName = ''Object '' @ quoted objectName @ '' not found. Did you register it?''"

text \<open>
  The context module comes in two versions: one goes through \<open>callApi\<close> and has
  \<open>readNovaObject\<close> next to an asynchronous \<open>getNovaObject\<close>; the other calls
  \<open>fetch\<close> itself and has a synchronous \<open>getNovaObject\<close> only, named
  \<open>getNovaObject_v2\<close> here. All three take the not-found branch when
  \<open>state.objects[objectName]\<close> is falsy. \<open>readNovaObject\<close> returns the \<open>props\<close> of what
  it finds, whatever they are.
\<close>

definition readNovaObject :: "string \<Rightarrow> Browser \<Rightarrow> jsval \<times> Browser" where
  "readNovaObject objectName b =
     (let novaObject = dict_get (objects (store b)) objectName
      in if \<not> found novaObject then (Val JNull, console_error (not_found objectName) b)
         else (looked_member novaObject ''props'', b))"

text \<open>The synchronous \<open>getNovaObject\<close>.\<close>

definition getNovaObject_v2 :: "string \<Rightarrow> Browser \<Rightarrow> jsval \<times> Browser" where
  "getNovaObject_v2 objectName b =
     (let novaObject = dict_get (objects (store b)) objectName
      in if \<not> found novaObject then (Val JNull, console_error (not_found objectName) b)
         else (val_or (looked_member novaObject ''props'')
                 (looked_member novaObject ''defaultProps''), b))"

subsection \<open>Loading from the backend\<close>

text \<open>
  The loaders of the version with \<open>callApi\<close>. Each returns what its promise settles to
  (\<open>Inl\<close> a rejection) and the browser afterwards. In the \<open>catch\<close> blocks \<open>error instanceof Error\<close>
  holds for every error of the model, so the message recorded is the error's own.
\<close>

definition precondition_error :: js_error where
  "precondition_error = Error ''User must be set before loading objects''"

definition variant_body :: "NovaState \<Rightarrow> NovaUser \<Rightarrow> (string \<times> jvalue) list \<Rightarrow> jvalue" where
  "variant_body state u extra =
     JObj ([(''organisation_id'', JStr (organisationId (config state))),
            (''app_id'', JStr (appId (config state))),
            (''user_id'', JStr (userId u)),
            (''payload'', js_or (userProfile u) (JObj []))] @ extra)"

definition loadObject ::
  "(nat \<Rightarrow> date) \<Rightarrow> network \<Rightarrow> string \<Rightarrow> bool \<Rightarrow> Browser \<Rightarrow> (js_error + jvalue) \<times> Browser" where
  "loadObject clk fetch objectName forceReload b =
     (let state = store b in
      case user state of
        None \<Rightarrow> (Inl precondition_error, b)
      | Some u \<Rightarrow>
          if \<not> forceReload \<and> isObjectLoaded state objectName then
            (Inr JNull,
             console_log (''Object '' @ quoted objectName @ '' already loaded, skipping...'') b)
          else
            let b1 = setError clk None (setLoading clk True b);
                (r, b2) =
                  callApi fetch
                    (apiEndpoint (config state) @ ''/api/v1/user-experience/get-variant/'')
                    \<lparr>http_method = Some ''POST'',
                     body = Some (variant_body state u [(''feature_name'', JStr objectName)]),
                     headers = None\<rparr> b1
            in (case r of
                  Inr data \<Rightarrow>
                    (Inr data,
                     setLoading clk False
                       (dispatch clk
                          (UPDATE_OBJECT_PROPS objectName (opt_member data ''variant_config''))
                          b2))
                | Inl err \<Rightarrow>
                    (Inl err,
                     setLoading clk False
                       (setError clk
                          (Some (''Failed to load object '' @ quoted objectName @ '': '' @
                                 message err)) b2))))"

text \<open>
  The \<open>forEach\<close> over \<open>Object.entries(data)\<close> shared by \<open>loadObjects\<close> and
  \<open>loadAllObjects\<close>: every entry with a non-empty name is assigned to \<open>objects\<close> with
  its \<open>variant_config\<close>, or \<open>{}\<close> when that is falsy. \<open>objects\<close> starts as \<open>{}\<close>, so
  the assignment under the name \<open>__proto__\<close> (a name occurs once among the entries of an
  object) runs the inherited setter and adds no property; every other assignment writes an
  own property. The result is \<open>objects\<close> by its own entries, which is what the caller's
  \<open>Object.entries\<close> and the reducer read.
\<close>

definition collect_variants :: "(string \<times> jvalue) list \<Rightarrow> (string \<times> jvalue) list" where
  "collect_variants entries =
     fold (\<lambda>(featureName, featureData) objs.
             if featureName \<noteq> [] then
               (if featureName = ''__proto__'' then objs
                else AList.update featureName
                       (js_or (opt_member featureData ''variant_config'') (JObj [])) objs)
             else objs)
       entries []"

text \<open>
  From \<open>setLoading(true)\<close> to the end of \<open>finally\<close>, the same in both bulk loaders up to
  the URL and the request body.
\<close>

definition bulk_request ::
  "(nat \<Rightarrow> date) \<Rightarrow> network \<Rightarrow> string \<Rightarrow> jvalue \<Rightarrow> Browser \<Rightarrow>
     (js_error + (string \<times> jvalue) list) \<times> Browser" where
  "bulk_request clk fetch url payload b =
     (let b1 = setError clk None (setLoading clk True b);
          (r, b2) =
            callApi fetch url \<lparr>http_method = Some ''POST'', body = Some payload, headers = None\<rparr> b1;
          failed = (\<lambda>err.
            (Inl err,
             setLoading clk False
               (setError clk (Some (''Failed to load objects: '' @ message err)) b2)))
      in case r of
           Inl err \<Rightarrow> failed err
         | Inr data \<Rightarrow>
             (case Object_entries data of
                Inl err \<Rightarrow> failed err
              | Inr entries \<Rightarrow>
                  let objs = collect_variants entries
                  in (Inr objs,
                      setLoading clk False (dispatch clk (SET_BULK_OBJECTS objs) b2))))"

definition loadObjects ::
  "(nat \<Rightarrow> date) \<Rightarrow> network \<Rightarrow> string list \<Rightarrow> bool \<Rightarrow> Browser \<Rightarrow>
     (js_error + (string \<times> jvalue) list) \<times> Browser" where
  "loadObjects clk fetch objectNames forceReload b =
     (let state = store b in
      case user state of
        None \<Rightarrow> (Inl precondition_error, b)
      | Some u \<Rightarrow>
          let objectsToLoad =
                (if forceReload then objectNames
                 else filter (\<lambda>n. \<not> isObjectLoaded state n) objectNames)
          in if length objectsToLoad = 0 then
               (Inr [], console_log ''All requested objects already loaded, skipping...'' b)
             else
               bulk_request clk fetch
                 (apiEndpoint (config state) @ ''/api/v1/user-experience/get-variants-batch/'')
                 (variant_body state u [(''feature_names'', JArr (map JStr objectsToLoad))]) b)"

definition loadAllObjects ::
  "(nat \<Rightarrow> date) \<Rightarrow> network \<Rightarrow> bool \<Rightarrow> Browser \<Rightarrow>
     (js_error + (string \<times> jvalue) list) \<times> Browser" where
  "loadAllObjects clk fetch forceReload b =
     (let state = store b in
      if \<not> forceReload \<and> length (own (objects state)) > 0 then
        (Inr [], console_log ''Objects already loaded, skipping...'' b)
      else
        (case user state of
           None \<Rightarrow> (Inl precondition_error, b)
         | Some u \<Rightarrow>
             bulk_request clk fetch
               (apiEndpoint (config state) @ ''/api/v1/user-experience/get-all-variants/'')
               (variant_body state u []) b))"

text \<open>
  The asynchronous \<open>getNovaObject\<close>: when the lookup is falsy it loads the object, unless
  \<open>readOnly\<close> is set, and resolves with what \<open>loadObject\<close> resolves with.
\<close>

definition as_val :: "(js_error + jvalue) \<times> Browser \<Rightarrow> (js_error + jsval) \<times> Browser" where
  "as_val r = (case r of (Inl e, b) \<Rightarrow> (Inl e, b) | (Inr v, b) \<Rightarrow> (Inr (Val v), b))"

definition getNovaObject ::
  "(nat \<Rightarrow> date) \<Rightarrow> network \<Rightarrow> string \<Rightarrow> bool \<Rightarrow> Browser \<Rightarrow> (js_error + jsval) \<times> Browser" where
  "getNovaObject clk fetch objectName readOnly b =
     (let novaObject = dict_get (objects (store b)) objectName
      in if \<not> found novaObject then
           (if readOnly then (Inr (Val JNull), console_error (not_found objectName) b)
            else as_val (loadObject clk fetch objectName False b))
         else
           (Inr (val_or (looked_member novaObject ''props'')
                   (looked_member novaObject ''defaultProps'')), b))"

section \<open>The registry sync command\<close>

text \<open>
  \<open>bin/sync-nova-registry.cjs\<close>. A file is what \<open>JSON.parse\<close> makes of its text: the
  message of the \<open>SyntaxError\<close> it throws, or the value. The environment holds
  \<open>process.env\<close>, the files by path (relative to the working directory), the text that
  \<open>new Date().toISOString()\<close> gives, and the network.
\<close>

datatype json_file = Malformed string | Json jvalue

record Env =
  env_vars :: "string \<Rightarrow> string option"
  files :: "string \<Rightarrow> json_file option"
  now_iso :: string
  backend :: network

text \<open>
  What the command does to the outside, in order. \<open>Exit\<close> is the status the process ends
  with: 1 from \<open>process.exit(1)\<close>, 0 when \<open>run\<close> completes. The pictographs that start
  the console lines are left out.
\<close>

datatype event =
    Print console_line
  | ReadFile string
  | WriteFile string jvalue
  | Fetch string RequestInit
  | Exit nat

text \<open>How a template literal prints a value.\<close>

definition show_int :: "int \<Rightarrow> string" where
  "show_int n = (if n < 0 then CHR ''-'' # show_nat (nat (- n)) else show_nat (nat n))"

fun join :: "string \<Rightarrow> string list \<Rightarrow> string" where
  "join sep [] = []"
| "join sep [x] = x"
| "join sep (x # y # ys) = x @ sep @ join sep (y # ys)"

fun template :: "jvalue \<Rightarrow> string" where
  "template JUndefined = ''undefined''"
| "template JNull = ''null''"
| "template (JBool b) = (if b then ''true'' else ''false'')"
| "template (JNum n) = show_int n"
| "template (JStr s) = s"
| "template (JArr xs) =
     join '',''
       (map (\<lambda>x. if x = JUndefined \<or> x = JNull then [] else template x) xs)"
| "template (JObj kvs) = ''[object Object]''"

text \<open>\<open>s.includes(sub)\<close>.\<close>

fun str_includes :: "string \<Rightarrow> string \<Rightarrow> bool" where
  "str_includes [] sub = (sub = [])"
| "str_includes (c # cs) sub = (take (length sub) (c # cs) = sub \<or> str_includes cs sub)"

text \<open>\<open>typeof v === "object"\<close>, which also holds for \<open>null\<close> and for arrays.\<close>

fun typeof_object :: "jvalue \<Rightarrow> bool" where
  "typeof_object JNull = True"
| "typeof_object (JArr xs) = True"
| "typeof_object (JObj kvs) = True"
| "typeof_object v = False"

text \<open>\<open>Object.keys(v).length\<close> for a value that is not \<open>null\<close> or \<open>undefined\<close>.\<close>

definition keys_length :: "jvalue \<Rightarrow> nat" where
  "keys_length v = (case Object_entries v of Inl e \<Rightarrow> 0 | Inr es \<Rightarrow> length es)"

text \<open>
  \<open>Object.assign(config, source)\<close>: a \<open>null\<close> or \<open>undefined\<close> source is skipped, and
  every own entry of the source is assigned to the target. The assignment under the name
  \<open>__proto__\<close>, which the target does not have for own property, runs the inherited
  setter and adds none; the four properties the command reads from \<open>config\<close> are own ones
  from the start, so what the setter does to the prototype is not seen.
\<close>

definition assign_entry :: "string \<times> jvalue \<Rightarrow> (string \<times> jvalue) list \<Rightarrow> (string \<times> jvalue) list" where
  "assign_entry kv target =
     (if fst kv = ''__proto__'' \<and> map_of target (fst kv) = None then target
      else AList.update (fst kv) (snd kv) target)"

definition Object_assign :: "(string \<times> jvalue) list \<Rightarrow> jvalue \<Rightarrow> (string \<times> jvalue) list" where
  "Object_assign target source =
     fold assign_entry (case Object_entries source of Inl e \<Rightarrow> [] | Inr es \<Rightarrow> es) target"

text \<open>Reading a property of the configuration object.\<close>

definition field :: "(string \<times> jvalue) list \<Rightarrow> string \<Rightarrow> jvalue" where
  "field cfg k = (case map_of cfg k of None \<Rightarrow> JUndefined | Some v \<Rightarrow> v)"

text \<open>\<open>JSON.parse(fs.readFileSync(path, "utf8"))\<close>, with the read it makes.\<close>

definition read_json :: "Env \<Rightarrow> string \<Rightarrow> event list \<times> (js_error + jvalue)" where
  "read_json env path =
     (case files env path of
        None \<Rightarrow> ([], Inl (Error (''ENOENT: no such file or directory, open '' @ path)))
      | Some (Malformed m) \<Rightarrow> ([ReadFile path], Inl (SyntaxError m))
      | Some (Json v) \<Rightarrow> ([ReadFile path], Inr v))"

definition env_value :: "Env \<Rightarrow> string \<Rightarrow> jvalue" where
  "env_value env k = (case env_vars env k of None \<Rightarrow> JUndefined | Some v \<Rightarrow> JStr v)"

text \<open>
  \<open>loadConfig\<close>: environment variables, then \<open>.novarc\<close>, then the \<open>nova\<close> block of
  \<open>package.json\<close>; errors of the two files are swallowed.
\<close>

definition loadConfig :: "Env \<Rightarrow> event list \<times> (string \<times> jvalue) list" where
  "loadConfig env =
     (let config1 =
            [(''orgId'', env_value env ''NOVA_ORG_ID''),
             (''appId'', env_value env ''NOVA_APP_ID''),
             (''apiKey'', env_value env ''NOVA_API_KEY''),
             (''apiEndpoint'',
                js_or (env_value env ''NOVA_API_ENDPOINT'') (JStr ''https://api.nova.com''))];
          (ev2, config2) =
            (if files env ''.novarc'' \<noteq> None then
               (case read_json env ''.novarc'' of
                  (ev, Inr rcConfig) \<Rightarrow> (ev, Object_assign config1 rcConfig)
                | (ev, Inl e) \<Rightarrow> (ev, config1))
             else ([], config1));
          (ev3, config3) =
            (case read_json env ''package.json'' of
               (ev, Inr packageJson) \<Rightarrow>
                 (case member packageJson ''nova'' of
                    Inl e \<Rightarrow> (ev, config2)
                  | Inr nova \<Rightarrow>
                      (ev, if truthy nova then Object_assign config2 nova else config2))
             | (ev, Inl e) \<Rightarrow> (ev, config2))
      in (ev2 @ ev3, config3))"

text \<open>
  \<open>validateProject\<close>, in two parts: the checks on \<open>package.json\<close>, with the \<open>catch\<close>
  that rewrites every error whose message does not mention the package, and the check of the
  configuration.
\<close>

definition sdk_missing :: string where
  "sdk_missing =
     ''nova-react-sdk not found in dependencies. Install it first:'' @
     [CHR 0x0A] @ ''  npm install nova-react-sdk''"

definition check_package :: "Env \<Rightarrow> event list \<times> (js_error + unit)" where
  "check_package env =
     (if files env ''package.json'' = None then
        ([], Inl (Error ''No package.json found. Run this command from your project root.''))
      else
        let (ev, parsed) = read_json env ''package.json'';
            tried =
              (case parsed of
                 Inl e \<Rightarrow> Inl e
               | Inr packageJson \<Rightarrow>
                   (case member packageJson ''dependencies'' of
                      Inl e \<Rightarrow> Inl e
                    | Inr deps \<Rightarrow>
                        let hasNova =
                              js_or (opt_member deps ''nova-react-sdk'')
                                (opt_member (opt_member packageJson ''devDependencies'')
                                   ''nova-react-sdk'')
                        in if \<not> truthy hasNova then Inl (Error sdk_missing) else Inr ()))
        in (ev,
            case tried of
              Inr u \<Rightarrow> Inr ()
            | Inl e \<Rightarrow>
                if str_includes (message e) ''nova-react-sdk'' then Inl e
                else Inl (Error ''Invalid package.json file'')))"

definition missing_config :: "(string \<times> jvalue) list \<Rightarrow> string list" where
  "missing_config cfg =
     (if \<not> truthy (field cfg ''orgId'') then [''NOVA_ORG_ID''] else []) @
     (if \<not> truthy (field cfg ''appId'') then [''NOVA_APP_ID''] else []) @
     (if \<not> truthy (field cfg ''apiKey'') then [''NOVA_API_KEY''] else [])"

definition validateProject ::
  "Env \<Rightarrow> (string \<times> jvalue) list \<Rightarrow> event list \<times> (js_error + unit)" where
  "validateProject env cfg =
     (case check_package env of
        (ev, Inl e) \<Rightarrow> (ev, Inl e)
      | (ev, Inr u) \<Rightarrow>
          if \<not> truthy (field cfg ''orgId'') \<or> \<not> truthy (field cfg ''appId'') \<or>
             \<not> truthy (field cfg ''apiKey'')
          then (ev, Inl (Error (''Missing required configuration: '' @
                                join '', '' (missing_config cfg))))
          else (ev, Inr ()))"

text \<open>
  \<open>loadObjectsFromJson\<close>. On success it returns the two sections it stores in
  \<open>this.objects\<close> and \<open>this.experiences\<close>.
\<close>

definition manifest_path :: string where
  "manifest_path = ''src/nova-objects.json''"

definition objects_required :: string where
  "objects_required =
     ''nova-objects.json must have an '' @ quoted ''objects'' @
     '' property with object definitions''"

definition experiences_required :: string where
  "experiences_required =
     ''nova-objects.json must have an '' @ quoted ''experiences'' @
     '' property with experience definitions''"

definition check_manifest :: "jvalue \<Rightarrow> js_error + jvalue \<times> jvalue" where
  "check_manifest data =
     (case member data ''objects'' of
        Inl e \<Rightarrow> Inl e
      | Inr objs \<Rightarrow>
          if \<not> truthy objs \<or> \<not> typeof_object objs then Inl (Error objects_required)
          else
            (case member data ''experiences'' of
               Inl e \<Rightarrow> Inl e
             | Inr exps \<Rightarrow>
                 if \<not> truthy exps \<or> \<not> typeof_object exps then
                   Inl (Error experiences_required)
                 else Inr (objs, exps)))"

definition loadObjectsFromJson :: "Env \<Rightarrow> event list \<times> (js_error + jvalue \<times> jvalue)" where
  "loadObjectsFromJson env =
     (let ev0 = [Print (Log ''Loading objects from nova-objects.json...'')]
      in if files env manifest_path = None then
           (ev0,
            Inl (Error (''nova-objects.json not found. '' @
                        ''Create this file with your object definitions.'')))
         else
           let (ev, parsed) = read_json env manifest_path
           in (case parsed of
                 Inl e \<Rightarrow>
                   (ev0 @ ev,
                    case e of
                      SyntaxError m \<Rightarrow> Inl (Error (''Invalid JSON in nova-objects.json: '' @ m))
                    | _ \<Rightarrow> Inl e)
               | Inr data \<Rightarrow>
                   (case check_manifest data of
                      Inl e \<Rightarrow>
                        (ev0 @ ev,
                         case e of
                           SyntaxError m \<Rightarrow>
                             Inl (Error (''Invalid JSON in nova-objects.json: '' @ m))
                         | _ \<Rightarrow> Inl e)
                    | Inr (objs, exps) \<Rightarrow>
                        (ev0 @ ev @
                           [Print (Log (''Found '' @ show_nat (keys_length objs) @ '' objects''))],
                         Inr (objs, exps)))))"

text \<open>\<open>getPackageVersion\<close> and \<open>saveRegistryFile\<close>; \<open>this.errors\<close> is always empty.\<close>

definition getPackageVersion :: "Env \<Rightarrow> event list \<times> jvalue" where
  "getPackageVersion env =
     (case read_json env ''package.json'' of
        (ev, Inr packageJson) \<Rightarrow>
          (case member packageJson ''version'' of
             Inl e \<Rightarrow> (ev, JStr ''1.0.0'')
           | Inr v \<Rightarrow> (ev, js_or v (JStr ''1.0.0'')))
      | (ev, Inl e) \<Rightarrow> (ev, JStr ''1.0.0''))"

definition saveRegistryFile :: "Env \<Rightarrow> (string \<times> jvalue) list \<Rightarrow> jvalue \<Rightarrow> event list" where
  "saveRegistryFile env cfg objs =
     (let (ev, version) = getPackageVersion env;
          registryData =
            JObj [(''metadata'',
                   JObj [(''generatedAt'', JStr (now_iso env)),
                         (''orgId'', field cfg ''orgId''),
                         (''appId'', field cfg ''appId''),
                         (''version'', version),
                         (''totalObjects'', JNum (int (keys_length objs)))]),
                  (''objects'', objs),
                  (''errors'', JArr [])]
      in ev @ [WriteFile ''nova-registry.json'' registryData,
               Print (Log (''Registry saved to '' @ quoted ''nova-registry.json''))])"

text \<open>\<open>sync\<close>: one POST of the two sections to the backend.\<close>

definition sync ::
  "Env \<Rightarrow> (string \<times> jvalue) list \<Rightarrow> jvalue \<Rightarrow> jvalue \<Rightarrow> event list \<times> (js_error + jvalue)" where
  "sync env cfg objs exps =
     (let url = template (field cfg ''apiEndpoint'') @
                ''/api/v1/feature-flags/sync-nova-objects/'';
          init = \<lparr>http_method = Some ''POST'',
                  body = Some (JObj [(''organisation_id'', field cfg ''orgId''),
                                     (''app_id'', field cfg ''appId''),
                                     (''objects'', objs),
                                     (''experiences'', exps)]),
                  headers = Some [(''Content-Type'', ''application/json''),
                                  (''Authorization'',
                                   ''Bearer '' @ template (field cfg ''apiKey''))]\<rparr>;
          ev = [Print (Log ''Syncing to Nova backend...''), Fetch url init]
      in case backend env url init of
           Inl e \<Rightarrow> (ev, Inl e)
         | Inr r \<Rightarrow>
             if \<not> ok r then (ev, Inl (Error (''Sync failed: '' @ text_body r)))
             else
               (case json r of
                  Inl e \<Rightarrow> (ev, Inl e)
                | Inr result \<Rightarrow> (ev @ [Print (Log ''Sync successful!'')], Inr result)))"

text \<open>
  The constructor followed by \<open>run\<close>: everything the command does once the \<open>--help\<close>
  test at the top of the script has been passed. The \<open>catch\<close> of \<open>run\<close> prints the
  message of the error and leaves with status 1.
\<close>

definition failed :: "js_error \<Rightarrow> event list" where
  "failed e = [Print (ErrorLine (message e)), Exit 1]"

definition run :: "Env \<Rightarrow> event list" where
  "run env =
     (let (ev0, cfg) = loadConfig env;
          ev1 = ev0 @ [Print (Log ''Nova Registry Sync'')]
      in case validateProject env cfg of
           (ev, Inl e) \<Rightarrow> ev1 @ ev @ failed e
         | (ev, Inr u) \<Rightarrow>
             let ev2 = ev1 @ ev
             in (case loadObjectsFromJson env of
                   (ev, Inl e) \<Rightarrow> ev2 @ ev @ failed e
                 | (ev, Inr (objs, exps)) \<Rightarrow>
                     let ev3 = ev2 @ ev
                     in if keys_length objs = 0 then
                          ev3 @ [Print (Log ''No objects found in nova-objects.json''), Exit 0]
                        else
                          let ev4 = ev3 @ saveRegistryFile env cfg objs
                          in (case sync env cfg objs exps of
                                (ev, Inl e) \<Rightarrow> ev4 @ ev @ failed e
                              | (ev, Inr result) \<Rightarrow>
                                  ev4 @ ev @ [Print (Log ''Complete!''), Exit 0])))"

section \<open>Notions used in the statements\<close>

text \<open>The request \<open>loadObject\<close> hands to \<open>fetch\<close> through \<open>callApi\<close>.\<close>

definition single_request :: "NovaState \<Rightarrow> NovaUser \<Rightarrow> string \<Rightarrow> string \<times> RequestInit" where
  "single_request state u n =
     (apiEndpoint (config state) @ ''/api/v1/user-experience/get-variant/'',
      \<lparr>http_method = Some ''POST'',
       body = Some (variant_body state u [(''feature_name'', JStr n)]),
       headers = Some [(''Content-Type'', ''application/json'')]\<rparr>)"

text \<open>The request \<open>loadObjects\<close> makes for a list of names.\<close>

definition batch_request :: "NovaState \<Rightarrow> NovaUser \<Rightarrow> string list \<Rightarrow> string \<times> RequestInit" where
  "batch_request state u names =
     (apiEndpoint (config state) @ ''/api/v1/user-experience/get-variants-batch/'',
      \<lparr>http_method = Some ''POST'',
       body = Some (variant_body state u [(''feature_names'', JArr (map JStr names))]),
       headers = Some [(''Content-Type'', ''application/json'')]\<rparr>)"

text \<open>Every cache entry carries default properties.\<close>

definition all_have_defaults :: "NovaState \<Rightarrow> bool" where
  "all_have_defaults s =
     list_all (\<lambda>(k, ob). map_of ob ''defaultProps'' \<noteq> None) (own (objects s))"

text \<open>
  The entry that a load leaves under a name that had none and is not inherited: the fetched
  properties, the mark and the time stamp, and nothing else.
\<close>

definition fresh_entry :: "jvalue \<Rightarrow> date \<Rightarrow> NovaObject" where
  "fresh_entry p t =
     [(''props'', Val p), (''isLoaded'', Val (JBool True)), (''lastFetched'', Date t)]"

text \<open>
  What a name has in the map for itself: its own entry, or nothing. This is what the spread
  \<open>{...map}\<close> keeps of a lookup, since it keeps the own entries and gives the copy the
  prototype of a literal, whose members have no own enumerable properties to spread.
\<close>

definition own_entry :: "NovaObjects \<Rightarrow> string \<Rightarrow> looked" where
  "own_entry d n = (case map_of (own d) n of None \<Rightarrow> Missing | Some e \<Rightarrow> Entry e)"

text \<open>An event that reaches outside the process: a network call or a file write.\<close>

definition outward :: "event \<Rightarrow> bool" where
  "outward e = (case e of Fetch u i \<Rightarrow> True | WriteFile p v \<Rightarrow> True | _ \<Rightarrow> False)"

section \<open>Sample inputs\<close>

definition ex_config :: NovaConfig where
  "ex_config = \<lparr>organisationId = ''org'', appId = ''app'', apiEndpoint = ''https://nova.test''\<rparr>"

definition ex_user :: NovaUser where
  "ex_user = \<lparr>userId = ''u1'', userProfile = JNull, novaUserId = None\<rparr>"

definition ex_defaults :: jvalue where
  "ex_defaults = JObj [(''color'', JStr ''red'')]"

text \<open>An entry that a load has filled, and a registered one that no load has touched.\<close>

definition ex_loaded :: NovaObject where
  "ex_loaded =
     [(''name'', Val (JStr ''a'')), (''defaultProps'', Val ex_defaults),
      (''props'', Val (JObj [(''color'', JStr ''blue'')])), (''isLoaded'', Val (JBool True)),
      (''lastFetched'', Date 1)]"

definition ex_unloaded :: NovaObject where
  "ex_unloaded =
     [(''name'', Val (JStr ''x'')), (''defaultProps'', Val ex_defaults),
      (''props'', Val JNull), (''isLoaded'', Val (JBool False))]"

definition ex_state :: NovaState where
  "ex_state = \<lparr>config = ex_config, user = Some ex_user,
                objects = \<lparr>own = [(''a'', ex_loaded), (''x'', ex_unloaded)], proto = None\<rparr>,
                isLoading = False, error = None\<rparr>"

definition ex_browser :: Browser where
  "ex_browser = \<lparr>store = ex_state, console = [], fetched = []\<rparr>"

text \<open>The same browser before \<open>setUser\<close>, and while another load is in flight.\<close>

definition ex_anonymous :: Browser where
  "ex_anonymous = \<lparr>store = ex_state\<lparr>user := None\<rparr>, console = [], fetched = []\<rparr>"

definition ex_busy :: Browser where
  "ex_busy = \<lparr>store = ex_state\<lparr>isLoading := True\<rparr>, console = [], fetched = []\<rparr>"

definition ex_clock :: "nat \<Rightarrow> date" where
  "ex_clock i = 1000 + i"

definition ex_variant :: jvalue where
  "ex_variant = JObj [(''variant_config'', JObj [(''color'', JStr ''green'')])]"

text \<open>
  A backend that answers the single-variant endpoint with one variant and every other
  endpoint with variants for \<open>a\<close> and \<open>b\<close>; a network that is down; a backend that answers
  404; one whose answer is not JSON; and one that answers every endpoint with an entry
  named \<open>__proto__\<close> next to one for \<open>b\<close>.
\<close>

definition ex_network :: network where
  "ex_network url init =
     (if url = ''https://nova.test/api/v1/user-experience/get-variant/'' then
        Inr \<lparr>status = 200, statusText = ''OK'', text_body = [], json = Inr ex_variant\<rparr>
      else
        Inr \<lparr>status = 200, statusText = ''OK'', text_body = [],
             json = Inr (JObj [(''a'', ex_variant), (''b'', ex_variant)])\<rparr>)"

definition ex_offline :: network where
  "ex_offline url init = Inl (TypeError ''Failed to fetch'')"

definition ex_not_found :: network where
  "ex_not_found url init =
     Inr \<lparr>status = 404, statusText = ''Not Found'', text_body = [], json = Inr JNull\<rparr>"

definition ex_garbled :: network where
  "ex_garbled url init =
     Inr \<lparr>status = 200, statusText = ''OK'', text_body = ''<html>'',
          json = Inl (SyntaxError ''Unexpected token < in JSON at position 0'')\<rparr>"

definition ex_network_proto :: network where
  "ex_network_proto url init =
     Inr \<lparr>status = 200, statusText = ''OK'', text_body = [],
          json = Inr (JObj [(''__proto__'', ex_variant), (''b'', ex_variant)])\<rparr>"

definition ex_options :: RequestInit where
  "ex_options = \<lparr>http_method = Some ''POST'', body = Some JNull,
                  headers = Some [(''Content-Type'', ''text/plain'')]\<rparr>"

text \<open>An entry that is marked loaded although its fetched properties are \<open>null\<close>.\<close>

definition ex_loaded_null :: Browser where
  "ex_loaded_null =
     \<lparr>store = ex_state\<lparr>objects :=
        \<lparr>own = [(''x'', AList.update ''isLoaded'' (Val (JBool True)) ex_unloaded)],
         proto = None\<rparr>\<rparr>,
      console = [], fetched = []\<rparr>"

text \<open>
  The sample state as a heap, with its state object at address 4, and that heap after
  update-single-object-props for \<open>x\<close>; a clock that runs later, and one that agrees with
  the sample clock on the first reading only.
\<close>

definition ex_heap :: heap where
  "ex_heap = [ConfigCell ex_config, EntryCell ex_loaded, EntryCell ex_unloaded,
              ObjectsCell [(''a'', 1), (''x'', 2)] None,
              StateCell 0 (Some ex_user) 3 False None]"

definition ex_clock_later :: "nat \<Rightarrow> date" where
  "ex_clock_later i = 2000 + i"

definition ex_clock_once :: "nat \<Rightarrow> date" where
  "ex_clock_once i = (if i = 0 then 1000 else 0)"

definition ex_heap_after :: heap where
  "ex_heap_after =
     ex_heap @
     [EntryCell [(''name'', Val (JStr ''x'')), (''defaultProps'', Val ex_defaults),
                 (''props'', Val (JNum 1)), (''isLoaded'', Val (JBool True)),
                 (''lastFetched'', Date 1000)],
      ObjectsCell [(''a'', 1), (''x'', 5)] None,
      StateCell 0 (Some ex_user) 6 False None]"

text \<open>
  A project with the SDK among its dependencies, the manifest
  \<open>{"objects": {"x": {"color": "red"}}, "experiences": {}}\<close>, the three credentials in
  the environment, and a backend that accepts the sync.
\<close>

definition ex_package :: jvalue where
  "ex_package = JObj [(''version'', JStr ''2.0.0''),
                      (''dependencies'', JObj [(''nova-react-sdk'', JStr ''^1.0.0'')])]"

definition ex_manifest :: jvalue where
  "ex_manifest = JObj [(''objects'', JObj [(''x'', JObj [(''color'', JStr ''red'')])]),
                       (''experiences'', JObj [])]"

definition ex_vars :: "string \<Rightarrow> string option" where
  "ex_vars k = (if k = ''NOVA_ORG_ID'' then Some ''org1''
                else if k = ''NOVA_APP_ID'' then Some ''app1''
                else if k = ''NOVA_API_KEY'' then Some ''key1'' else None)"

definition ex_files :: "jvalue \<Rightarrow> string \<Rightarrow> json_file option" where
  "ex_files manifest p =
     (if p = ''package.json'' then Some (Json ex_package)
      else if p = ''src/nova-objects.json'' then Some (Json manifest) else None)"

definition ex_env :: Env where
  "ex_env = \<lparr>env_vars = ex_vars, files = ex_files ex_manifest,
              now_iso = ''2025-01-01T00:00:00.000Z'',
              backend = (\<lambda>url init. Inr \<lparr>status = 200, statusText = ''OK'',
                                          text_body = ''{}'', json = Inr (JObj [])\<rparr>)\<rparr>"

text \<open>
  The same with a manifest that has no \<open>experiences\<close>, with one that has no \<open>objects\<close>,
  with one whose text is \<open>null\<close>, with only the application id configured, and with
  nothing at all: no files and no variables.
\<close>

definition ex_env_incomplete :: Env where
  "ex_env_incomplete =
     ex_env\<lparr>files := ex_files (JObj [(''objects'', JObj [(''x'', JObj [(''color'', JStr ''red'')])])])\<rparr>"

definition ex_env_no_objects :: Env where
  "ex_env_no_objects = ex_env\<lparr>files := ex_files (JObj [(''experiences'', JObj [])])\<rparr>"

definition ex_env_null :: Env where
  "ex_env_null = ex_env\<lparr>files := ex_files JNull\<rparr>"

definition ex_env_no_key :: Env where
  "ex_env_no_key =
     ex_env\<lparr>env_vars := (\<lambda>k. if k = ''NOVA_APP_ID'' then Some ''app1'' else None)\<rparr>"

definition ex_env_bare :: Env where
  "ex_env_bare = ex_env\<lparr>env_vars := (\<lambda>k. None), files := (\<lambda>p. None)\<rparr>"

section \<open>The set-defaults action\<close>

lemma set_defaults_loop_plain:
  "\<forall>k \<in> fst ` set payload. k \<notin> set object_prototype_names \<Longrightarrow>
   set_defaults_loop payload \<lparr>own = [], proto = None\<rparr> = \<lparr>own = [], proto = None\<rparr>"
  by (induction payload) (auto simp: dict_get_def builtin_or_missing_def)

text \<open>
  Claim C1: applying set-defaults leaves an object map with one entry per manifest key, each
  carrying that key's default properties. The reducer does not do that: the map it builds
  starts empty and an entry is written only where \<open>newObjects[objectName]\<close> is truthy
  already. For every payload none of whose keys is a member of \<open>Object.prototype\<close>, and
  every state before, the resulting map is empty; for the manifest
  \<open>{"x": {"color": "red"}}\<close> it is empty and a lookup of \<open>x\<close> finds nothing. The only
  names that can get an entry are the inherited ones: for the manifest with the one key
  \<open>toString\<close> the lookup finds the inherited function, so an entry is written.
\<close>

theorem SET_DEFAULTS_registers_nothing:
  "((\<forall>k \<in> fst ` set payload. k \<notin> set object_prototype_names) \<longrightarrow>
      objects (novaReducer clk s (SET_DEFAULTS payload)) = \<lparr>own = [], proto = None\<rparr>) \<and>
   objects (novaReducer clk s (SET_DEFAULTS [(''x'', JObj [(''color'', JStr ''red'')])])) =
     \<lparr>own = [], proto = None\<rparr> \<and>
   dict_get (objects (novaReducer clk s (SET_DEFAULTS [(''x'', JObj [(''color'', JStr ''red'')])])))
     ''x'' = Missing \<and>
   objects (novaReducer clk s (SET_DEFAULTS [(''toString'', p)])) =
     \<lparr>own = [(''toString'', [(''name'', Val (JStr ''toString'')), (''defaultProps'', Val p)])],
      proto = None\<rparr>"
proof -
  have a: "objects (novaReducer clk s (SET_DEFAULTS payload)) = \<lparr>own = [], proto = None\<rparr>"
    if "\<forall>k \<in> fst ` set payload. k \<notin> set object_prototype_names"
    using set_defaults_loop_plain[OF that] by simp
  have b: "objects (novaReducer clk s (SET_DEFAULTS [(''x'', JObj [(''color'', JStr ''red'')])])) =
     \<lparr>own = [], proto = None\<rparr>"
    by (simp add: dict_get_def builtin_or_missing_def object_prototype_names_def)
  have c: "objects (novaReducer clk s (SET_DEFAULTS [(''toString'', p)])) =
     \<lparr>own = [(''toString'', [(''name'', Val (JStr ''toString'')), (''defaultProps'', Val p)])],
      proto = None\<rparr>"
    by (simp add: dict_get_def dict_set_def builtin_or_missing_def object_prototype_names_def
          with_defaults_def)
  from a b c show ?thesis
    by (simp add: dict_get_def builtin_or_missing_def object_prototype_names_def)
qed

theorem SET_DEFAULTS_registers_nothing_witness:
  "''x'' \<notin> set object_prototype_names \<and> ''y'' \<notin> set object_prototype_names \<and>
   objects (novaReducer ex_clock ex_state
      (SET_DEFAULTS [(''x'', ex_defaults), (''y'', JObj [])])) = \<lparr>own = [], proto = None\<rparr>"
proof -
  have h: "\<forall>k \<in> fst ` set [(''x'', ex_defaults), (''y'', JObj [])].
             k \<notin> set object_prototype_names"
    by (simp add: object_prototype_names_def)
  from SET_DEFAULTS_registers_nothing[of "[(''x'', ex_defaults), (''y'', JObj [])]"
         ex_clock ex_state JNull] h
  have "objects (novaReducer ex_clock ex_state
      (SET_DEFAULTS [(''x'', ex_defaults), (''y'', JObj [])])) = \<lparr>own = [], proto = None\<rparr>"
    by blast
  then show ?thesis by (simp add: object_prototype_names_def)
qed

section \<open>Purity of the reducer\<close>

lemma lookup_append: "a < length h \<Longrightarrow> lookup (h @ ext) a = lookup h a"
  by (simp add: lookup_def nth_append)

lemma lookup_extends:
  "take (length h) h' = h \<Longrightarrow> a < length h \<Longrightarrow> lookup h' a = lookup h a"
proof -
  assume t: "take (length h) h' = h" and a: "a < length h"
  from t have "h' = h @ drop (length h) h'"
    by (metis append_take_drop_id)
  then show ?thesis using lookup_append[OF a] by metis
qed

lemma read_entry_extends:
  "take (length h) h' = h \<Longrightarrow> read_entry h a = Some ob \<Longrightarrow> read_entry h' a = Some ob"
proof -
  assume t: "take (length h) h' = h" and r: "read_entry h a = Some ob"
  from r have "a < length h"
    by (auto simp: read_entry_def lookup_def split: if_splits)
  from lookup_extends[OF t this] r show ?thesis
    by (simp add: read_entry_def)
qed

lemma read_entries_mono:
  "(\<And>a ob. read_entry h a = Some ob \<Longrightarrow> read_entry h' a = Some ob) \<Longrightarrow>
   read_entries h kvs = Some es \<Longrightarrow> read_entries h' kvs = Some es"
proof (induction kvs arbitrary: es)
  case Nil
  then show ?case by simp
next
  case (Cons kv kvs)
  obtain k a where kv: "kv = (k, a)" by (cases kv)
  from Cons.prems(2) kv obtain ob r where
    o: "read_entry h a = Some ob" "read_entries h kvs = Some r" "es = (k, ob) # r"
    by (auto split: option.splits)
  from Cons.prems(1)[OF o(1)] Cons.IH[OF Cons.prems(1) o(2)] kv o(3)
  show ?case by simp
qed

lemma read_proto_mono:
  "(\<And>a ob. read_entry h a = Some ob \<Longrightarrow> read_entry h' a = Some ob) \<Longrightarrow>
   read_proto h pr = Some po \<Longrightarrow> read_proto h' pr = Some po"
  by (cases pr) (auto simp: read_proto_def)

lemma read_entries_extends:
  "take (length h) h' = h \<Longrightarrow> read_entries h kvs = Some es \<Longrightarrow>
   read_entries h' kvs = Some es"
  using read_entries_mono[of h h' kvs es] read_entry_extends[of h h'] by blast

lemma read_proto_extends:
  "take (length h) h' = h \<Longrightarrow> read_proto h pr = Some po \<Longrightarrow> read_proto h' pr = Some po"
  using read_proto_mono[of h h' pr po] read_entry_extends[of h h'] by blast

lemma read_state_parts:
  "read_state h p = Some s \<Longrightarrow>
   \<exists>c u ob l e cfg kvs pr es po.
     lookup h p = Some (StateCell c u ob l e) \<and> lookup h c = Some (ConfigCell cfg) \<and>
     lookup h ob = Some (ObjectsCell kvs pr) \<and> read_entries h kvs = Some es \<and>
     read_proto h pr = Some po \<and>
     s = \<lparr>config = cfg, user = u, objects = \<lparr>own = es, proto = po\<rparr>, isLoading = l, error = e\<rparr>"
  by (auto simp: read_state_def read_objects_def split: option.splits cell.splits)

lemma read_state_built:
  "lookup h p = Some (StateCell c u ob l e) \<Longrightarrow> lookup h c = Some (ConfigCell cfg) \<Longrightarrow>
   lookup h ob = Some (ObjectsCell kvs pr) \<Longrightarrow> read_entries h kvs = Some es \<Longrightarrow>
   read_proto h pr = Some po \<Longrightarrow>
   read_state h p =
     Some \<lparr>config = cfg, user = u, objects = \<lparr>own = es, proto = po\<rparr>, isLoading = l, error = e\<rparr>"
  by (simp add: read_state_def read_objects_def)

lemma lookup_bound: "lookup h a = Some c \<Longrightarrow> a < length h"
  by (auto simp: lookup_def split: if_splits)

lemma read_state_extends:
  "take (length h) h' = h \<Longrightarrow> read_state h p = Some s \<Longrightarrow> read_state h' p = Some s"
proof -
  assume t: "take (length h) h' = h" and r: "read_state h p = Some s"
  from read_state_parts[OF r] obtain c u ob l e cfg kvs pr es po where
    q: "lookup h p = Some (StateCell c u ob l e)" "lookup h c = Some (ConfigCell cfg)"
       "lookup h ob = Some (ObjectsCell kvs pr)" "read_entries h kvs = Some es"
       "read_proto h pr = Some po"
       "s = \<lparr>config = cfg, user = u, objects = \<lparr>own = es, proto = po\<rparr>, isLoading = l, error = e\<rparr>"
    by blast
  have "lookup h' p = Some (StateCell c u ob l e)" "lookup h' c = Some (ConfigCell cfg)"
       "lookup h' ob = Some (ObjectsCell kvs pr)"
    using lookup_extends[OF t lookup_bound[OF q(1)]] lookup_extends[OF t lookup_bound[OF q(2)]]
      lookup_extends[OF t lookup_bound[OF q(3)]] q(1,2,3) by simp_all
  from read_state_built[OF this read_entries_extends[OF t q(4)] read_proto_extends[OF t q(5)]] q(6)
  show ?thesis by simp
qed

lemma map_of_read_entries:
  "read_entries h kvs = Some es \<Longrightarrow>
   map_of es n = (case map_of kvs n of None \<Rightarrow> None | Some a \<Rightarrow> read_entry h a)"
proof (induction kvs arbitrary: es)
  case Nil
  then show ?case by simp
next
  case (Cons kv kvs)
  obtain k a where kv: "kv = (k, a)" by (cases kv)
  from Cons.prems kv obtain ob r where
    o: "read_entry h a = Some ob" "read_entries h kvs = Some r" "es = (k, ob) # r"
    by (auto split: option.splits)
  from Cons.IH[OF o(2)] o kv show ?case by simp
qed

lemma read_entries_defined:
  "read_entries h kvs = Some es \<Longrightarrow> map_of kvs n = Some a \<Longrightarrow> \<exists>ob. read_entry h a = Some ob"
proof -
  assume r: "read_entries h kvs = Some es" and m: "map_of kvs n = Some a"
  from m have "(n, a) \<in> set kvs" by (rule map_of_SomeD)
  with r show ?thesis
    by (induction kvs arbitrary: es) (auto split: option.splits)
qed

lemma dict_get_h_read:
  assumes r: "read_entries h kvs = Some es" and q: "read_proto h pr = Some po"
  shows "dict_get_h h kvs pr k = Some (dict_get \<lparr>own = es, proto = po\<rparr> k)"
proof (cases "map_of kvs k")
  case None
  with map_of_read_entries[OF r, of k] have "map_of es k = None" by simp
  with None q show ?thesis
    by (cases pr) (auto simp: dict_get_h_def dict_get_def read_proto_def)
next
  case (Some a)
  from read_entries_defined[OF r Some] obtain ob where ob: "read_entry h a = Some ob" ..
  with map_of_read_entries[OF r, of k] Some have "map_of es k = Some ob" by simp
  with Some ob show ?thesis
    by (simp add: dict_get_h_def dict_get_def)
qed

lemma read_entries_update:
  "read_entries h kvs = Some es \<Longrightarrow> read_entry h a = Some e \<Longrightarrow>
   read_entries h (AList.update k a kvs) = Some (AList.update k e es)"
proof (induction kvs arbitrary: es)
  case Nil
  then show ?case by simp
next
  case (Cons kv kvs)
  obtain k' a' where kv: "kv = (k', a')" by (cases kv)
  from Cons.prems(1) kv obtain ob r where
    o: "read_entry h a' = Some ob" "read_entries h kvs = Some r" "es = (k', ob) # r"
    by (auto split: option.splits)
  from Cons.IH[OF o(2) Cons.prems(2)] o kv Cons.prems(2) show ?case by simp
qed

lemma dict_set_h_read:
  assumes r: "read_entries h kvs = Some es" and q: "read_proto h pr = Some po"
    and e: "read_entry h a = Some e"
  shows "\<exists>kvs' pr'. dict_set_h h kvs pr k a = Some (ObjectsCell kvs' pr') \<and>
           read_entries h kvs' = Some (own (dict_set \<lparr>own = es, proto = po\<rparr> k e)) \<and>
           read_proto h pr' = Some (proto (dict_set \<lparr>own = es, proto = po\<rparr> k e))"
proof -
  have none: "(map_of kvs k = None) = (map_of es k = None)"
    using map_of_read_entries[OF r, of k] read_entries_defined[OF r, of k]
    by (cases "map_of kvs k") auto
  note u = read_entries_update[OF r e, of k]
  show ?thesis
  proof (cases pr)
    case None
    with q have po: "po = None" by (simp add: read_proto_def)
    show ?thesis
      using None po none r q e u
      by (auto simp: dict_set_h_def dict_set_def read_proto_def)
  next
    case (Some pa)
    with q obtain p where p: "read_entry h pa = Some p" "po = Some p"
      by (auto simp: read_proto_def)
    show ?thesis
      using Some p none r q e u
      by (auto simp: dict_set_h_def dict_set_def read_proto_def)
  qed
qed

lemma read_entry_after_write:
  assumes m: "lookup h m = Some (ObjectsCell kvs pr)"
    and r: "read_entry h a = Some ob"
  shows "read_entry (h[m := c]) a = Some ob"
proof -
  from r have a: "a < length h" "h ! a = EntryCell ob"
    by (auto simp: read_entry_def lookup_def split: if_splits cell.splits)
  from m have "m < length h" "h ! m = ObjectsCell kvs pr"
    by (auto simp: lookup_def split: if_splits)
  with a have "a \<noteq> m" by auto
  with a show ?thesis
    by (simp add: read_entry_def lookup_def)
qed

text \<open>One assignment \<open>map[k] = {...}\<close> on the heap: allocate the entry, then write the map.\<close>

lemma assign_on_heap:
  assumes t: "take (length h0) h = h0" and le: "length h0 \<le> m"
    and m: "lookup h m = Some (ObjectsCell kvs pr)"
    and r: "read_entries h kvs = Some es" and q: "read_proto h pr = Some po"
  shows "\<exists>c kvs' pr'. dict_set_h (h @ [EntryCell e]) kvs pr k (length h) = Some c \<and>
           c = ObjectsCell kvs' pr' \<and>
           take (length h0) ((h @ [EntryCell e])[m := c]) = h0 \<and>
           lookup ((h @ [EntryCell e])[m := c]) m = Some (ObjectsCell kvs' pr') \<and>
           read_entries ((h @ [EntryCell e])[m := c]) kvs' =
             Some (own (dict_set \<lparr>own = es, proto = po\<rparr> k e)) \<and>
           read_proto ((h @ [EntryCell e])[m := c]) pr' =
             Some (proto (dict_set \<lparr>own = es, proto = po\<rparr> k e))"
proof -
  let ?h1 = "h @ [EntryCell e]"
  have t1: "take (length h) ?h1 = h" by simp
  have m1: "lookup ?h1 m = Some (ObjectsCell kvs pr)"
    using lookup_append[OF lookup_bound[OF m]] m by simp
  have e1: "read_entry ?h1 (length h) = Some e"
    by (simp add: read_entry_def lookup_def)
  from dict_set_h_read[OF read_entries_extends[OF t1 r] read_proto_extends[OF t1 q] e1, of k]
  obtain kvs' pr' where
    d: "dict_set_h ?h1 kvs pr k (length h) = Some (ObjectsCell kvs' pr')"
       "read_entries ?h1 kvs' = Some (own (dict_set \<lparr>own = es, proto = po\<rparr> k e))"
       "read_proto ?h1 pr' = Some (proto (dict_set \<lparr>own = es, proto = po\<rparr> k e))"
    by blast
  let ?h2 = "?h1[m := ObjectsCell kvs' pr']"
  have keep: "read_entry ?h2 x = Some y" if "read_entry ?h1 x = Some y" for x y
    using read_entry_after_write[OF m1 that] .
  have mb: "m < length h" using lookup_bound[OF m] .
  have t2: "take (length h0) ?h2 = h0"
    using t le mb by (simp add: take_update_cancel)
  have l2: "lookup ?h2 m = Some (ObjectsCell kvs' pr')"
    using mb by (simp add: lookup_def)
  from d(1) t2 l2 read_entries_mono[OF keep d(2)] read_proto_mono[OF keep d(3)]
  show ?thesis by blast
qed

lemma set_bulk_loop_h_sim:
  "take (length h0) h = h0 \<Longrightarrow> length h0 \<le> m \<Longrightarrow>
   lookup h m = Some (ObjectsCell kvs pr) \<Longrightarrow> read_entries h kvs = Some es \<Longrightarrow>
   read_proto h pr = Some po \<Longrightarrow>
   \<exists>h' kvs' pr'. set_bulk_loop_h clk i payload m h = Some h' \<and> take (length h0) h' = h0 \<and>
      lookup h' m = Some (ObjectsCell kvs' pr') \<and>
      read_entries h' kvs' = Some (own (set_bulk_loop clk i payload \<lparr>own = es, proto = po\<rparr>)) \<and>
      read_proto h' pr' = Some (proto (set_bulk_loop clk i payload \<lparr>own = es, proto = po\<rparr>))"
proof (induction payload arbitrary: h kvs pr es po i)
  case Nil
  then show ?case by auto
next
  case (Cons x payload)
  obtain n p where x: "x = (n, p)" by (cases x)
  let ?d = "\<lparr>own = es, proto = po\<rparr>"
  let ?e = "loaded_entry (dict_get ?d n) p (clk i)"
  let ?d' = "dict_set ?d n ?e"
  from assign_on_heap[OF Cons.prems(1,2,3,4,5), of ?e n]
  obtain c kvs' pr' where
    a: "dict_set_h (h @ [EntryCell ?e]) kvs pr n (length h) = Some c"
       "c = ObjectsCell kvs' pr'"
       "take (length h0) ((h @ [EntryCell ?e])[m := c]) = h0"
       "lookup ((h @ [EntryCell ?e])[m := c]) m = Some (ObjectsCell kvs' pr')"
       "read_entries ((h @ [EntryCell ?e])[m := c]) kvs' = Some (own ?d')"
       "read_proto ((h @ [EntryCell ?e])[m := c]) pr' = Some (proto ?d')"
    by blast
  have d': "\<lparr>own = own ?d', proto = proto ?d'\<rparr> = ?d'" by simp
  from Cons.IH[OF a(3) Cons.prems(2) a(4) a(5) a(6), of "Suc i"] d'
  obtain h' kvs2 pr2 where
    h': "set_bulk_loop_h clk (Suc i) payload m ((h @ [EntryCell ?e])[m := c]) = Some h'"
        "take (length h0) h' = h0"
        "lookup h' m = Some (ObjectsCell kvs2 pr2)"
        "read_entries h' kvs2 = Some (own (set_bulk_loop clk (Suc i) payload ?d'))"
        "read_proto h' pr2 = Some (proto (set_bulk_loop clk (Suc i) payload ?d'))"
    by auto
  have "set_bulk_loop_h clk i (x # payload) m h = Some h'"
    using x Cons.prems(3) dict_get_h_read[OF Cons.prems(4,5), of n] a(1) h'(1)
    by (simp add: alloc_def)
  with h'(2,3,4,5) x show ?case by auto
qed

lemma set_defaults_loop_h_sim:
  "take (length h0) h = h0 \<Longrightarrow> length h0 \<le> m \<Longrightarrow>
   lookup h m = Some (ObjectsCell kvs pr) \<Longrightarrow> read_entries h kvs = Some es \<Longrightarrow>
   read_proto h pr = Some po \<Longrightarrow>
   \<exists>h' kvs' pr'. set_defaults_loop_h payload m h = Some h' \<and> take (length h0) h' = h0 \<and>
      lookup h' m = Some (ObjectsCell kvs' pr') \<and>
      read_entries h' kvs' = Some (own (set_defaults_loop payload \<lparr>own = es, proto = po\<rparr>)) \<and>
      read_proto h' pr' = Some (proto (set_defaults_loop payload \<lparr>own = es, proto = po\<rparr>))"
proof (induction payload arbitrary: h kvs pr es po)
  case Nil
  then show ?case by auto
next
  case (Cons x payload)
  obtain n p where x: "x = (n, p)" by (cases x)
  let ?d = "\<lparr>own = es, proto = po\<rparr>"
  show ?case
  proof (cases "found (dict_get ?d n)")
    case False
    from Cons.IH[OF Cons.prems(1,2,3,4,5)]
    obtain h' kvs2 pr2 where
      h': "set_defaults_loop_h payload m h = Some h'"
          "take (length h0) h' = h0"
          "lookup h' m = Some (ObjectsCell kvs2 pr2)"
          "read_entries h' kvs2 = Some (own (set_defaults_loop payload ?d))"
          "read_proto h' pr2 = Some (proto (set_defaults_loop payload ?d))"
      by blast
    have "set_defaults_loop_h (x # payload) m h = Some h'"
      using x Cons.prems(3) dict_get_h_read[OF Cons.prems(4,5), of n] False h'(1)
      by simp
    with h'(2,3,4,5) x False show ?thesis by auto
  next
    case True
    let ?e = "with_defaults (dict_get ?d n) n p"
    let ?d' = "dict_set ?d n ?e"
    from assign_on_heap[OF Cons.prems(1,2,3,4,5), of ?e n]
    obtain c kvs' pr' where
      a: "dict_set_h (h @ [EntryCell ?e]) kvs pr n (length h) = Some c"
         "c = ObjectsCell kvs' pr'"
         "take (length h0) ((h @ [EntryCell ?e])[m := c]) = h0"
         "lookup ((h @ [EntryCell ?e])[m := c]) m = Some (ObjectsCell kvs' pr')"
         "read_entries ((h @ [EntryCell ?e])[m := c]) kvs' = Some (own ?d')"
         "read_proto ((h @ [EntryCell ?e])[m := c]) pr' = Some (proto ?d')"
      by blast
    have d': "\<lparr>own = own ?d', proto = proto ?d'\<rparr> = ?d'" by simp
    from Cons.IH[OF a(3) Cons.prems(2) a(4) a(5) a(6)] d'
    obtain h' kvs2 pr2 where
      h': "set_defaults_loop_h payload m ((h @ [EntryCell ?e])[m := c]) = Some h'"
          "take (length h0) h' = h0"
          "lookup h' m = Some (ObjectsCell kvs2 pr2)"
          "read_entries h' kvs2 = Some (own (set_defaults_loop payload ?d'))"
          "read_proto h' pr2 = Some (proto (set_defaults_loop payload ?d'))"
      by auto
    have "set_defaults_loop_h (x # payload) m h = Some h'"
      using x Cons.prems(3) dict_get_h_read[OF Cons.prems(4,5), of n] True a(1) h'(1)
      by (simp add: alloc_def)
    with h'(2,3,4,5) x True show ?thesis by auto
  qed
qed

lemma reducer_on_heap:
  "read_state h p = Some s \<Longrightarrow>
   \<exists>p' h'. novaReducer_h clk h p a = Some (p', h') \<and> take (length h) h' = h \<and>
     read_state h' p' = Some (novaReducer clk s a) \<and> read_state h' p = Some s"
proof -
  assume r: "read_state h p = Some s"
  from read_state_parts[OF r] obtain c u ob l e cfg kvs pr es po where
    p: "lookup h p = Some (StateCell c u ob l e)" and c: "lookup h c = Some (ConfigCell cfg)"
    and o: "lookup h ob = Some (ObjectsCell kvs pr)" "read_entries h kvs = Some es"
       "read_proto h pr = Some po"
    and s: "s = \<lparr>config = cfg, user = u, objects = \<lparr>own = es, proto = po\<rparr>,
                 isLoading = l, error = e\<rparr>"
    by blast
  have lt: "p < length h" "c < length h" "ob < length h"
    using lookup_bound[OF p] lookup_bound[OF c] lookup_bound[OF o(1)] .
  have step: "\<exists>p' h'. reduce_cell clk h p c u ob l e a = Some (p', h') \<and>
      take (length h) h' = h \<and> read_state h' p' = Some (novaReducer clk s a)"
  proof (cases a)
    case (SET_CONFIG org app ep)
    let ?h' = "h @ [ConfigCell (merge_config cfg org app ep), StateCell (length h) u ob l e]"
    have t: "take (length h) ?h' = h" by simp
    have "read_state ?h' (Suc (length h)) = Some (novaReducer clk s a)"
      using lookup_extends[OF t lt(3)] read_entries_extends[OF t o(2)]
        read_proto_extends[OF t o(3)] o(1) s SET_CONFIG
      by (simp add: read_state_def read_objects_def lookup_def nth_append)
    with SET_CONFIG c t show ?thesis by (simp add: alloc_def)
  next
    case (SET_USER usr)
    let ?h' = "h @ [StateCell c (Some usr) ob l e]"
    have t: "take (length h) ?h' = h" by simp
    have "read_state ?h' (length h) = Some (novaReducer clk s a)"
      using lookup_extends[OF t lt(2)] lookup_extends[OF t lt(3)]
        read_entries_extends[OF t o(2)] read_proto_extends[OF t o(3)] c o(1) s SET_USER
      by (simp add: read_state_def read_objects_def lookup_def[of ?h' "length h"])
    with SET_USER t show ?thesis by (simp add: alloc_def)
  next
    case (SET_DEFAULTS payload)
    let ?h1 = "h @ [ObjectsCell [] None]"
    have t1: "take (length h) ?h1 = h" by simp
    have l1: "lookup ?h1 (length h) = Some (ObjectsCell [] None)"
      by (simp add: lookup_def)
    have e1: "read_entries ?h1 [] = Some []" by simp
    have q1: "read_proto ?h1 None = Some None" by (simp add: read_proto_def)
    from set_defaults_loop_h_sim[OF t1 _ l1 e1 q1, of payload]
    obtain h2 kvs' pr' where
      h2: "set_defaults_loop_h payload (length h) ?h1 = Some h2" "take (length h) h2 = h"
        "lookup h2 (length h) = Some (ObjectsCell kvs' pr')"
        "read_entries h2 kvs' =
           Some (own (set_defaults_loop payload \<lparr>own = [], proto = None\<rparr>))"
        "read_proto h2 pr' =
           Some (proto (set_defaults_loop payload \<lparr>own = [], proto = None\<rparr>))"
      by auto
    let ?h' = "h2 @ [StateCell c u (length h) l e]"
    have len: "length h < length h2" using lookup_bound[OF h2(3)] .
    have t2: "take (length h2) ?h' = h2" by simp
    have t: "take (length h) ?h' = h"
      using h2(2) len by simp
    have "read_state ?h' (length h2) = Some (novaReducer clk s a)"
      using lookup_extends[OF t lt(2)] c s SET_DEFAULTS
        lookup_extends[OF t2 len] h2(3) read_entries_extends[OF t2 h2(4)]
        read_proto_extends[OF t2 h2(5)]
      by (simp add: read_state_def read_objects_def lookup_def[of ?h' "length h2"])
    with SET_DEFAULTS h2(1) t show ?thesis by (simp add: alloc_def)
  next
    case (UPDATE_OBJECT_PROPS n v)
    let ?ob = "loaded_entry (dict_get \<lparr>own = es, proto = po\<rparr> n) v (clk 0)"
    let ?kvs = "AList.update n (length h) kvs"
    let ?h2 = "h @ [EntryCell ?ob, ObjectsCell ?kvs None]"
    let ?h' = "?h2 @ [StateCell c u (Suc (length h)) l e]"
    have t: "take (length h) ?h' = h" by simp
    have e: "read_entry ?h' (length h) = Some ?ob"
      by (simp add: read_entry_def lookup_def nth_append)
    have "read_entries ?h' ?kvs = Some (AList.update n ?ob es)"
      using read_entries_update[OF read_entries_extends[OF t o(2)] e] .
    then have "read_state ?h' (Suc (Suc (length h))) = Some (novaReducer clk s a)"
      using lookup_extends[OF t lt(2)] c s UPDATE_OBJECT_PROPS
      by (simp add: read_state_def read_objects_def read_proto_def lookup_def nth_append)
    with UPDATE_OBJECT_PROPS o(1) dict_get_h_read[OF o(2,3), of n] t show ?thesis
      by (simp add: alloc_def)
  next
    case (SET_BULK_OBJECTS payload)
    let ?h1 = "h @ [ObjectsCell kvs None]"
    have t1: "take (length h) ?h1 = h" by simp
    have l1: "lookup ?h1 (length h) = Some (ObjectsCell kvs None)"
      by (simp add: lookup_def)
    have q1: "read_proto ?h1 None = Some None" by (simp add: read_proto_def)
    from set_bulk_loop_h_sim[OF t1 _ l1 read_entries_extends[OF t1 o(2)] q1, of clk 0 payload]
    obtain h2 kvs' pr' where
      h2: "set_bulk_loop_h clk 0 payload (length h) ?h1 = Some h2" "take (length h) h2 = h"
        "lookup h2 (length h) = Some (ObjectsCell kvs' pr')"
        "read_entries h2 kvs' =
           Some (own (set_bulk_loop clk 0 payload \<lparr>own = es, proto = None\<rparr>))"
        "read_proto h2 pr' =
           Some (proto (set_bulk_loop clk 0 payload \<lparr>own = es, proto = None\<rparr>))"
      by auto
    let ?h' = "h2 @ [StateCell c u (length h) l e]"
    have len: "length h < length h2" using lookup_bound[OF h2(3)] .
    have t2: "take (length h2) ?h' = h2" by simp
    have t: "take (length h) ?h' = h"
      using h2(2) len by simp
    have "read_state ?h' (length h2) = Some (novaReducer clk s a)"
      using lookup_extends[OF t lt(2)] c s SET_BULK_OBJECTS
        lookup_extends[OF t2 len] h2(3) read_entries_extends[OF t2 h2(4)]
        read_proto_extends[OF t2 h2(5)]
      by (simp add: read_state_def read_objects_def spread_dict_def
            lookup_def[of ?h' "length h2"])
    with SET_BULK_OBJECTS o(1) h2(1) t show ?thesis by (simp add: alloc_def)
  next
    case (SET_LOADING b)
    let ?h' = "h @ [StateCell c u ob b e]"
    have t: "take (length h) ?h' = h" by simp
    have "read_state ?h' (length h) = Some (novaReducer clk s a)"
      using lookup_extends[OF t lt(2)] lookup_extends[OF t lt(3)]
        read_entries_extends[OF t o(2)] read_proto_extends[OF t o(3)] c o(1) s SET_LOADING
      by (simp add: read_state_def read_objects_def lookup_def[of ?h' "length h"])
    with SET_LOADING t show ?thesis by (simp add: alloc_def)
  next
    case (SET_ERROR er)
    let ?h' = "h @ [StateCell c u ob l er]"
    have t: "take (length h) ?h' = h" by simp
    have "read_state ?h' (length h) = Some (novaReducer clk s a)"
      using lookup_extends[OF t lt(2)] lookup_extends[OF t lt(3)]
        read_entries_extends[OF t o(2)] read_proto_extends[OF t o(3)] c o(1) s SET_ERROR
      by (simp add: read_state_def read_objects_def lookup_def[of ?h' "length h"])
    with SET_ERROR t show ?thesis by (simp add: alloc_def)
  next
    case OTHER_ACTION
    with r show ?thesis by simp
  qed
  then obtain p' h' where
    res: "reduce_cell clk h p c u ob l e a = Some (p', h')" "take (length h) h' = h"
      "read_state h' p' = Some (novaReducer clk s a)"
    by blast
  from res p read_state_extends[OF res(2) r] show ?thesis
    by (auto simp: novaReducer_h_def)
qed

lemma set_bulk_loop_clock:
  "(\<forall>j<length es. clk1 (i + j) = clk2 (i + j)) \<Longrightarrow>
   set_bulk_loop clk1 i es d = set_bulk_loop clk2 i es d"
proof (induction es arbitrary: i d)
  case Nil
  then show ?case by simp
next
  case (Cons x es)
  obtain n p where x: "x = (n, p)" by (cases x)
  from Cons.prems have h: "clk1 i = clk2 i" by force
  have "\<forall>j<length es. clk1 (Suc i + j) = clk2 (Suc i + j)"
  proof (intro allI impI)
    fix j assume "j < length es"
    then have "Suc j < length (x # es)" by simp
    with Cons.prems have "clk1 (i + Suc j) = clk2 (i + Suc j)" by blast
    then show "clk1 (Suc i + j) = clk2 (Suc i + j)" by simp
  qed
  from Cons.IH[OF this] h x show ?case by simp
qed

text \<open>Blanking the time stamps commutes with everything the reducer does to the map.\<close>

lemma forget_time_update:
  "forget_time (AList.update k v e) = AList.update k (blank_at k v) (forget_time e)"
  by (induction e) (auto simp: forget_time_def)

lemma map_of_forget_time:
  "map_of (forget_time e) k = map_option (blank_at k) (map_of e k)"
  by (induction e) (auto simp: forget_time_def)

lemma forget_own_update:
  "map (\<lambda>(k, ob). (k, forget_time ob)) (AList.update n v al) =
   AList.update n (forget_time v) (map (\<lambda>(k, ob). (k, forget_time ob)) al)"
  by (induction al) auto

lemma forget_own_lookup:
  "map_of (map (\<lambda>(k, ob). (k, forget_time ob)) al) n = map_option forget_time (map_of al n)"
  by (induction al) auto

lemma forget_time_spread_value: "forget_time (spread_value v) = spread_value v"
  by (simp add: forget_time_def spread_value_def blank_at_def case_prod_unfold)

lemma spread_blank: "spread_looked (Field (blank_at k f)) = spread_looked (Field f)"
  by (cases f) (simp_all add: blank_at_def)

lemma forget_time_Nil: "forget_time [] = []"
  by (simp add: forget_time_def)

lemma own_forget_times:
  "map_of (own (forget_times d)) k = map_option forget_time (map_of (own d) k)"
  by (simp add: forget_times_def forget_own_lookup)

lemma proto_forget_times: "proto (forget_times d) = map_option forget_time (proto d)"
  by (simp add: forget_times_def)

lemma spread_forget:
  "spread_looked (dict_get (forget_times d) k) = forget_time (spread_looked (dict_get d k))"
proof (cases "map_of (own d) k")
  case (Some e)
  then show ?thesis
    by (simp add: dict_get_def own_forget_times)
next
  case None
  show ?thesis
  proof (cases "proto d")
    case pn: None
    with None show ?thesis
      by (simp add: dict_get_def own_forget_times proto_forget_times builtin_or_missing_def
            forget_time_Nil)
  next
    case (Some e)
    show ?thesis
    proof (cases "map_of e k")
      case fn: None
      with None Some show ?thesis
        by (simp add: dict_get_def own_forget_times proto_forget_times inherited_from_def
              map_of_forget_time builtin_or_missing_def forget_time_Nil)
    next
      case (Some f)
      have "forget_time (spread_looked (Field f)) = spread_looked (Field f)"
        by (cases f) (simp_all add: forget_time_spread_value forget_time_Nil)
      with None \<open>proto d = Some e\<close> Some show ?thesis
        by (simp add: dict_get_def own_forget_times proto_forget_times inherited_from_def
              map_of_forget_time spread_blank)
    qed
  qed
qed

lemma forget_loaded_entry:
  "forget_time (loaded_entry (dict_get d k) p t) =
   loaded_entry (dict_get (forget_times d) k) p 0"
  by (simp add: loaded_entry_def forget_time_update spread_forget blank_at_def)

lemma forget_dict_set:
  "forget_times (dict_set d k e) = dict_set (forget_times d) k (forget_time e)"
  by (cases "proto d")
     (auto simp: dict_set_def forget_times_def forget_own_lookup forget_own_update
        map_of_forget_time)

lemma forget_set_bulk_loop:
  "forget_times (set_bulk_loop clk i es d) = set_bulk_loop (\<lambda>j. 0) i es (forget_times d)"
proof (induction es arbitrary: i d)
  case Nil
  then show ?case by simp
next
  case (Cons x es)
  obtain n p where x: "x = (n, p)" by (cases x)
  show ?case
    unfolding x set_bulk_loop.simps Cons.IH
    by (simp add: forget_dict_set forget_loaded_entry)
qed

text \<open>
  Claim C2, as amended: the reducer is a function of the state, the action and the clock
  readings it takes (one for update-single-object-props, one per entry for set-bulk-objects,
  none for the other actions). Two runs on the same state and action whose clock readings
  agree give equal states, so for the actions that take no reading the result never depends
  on the clock; two runs at different times give states that are equal up to the
  \<open>lastFetched\<close> stamps. On the heap, a run from a well-formed state object returns a
  state object that stands for the reducer's result and leaves every cell that existed
  before as it was, so the input state object still stands for the same state afterwards.
\<close>

theorem reducer_pure_up_to_clock:
  "((\<forall>i<stamps a. clk1 i = clk2 i) \<longrightarrow> novaReducer clk1 s a = novaReducer clk2 s a) \<and>
   without_times (novaReducer clk1 s a) = without_times (novaReducer clk2 s a) \<and>
   (read_state h p = Some s \<longrightarrow>
      (\<exists>p' h'. novaReducer_h clk1 h p a = Some (p', h') \<and> take (length h) h' = h \<and>
         read_state h' p' = Some (novaReducer clk1 s a) \<and> read_state h' p = Some s))"
proof -
  have same: "novaReducer clk1 s a = novaReducer clk2 s a"
    if "\<forall>i<stamps a. clk1 i = clk2 i"
  proof (cases a)
    case (SET_BULK_OBJECTS payload)
    with that have "\<forall>j<length payload. clk1 (0 + j) = clk2 (0 + j)"
      by (simp add: stamps_def)
    from set_bulk_loop_clock[OF this] SET_BULK_OBJECTS show ?thesis by simp
  qed (use that in \<open>simp_all add: stamps_def\<close>)
  have times: "without_times (novaReducer clk1 s a) = without_times (novaReducer clk2 s a)"
  proof (cases a)
    case (UPDATE_OBJECT_PROPS n v)
    then show ?thesis
      by (simp add: without_times_def forget_times_def forget_own_update forget_loaded_entry)
  next
    case (SET_BULK_OBJECTS payload)
    then show ?thesis
      by (simp add: without_times_def forget_set_bulk_loop)
  qed (simp_all add: without_times_def)
  from same times reducer_on_heap[of h p s clk1 a] show ?thesis by blast
qed

lemmas heap_defs =
  novaReducer_h_def lookup_def alloc_def read_entry_def dict_get_h_def read_objects_def
  read_proto_def read_state_def ex_heap_def ex_heap_after_def dict_get_def loaded_entry_def

theorem reducer_pure_up_to_clock_witness:
  "stamps (UPDATE_OBJECT_PROPS ''x'' (JNum 1)) = 1 \<and>
   ex_clock 0 = ex_clock_once 0 \<and> ex_clock 1 \<noteq> ex_clock_once 1 \<and>
   novaReducer ex_clock ex_state (UPDATE_OBJECT_PROPS ''x'' (JNum 1)) =
     novaReducer ex_clock_once ex_state (UPDATE_OBJECT_PROPS ''x'' (JNum 1)) \<and>
   stamps (SET_ERROR (Some ''down'')) = 0 \<and>
   novaReducer ex_clock ex_state (SET_ERROR (Some ''down'')) =
     novaReducer ex_clock_later ex_state (SET_ERROR (Some ''down'')) \<and>
   read_state ex_heap 4 = Some ex_state \<and>
   novaReducer_h ex_clock ex_heap 4 (UPDATE_OBJECT_PROPS ''x'' (JNum 1)) =
     Some (7, ex_heap_after) \<and>
   take (length ex_heap) ex_heap_after = ex_heap \<and>
   read_state ex_heap_after 7 =
     Some (novaReducer ex_clock ex_state (UPDATE_OBJECT_PROPS ''x'' (JNum 1))) \<and>
   read_state ex_heap_after 4 = Some ex_state"
proof -
  have st: "stamps (UPDATE_OBJECT_PROPS ''x'' (JNum 1)) = 1"
    "stamps (SET_ERROR (Some ''down'')) = 0"
    by (simp_all add: stamps_def)
  have ck: "ex_clock 0 = ex_clock_once 0" "ex_clock 1 \<noteq> ex_clock_once 1"
    by (simp_all add: ex_clock_def ex_clock_once_def)
  have rd: "read_state ex_heap 4 = Some ex_state"
    by (simp add: heap_defs ex_state_def)
  have run: "novaReducer_h ex_clock ex_heap 4 (UPDATE_OBJECT_PROPS ''x'' (JNum 1)) =
     Some (7, ex_heap_after)"
    by (simp add: heap_defs ex_clock_def ex_unloaded_def)
  note t1 = reducer_pure_up_to_clock[of "UPDATE_OBJECT_PROPS ''x'' (JNum 1)" ex_clock
              ex_clock_once ex_state ex_heap 4]
  note t2 = reducer_pure_up_to_clock[of "SET_ERROR (Some ''down'')" ex_clock
              ex_clock_later ex_state ex_heap 4]
  from t1 st ck have a: "novaReducer ex_clock ex_state (UPDATE_OBJECT_PROPS ''x'' (JNum 1)) =
     novaReducer ex_clock_once ex_state (UPDATE_OBJECT_PROPS ''x'' (JNum 1))"
    by simp
  from t2 st have b: "novaReducer ex_clock ex_state (SET_ERROR (Some ''down'')) =
     novaReducer ex_clock_later ex_state (SET_ERROR (Some ''down''))"
    by simp
  from t1 rd run have c: "take (length ex_heap) ex_heap_after = ex_heap \<and>
     read_state ex_heap_after 7 =
       Some (novaReducer ex_clock ex_state (UPDATE_OBJECT_PROPS ''x'' (JNum 1))) \<and>
     read_state ex_heap_after 4 = Some ex_state"
    by simp
  from st ck a b rd run c show ?thesis by simp
qed

text \<open>
  The claim as stated fails for the two actions that stamp \<open>lastFetched\<close>: the same state
  and the same action give different states when the clock shows 1000 the first time and
  2000 the second.
\<close>

theorem reducer_pure_up_to_clock_counterexample:
  "novaReducer ex_clock ex_state (UPDATE_OBJECT_PROPS ''x'' JNull) \<noteq>
     novaReducer ex_clock_later ex_state (UPDATE_OBJECT_PROPS ''x'' JNull) \<and>
   looked_member
     (dict_get (objects (novaReducer ex_clock ex_state (UPDATE_OBJECT_PROPS ''x'' JNull))) ''x'')
     ''lastFetched'' = Date 1000 \<and>
   looked_member
     (dict_get (objects (novaReducer ex_clock_later ex_state (UPDATE_OBJECT_PROPS ''x'' JNull)))
        ''x'')
     ''lastFetched'' = Date 2000 \<and>
   novaReducer ex_clock ex_state (SET_BULK_OBJECTS [(''x'', JNull)]) \<noteq>
     novaReducer ex_clock_later ex_state (SET_BULK_OBJECTS [(''x'', JNull)])"
  by (simp add: ex_state_def ex_clock_def ex_clock_later_def ex_unloaded_def ex_loaded_def
        dict_get_def dict_set_def spread_dict_def loaded_entry_def)

section \<open>Facts about the provider\<close>

lemmas provider_defs =
  setLoading_def setError_def dispatch_def console_log_def console_error_def

lemmas ex_defs =
  ex_config_def ex_user_def ex_defaults_def ex_loaded_def ex_unloaded_def ex_state_def
  ex_browser_def ex_anonymous_def ex_busy_def ex_clock_def ex_variant_def ex_network_def
  ex_offline_def ex_not_found_def ex_garbled_def ex_network_proto_def ex_options_def
  ex_loaded_null_def

lemmas dict_defs =
  dict_get_def dict_set_def spread_dict_def inherited_from_def builtin_or_missing_def
  object_prototype_names_def loaded_entry_def with_defaults_def spread_value_def
  fresh_entry_def

lemmas load_eval_defs =
  loadObject_def loadObjects_def loadAllObjects_def bulk_request_def getNovaObject_def
  readNovaObject_def getNovaObject_v2_def Let_def provider_defs callApi_def callApi_init_def
  js_spread_def isObjectLoaded_def ok_def variant_body_def js_or_def val_or_def opt_member_def
  collect_variants_def not_found_def quoted_def as_val_def
  precondition_error_def single_request_def batch_request_def

lemma loaded_entry_fields:
  "map_of (loaded_entry x p t) ''props'' = Some (Val p)"
  "map_of (loaded_entry x p t) ''isLoaded'' = Some (Val (JBool True))"
  "map_of (loaded_entry x p t) ''lastFetched'' = Some (Date t)"
  by (simp_all add: loaded_entry_def update_conv')

lemma loaded_entry_other:
  "k \<noteq> ''props'' \<Longrightarrow> k \<noteq> ''isLoaded'' \<Longrightarrow> k \<noteq> ''lastFetched'' \<Longrightarrow>
   map_of (loaded_entry x p t) k = map_of (spread_looked x) k"
  by (simp add: loaded_entry_def update_conv')

lemma fetched_callApi:
  "fetched (snd (callApi fetch url options b)) = fetched b @ [(url, callApi_init options)]"
  by (simp add: callApi_def Let_def split: sum.splits)

lemma loadObject_entry:
  "user (store b) = Some u \<Longrightarrow> f \<or> \<not> isObjectLoaded (store b) n \<Longrightarrow>
   fst (loadObject clk fetch n f b) = Inr data \<Longrightarrow>
   objects (store (snd (loadObject clk fetch n f b))) =
     \<lparr>own = AList.update n
              (loaded_entry (dict_get (objects (store b)) n) (opt_member data ''variant_config'')
                 (clk 0))
              (own (objects (store b))),
      proto = None\<rparr>"
  by (auto simp: loadObject_def Let_def provider_defs callApi_def
       split: sum.splits prod.splits if_splits)

section \<open>Reading an object\<close>

text \<open>
  Claim C3, as amended. What the three readers do depends on what the lookup
  \<open>state.objects[name]\<close> finds. When it finds something truthy, both versions of
  \<open>getNovaObject\<close> return its \<open>props\<close> when they are truthy and its \<open>defaultProps\<close>
  otherwise, while \<open>readNovaObject\<close> returns its \<open>props\<close> as they are, with no fallback to
  the defaults; nothing is logged and nothing changes. This is so for a name with an entry
  of its own, where the properties are those of the entry. It is also so for a name with no
  entry that \<open>Object.prototype\<close> provides, such as \<open>toString\<close>: the lookup finds the
  inherited member, which has neither property, so all three return \<open>undefined\<close>, without
  a log line and without a load. When the lookup finds nothing (as for every name with no
  entry that is not inherited, in a map with the prototype of a literal), \<open>readNovaObject\<close>,
  the synchronous \<open>getNovaObject\<close> and the asynchronous one called with \<open>readOnly\<close> log
  an error and return \<open>null\<close>; the asynchronous one without \<open>readOnly\<close> is \<open>loadObject\<close>
  for that name. After a load that returned a truthy \<open>variant_config\<close>, all three return
  that configuration.
\<close>

theorem read_and_get_object:
  "(found (dict_get (objects (store b)) n) \<longrightarrow>
       readNovaObject n b = (looked_member (dict_get (objects (store b)) n) ''props'', b) \<and>
       getNovaObject_v2 n b =
         (val_or (looked_member (dict_get (objects (store b)) n) ''props'')
            (looked_member (dict_get (objects (store b)) n) ''defaultProps''), b) \<and>
       getNovaObject clk fetch n ro b =
         (Inr (val_or (looked_member (dict_get (objects (store b)) n) ''props'')
                 (looked_member (dict_get (objects (store b)) n) ''defaultProps'')), b)) \<and>
   (map_of (own (objects (store b))) n = Some ob \<longrightarrow>
       dict_get (objects (store b)) n = Entry ob \<and>
       readNovaObject n b = (looked_member (Entry ob) ''props'', b) \<and>
       getNovaObject_v2 n b =
         (if truthy_val (looked_member (Entry ob) ''props'')
          then looked_member (Entry ob) ''props''
          else looked_member (Entry ob) ''defaultProps'', b) \<and>
       getNovaObject clk fetch n ro b =
         (Inr (if truthy_val (looked_member (Entry ob) ''props'')
               then looked_member (Entry ob) ''props''
               else looked_member (Entry ob) ''defaultProps''), b)) \<and>
   (map_of (own (objects (store b))) n = None \<and> proto (objects (store b)) = None \<and>
    n \<in> set object_prototype_names \<longrightarrow>
       readNovaObject n b = (Val JUndefined, b) \<and>
       getNovaObject_v2 n b = (Val JUndefined, b) \<and>
       getNovaObject clk fetch n ro b = (Inr (Val JUndefined), b)) \<and>
   (map_of (own (objects (store b))) n = None \<and> proto (objects (store b)) = None \<and>
    n \<notin> set object_prototype_names \<longrightarrow>
       \<not> found (dict_get (objects (store b)) n)) \<and>
   (\<not> found (dict_get (objects (store b)) n) \<longrightarrow>
       readNovaObject n b = (Val JNull, console_error (not_found n) b) \<and>
       getNovaObject_v2 n b = (Val JNull, console_error (not_found n) b) \<and>
       getNovaObject clk fetch n True b = (Inr (Val JNull), console_error (not_found n) b) \<and>
       getNovaObject clk fetch n False b = as_val (loadObject clk fetch n False b)) \<and>
   (user (store b) = Some u \<and> (f \<or> \<not> isObjectLoaded (store b) n) \<and>
    fst (loadObject clk fetch n f b) = Inr data \<and>
    truthy (opt_member data ''variant_config'') \<longrightarrow>
       fst (readNovaObject n (snd (loadObject clk fetch n f b))) =
         Val (opt_member data ''variant_config'') \<and>
       fst (getNovaObject_v2 n (snd (loadObject clk fetch n f b))) =
         Val (opt_member data ''variant_config'') \<and>
       fst (getNovaObject clk fetch n ro (snd (loadObject clk fetch n f b))) =
         Inr (Val (opt_member data ''variant_config'')))"
proof -
  let ?x = "dict_get (objects (store b)) n"
  have general: "found ?x \<longrightarrow>
       readNovaObject n b = (looked_member ?x ''props'', b) \<and>
       getNovaObject_v2 n b =
         (val_or (looked_member ?x ''props'') (looked_member ?x ''defaultProps''), b) \<and>
       getNovaObject clk fetch n ro b =
         (Inr (val_or (looked_member ?x ''props'') (looked_member ?x ''defaultProps'')), b)"
    by (simp add: readNovaObject_def getNovaObject_v2_def getNovaObject_def Let_def)
  have present: "map_of (own (objects (store b))) n = Some ob \<longrightarrow>
       dict_get (objects (store b)) n = Entry ob \<and>
       readNovaObject n b = (looked_member (Entry ob) ''props'', b) \<and>
       getNovaObject_v2 n b =
         (if truthy_val (looked_member (Entry ob) ''props'')
          then looked_member (Entry ob) ''props''
          else looked_member (Entry ob) ''defaultProps'', b) \<and>
       getNovaObject clk fetch n ro b =
         (Inr (if truthy_val (looked_member (Entry ob) ''props'')
               then looked_member (Entry ob) ''props''
               else looked_member (Entry ob) ''defaultProps''), b)"
    by (simp add: readNovaObject_def getNovaObject_v2_def getNovaObject_def val_or_def
          dict_get_def Let_def)
  have inherited: "map_of (own (objects (store b))) n = None \<and>
    proto (objects (store b)) = None \<and> n \<in> set object_prototype_names \<longrightarrow>
       readNovaObject n b = (Val JUndefined, b) \<and>
       getNovaObject_v2 n b = (Val JUndefined, b) \<and>
       getNovaObject clk fetch n ro b = (Inr (Val JUndefined), b)"
    by (simp add: readNovaObject_def getNovaObject_v2_def getNovaObject_def val_or_def
          dict_get_def builtin_or_missing_def Let_def)
  have plain: "map_of (own (objects (store b))) n = None \<and>
    proto (objects (store b)) = None \<and> n \<notin> set object_prototype_names \<longrightarrow>
       \<not> found (dict_get (objects (store b)) n)"
    by (simp add: dict_get_def builtin_or_missing_def)
  have absent: "\<not> found ?x \<longrightarrow>
       readNovaObject n b = (Val JNull, console_error (not_found n) b) \<and>
       getNovaObject_v2 n b = (Val JNull, console_error (not_found n) b) \<and>
       getNovaObject clk fetch n True b = (Inr (Val JNull), console_error (not_found n) b) \<and>
       getNovaObject clk fetch n False b = as_val (loadObject clk fetch n False b)"
    by (simp add: readNovaObject_def getNovaObject_v2_def getNovaObject_def Let_def)
  have after: "user (store b) = Some u \<and> (f \<or> \<not> isObjectLoaded (store b) n) \<and>
    fst (loadObject clk fetch n f b) = Inr data \<and>
    truthy (opt_member data ''variant_config'') \<longrightarrow>
       fst (readNovaObject n (snd (loadObject clk fetch n f b))) =
         Val (opt_member data ''variant_config'') \<and>
       fst (getNovaObject_v2 n (snd (loadObject clk fetch n f b))) =
         Val (opt_member data ''variant_config'') \<and>
       fst (getNovaObject clk fetch n ro (snd (loadObject clk fetch n f b))) =
         Inr (Val (opt_member data ''variant_config''))"
  proof (intro impI, elim conjE)
    assume a: "user (store b) = Some u" "f \<or> \<not> isObjectLoaded (store b) n"
      "fst (loadObject clk fetch n f b) = Inr data"
      "truthy (opt_member data ''variant_config'')"
    from loadObject_entry[OF a(1,2,3)] a(4) show
      "fst (readNovaObject n (snd (loadObject clk fetch n f b))) =
         Val (opt_member data ''variant_config'') \<and>
       fst (getNovaObject_v2 n (snd (loadObject clk fetch n f b))) =
         Val (opt_member data ''variant_config'') \<and>
       fst (getNovaObject clk fetch n ro (snd (loadObject clk fetch n f b))) =
         Inr (Val (opt_member data ''variant_config''))"
      by (simp add: readNovaObject_def getNovaObject_v2_def getNovaObject_def val_or_def
            dict_get_def update_conv' loaded_entry_fields Let_def)
  qed
  from general present inherited plain absent after show ?thesis by blast
qed

theorem read_and_get_object_witness:
  "map_of (own (objects (store ex_browser))) ''x'' = Some ex_unloaded \<and>
   found (dict_get (objects (store ex_browser)) ''x'') \<and>
   readNovaObject ''x'' ex_browser = (Val JNull, ex_browser) \<and>
   getNovaObject_v2 ''x'' ex_browser = (Val ex_defaults, ex_browser) \<and>
   getNovaObject ex_clock ex_network ''x'' False ex_browser =
     (Inr (Val ex_defaults), ex_browser) \<and>
   map_of (own (objects (store ex_browser))) ''toString'' = None \<and>
   proto (objects (store ex_browser)) = None \<and>
   ''toString'' \<in> set object_prototype_names \<and>
   readNovaObject ''toString'' ex_browser = (Val JUndefined, ex_browser) \<and>
   getNovaObject ex_clock ex_network ''toString'' False ex_browser =
     (Inr (Val JUndefined), ex_browser) \<and>
   map_of (own (objects (store ex_browser))) ''zzz'' = None \<and>
   ''zzz'' \<notin> set object_prototype_names \<and>
   \<not> found (dict_get (objects (store ex_browser)) ''zzz'') \<and>
   readNovaObject ''zzz'' ex_browser =
     (Val JNull, console_error (not_found ''zzz'') ex_browser) \<and>
   getNovaObject ex_clock ex_network ''zzz'' False ex_browser =
     as_val (loadObject ex_clock ex_network ''zzz'' False ex_browser) \<and>
   user (store ex_browser) = Some ex_user \<and> \<not> isObjectLoaded (store ex_browser) ''x'' \<and>
   fst (loadObject ex_clock ex_network ''x'' False ex_browser) = Inr ex_variant \<and>
   truthy (opt_member ex_variant ''variant_config'') \<and>
   fst (readNovaObject ''x'' (snd (loadObject ex_clock ex_network ''x'' False ex_browser))) =
     Val (JObj [(''color'', JStr ''green'')])"
proof -
  have h1: "map_of (own (objects (store ex_browser))) ''x'' = Some ex_unloaded"
    by (simp add: ex_browser_def ex_state_def)
  have h1': "found (dict_get (objects (store ex_browser)) ''x'')"
    by (simp add: ex_browser_def ex_state_def dict_get_def)
  have h2: "map_of (own (objects (store ex_browser))) ''zzz'' = None"
    "map_of (own (objects (store ex_browser))) ''toString'' = None"
    "proto (objects (store ex_browser)) = None"
    "''zzz'' \<notin> set object_prototype_names" "''toString'' \<in> set object_prototype_names"
    by (simp_all add: ex_browser_def ex_state_def object_prototype_names_def)
  have h3: "user (store ex_browser) = Some ex_user \<and>
      (False \<or> \<not> isObjectLoaded (store ex_browser) ''x'') \<and>
      fst (loadObject ex_clock ex_network ''x'' False ex_browser) = Inr ex_variant \<and>
      truthy (opt_member ex_variant ''variant_config'')"
    by (simp add: ex_defs load_eval_defs dict_defs)
  have v: "opt_member ex_variant ''variant_config'' = JObj [(''color'', JStr ''green'')]"
    by (simp add: ex_variant_def opt_member_def)
  have d: "looked_member (Entry ex_unloaded) ''props'' = Val JNull"
    "looked_member (Entry ex_unloaded) ''defaultProps'' = Val ex_defaults"
    by (simp_all add: ex_unloaded_def)
  note t1 = read_and_get_object[of ex_browser "''x''" ex_clock ex_network False ex_unloaded
      ex_user False ex_variant]
  note t2 = read_and_get_object[of ex_browser "''zzz''" ex_clock ex_network False ex_unloaded
      ex_user False ex_variant]
  note t3 = read_and_get_object[of ex_browser "''toString''" ex_clock ex_network False
      ex_unloaded ex_user False ex_variant]
  from t1 h1 h3 d v
  have a: "readNovaObject ''x'' ex_browser = (Val JNull, ex_browser) \<and>
     getNovaObject_v2 ''x'' ex_browser = (Val ex_defaults, ex_browser) \<and>
     getNovaObject ex_clock ex_network ''x'' False ex_browser =
       (Inr (Val ex_defaults), ex_browser) \<and>
     fst (readNovaObject ''x'' (snd (loadObject ex_clock ex_network ''x'' False ex_browser))) =
       Val (JObj [(''color'', JStr ''green'')])"
    by simp
  from t2 h2 have nf: "\<not> found (dict_get (objects (store ex_browser)) ''zzz'')"
    by blast
  from t2 nf
  have b: "readNovaObject ''zzz'' ex_browser =
      (Val JNull, console_error (not_found ''zzz'') ex_browser) \<and>
     getNovaObject ex_clock ex_network ''zzz'' False ex_browser =
       as_val (loadObject ex_clock ex_network ''zzz'' False ex_browser)"
    by blast
  from t3 h2 have c: "readNovaObject ''toString'' ex_browser = (Val JUndefined, ex_browser) \<and>
     getNovaObject ex_clock ex_network ''toString'' False ex_browser =
       (Inr (Val JUndefined), ex_browser)"
    by blast
  from a b c nf h1 h1' h2 h3 show ?thesis by simp
qed

text \<open>
  The claim as stated fails in three places. An entry that is not loaded and has defaults
  makes \<open>readNovaObject\<close> return \<open>null\<close>, not the defaults. An entry that is marked loaded
  but whose fetched properties are \<open>null\<close> makes \<open>getNovaObject\<close> return the defaults.
  And for a name that is not in the cache the asynchronous \<open>getNovaObject\<close> neither logs nor
  returns \<open>null\<close>: it loads, and here, with no user set, it rejects.
\<close>

theorem read_and_get_object_counterexample:
  "map_of (own (objects (store ex_browser))) ''x'' = Some ex_unloaded \<and>
   looked_member (Entry ex_unloaded) ''isLoaded'' = Val (JBool False) \<and>
   looked_member (Entry ex_unloaded) ''defaultProps'' = Val ex_defaults \<and>
   fst (readNovaObject ''x'' ex_browser) = Val JNull \<and>
   Val JNull \<noteq> Val ex_defaults \<and>
   isObjectLoaded (store ex_loaded_null) ''x'' \<and>
   looked_member (dict_get (objects (store ex_loaded_null)) ''x'') ''props'' = Val JNull \<and>
   fst (getNovaObject_v2 ''x'' ex_loaded_null) = Val ex_defaults \<and>
   dict_get (objects (store ex_anonymous)) ''zzz'' = Missing \<and>
   getNovaObject ex_clock ex_network ''zzz'' False ex_anonymous =
     (Inl precondition_error, ex_anonymous)"
  by (simp add: ex_defs load_eval_defs dict_defs)

section \<open>Loading without a user\<close>

text \<open>
  Claim C4, as amended: in a state with no user, \<open>loadObject\<close> and \<open>loadObjects\<close> reject
  with the error "User must be set before loading objects" whatever their arguments and
  whatever the cache holds, and \<open>loadAllObjects\<close> rejects with it when it is forcing or the
  cache is empty; when the cache is not empty and it is not forcing, \<open>loadAllObjects\<close>
  returns an empty result with a log line instead. In every case no request is made and the
  state stays as it was.
\<close>

theorem load_without_user:
  "user (store b) = None \<Longrightarrow>
     loadObject clk fetch n f b = (Inl precondition_error, b) \<and>
     loadObjects clk fetch ns f b = (Inl precondition_error, b) \<and>
     (f \<or> own (objects (store b)) = [] \<longrightarrow>
        loadAllObjects clk fetch f b = (Inl precondition_error, b)) \<and>
     (\<not> f \<and> own (objects (store b)) \<noteq> [] \<longrightarrow>
        loadAllObjects clk fetch f b =
          (Inr [], console_log ''Objects already loaded, skipping...'' b)) \<and>
     fetched (snd (loadAllObjects clk fetch f b)) = fetched b \<and>
     store (snd (loadAllObjects clk fetch f b)) = store b"
  by (auto simp: loadObject_def loadObjects_def loadAllObjects_def Let_def console_log_def)

theorem load_without_user_witness:
  "user (store ex_anonymous) = None \<and>
   loadObject ex_clock ex_network ''x'' True ex_anonymous =
     (Inl (Error ''User must be set before loading objects''), ex_anonymous) \<and>
   loadObjects ex_clock ex_network [''a'', ''x''] True ex_anonymous =
     (Inl (Error ''User must be set before loading objects''), ex_anonymous) \<and>
   loadAllObjects ex_clock ex_network True ex_anonymous =
     (Inl (Error ''User must be set before loading objects''), ex_anonymous) \<and>
   own (objects (store ex_anonymous)) \<noteq> [] \<and>
   fetched (snd (loadAllObjects ex_clock ex_network False ex_anonymous)) = []"
proof -
  have h: "user (store ex_anonymous) = None"
    by (simp add: ex_anonymous_def)
  have ne: "own (objects (store ex_anonymous)) \<noteq> []" "fetched ex_anonymous = []"
    by (simp_all add: ex_anonymous_def ex_state_def)
  from load_without_user[OF h, of ex_clock ex_network "''x''" True "[''a'', ''x'']"]
       load_without_user[OF h, of ex_clock ex_network "''x''" False "[''a'', ''x'']"] h ne
  show ?thesis by (simp add: precondition_error_def console_log_def)
qed

text \<open>
  The claim as stated fails for \<open>loadAllObjects\<close>: with no user, a cache that is not empty
  and no forcing, it returns an empty result and no error.
\<close>

theorem load_without_user_counterexample:
  "user (store ex_anonymous) = None \<and>
   fst (loadAllObjects ex_clock ex_network False ex_anonymous) = Inr []"
  by (simp add: ex_defs load_eval_defs)

section \<open>Loading one object\<close>

text \<open>
  Claim C5, as amended: in a state where a user is set, \<open>loadObject\<close> for a name that is not
  marked loaded makes exactly one request, to the single-variant endpoint; for a name that is
  marked loaded and without forcing it makes no request, leaves the state unchanged and
  returns \<open>null\<close>; with forcing it makes the request again.
\<close>

theorem loadObject_fetches:
  "user (store b) = Some u \<Longrightarrow>
     (f \<or> \<not> isObjectLoaded (store b) n \<longrightarrow>
        fetched (snd (loadObject clk fetch n f b)) =
          fetched b @ [single_request (store b) u n]) \<and>
     (\<not> f \<and> isObjectLoaded (store b) n \<longrightarrow>
        fetched (snd (loadObject clk fetch n f b)) = fetched b \<and>
        store (snd (loadObject clk fetch n f b)) = store b \<and>
        fst (loadObject clk fetch n f b) = Inr JNull)"
  by (auto simp: loadObject_def Let_def provider_defs callApi_def callApi_init_def js_spread_def
       single_request_def split: sum.splits prod.splits)

theorem loadObject_fetches_witness:
  "user (store ex_browser) = Some ex_user \<and>
   \<not> isObjectLoaded (store ex_browser) ''x'' \<and>
   fetched (snd (loadObject ex_clock ex_network ''x'' False ex_browser)) =
     [single_request ex_state ex_user ''x''] \<and>
   fst (single_request ex_state ex_user ''x'') =
     ''https://nova.test/api/v1/user-experience/get-variant/'' \<and>
   isObjectLoaded (store ex_browser) ''a'' \<and>
   fetched (snd (loadObject ex_clock ex_network ''a'' False ex_browser)) = [] \<and>
   store (snd (loadObject ex_clock ex_network ''a'' False ex_browser)) = ex_state \<and>
   fetched (snd (loadObject ex_clock ex_network ''a'' True ex_browser)) =
     [single_request ex_state ex_user ''a'']"
proof -
  have h: "user (store ex_browser) = Some ex_user"
    by (simp add: ex_browser_def ex_state_def)
  have l: "\<not> isObjectLoaded (store ex_browser) ''x''" "isObjectLoaded (store ex_browser) ''a''"
    by (simp_all add: ex_browser_def ex_state_def isObjectLoaded_def ex_loaded_def
          ex_unloaded_def dict_get_def)
  have e: "store ex_browser = ex_state" "fetched ex_browser = []"
    by (simp_all add: ex_browser_def)
  have url: "fst (single_request ex_state ex_user ''x'') =
     ''https://nova.test/api/v1/user-experience/get-variant/''"
    by (simp add: single_request_def ex_state_def ex_config_def)
  from loadObject_fetches[OF h, of False "''x''" ex_clock ex_network]
       loadObject_fetches[OF h, of False "''a''" ex_clock ex_network]
       loadObject_fetches[OF h, of True "''a''" ex_clock ex_network] h l e url
  show ?thesis by simp
qed

text \<open>
  The claim as stated fails when no user is set: the entry of \<open>x\<close> is not marked loaded, and
  \<open>loadObject\<close> makes no request.
\<close>

theorem loadObject_fetches_counterexample:
  "\<not> isObjectLoaded (store ex_anonymous) ''x'' \<and>
   fetched (snd (loadObject ex_clock ex_network ''x'' False ex_anonymous)) = [] \<and>
   fetched (snd (loadObject ex_clock ex_network ''x'' True ex_anonymous)) = []"
  by (simp add: ex_defs load_eval_defs dict_defs)

text \<open>
  Claim C7, as amended: when \<open>loadObject\<close> gets as far as the request (a user is set, and the
  name is not marked loaded or the load is forced), the loading flag is false when it
  returns, on success and on failure. The request fails in three ways, and each is the
  rejection of \<open>loadObject\<close>: a rejection of \<open>fetch\<close> is passed on as it is; an answer
  outside 2xx gives the error "API error:" with the status code and the status text; an
  answer whose body does not parse gives the error of the parser. Whatever error it rejects
  with, the error slot holds "Failed to load object", the quoted name and that error's
  message, and the cache is as before. An answer that parses is the result, and then the
  error slot is empty. On the two paths that return before the flag is set (no user, or
  already loaded and not forced) the flag and the error slot keep the values they had.
\<close>

theorem loadObject_exit:
  "(user (store b) = None \<longrightarrow> snd (loadObject clk fetch n f b) = b) \<and>
   (user (store b) = Some u \<longrightarrow>
     (\<not> f \<and> isObjectLoaded (store b) n \<longrightarrow>
        isLoading (store (snd (loadObject clk fetch n f b))) = isLoading (store b) \<and>
        error (store (snd (loadObject clk fetch n f b))) = error (store b)) \<and>
     (f \<or> \<not> isObjectLoaded (store b) n \<longrightarrow>
        \<not> isLoading (store (snd (loadObject clk fetch n f b))) \<and>
        (\<forall>e. fetch (fst (single_request (store b) u n)) (snd (single_request (store b) u n)) =
               Inl e \<longrightarrow>
             fst (loadObject clk fetch n f b) = Inl e) \<and>
        (\<forall>r. fetch (fst (single_request (store b) u n)) (snd (single_request (store b) u n)) =
               Inr r \<and> \<not> ok r \<longrightarrow>
             fst (loadObject clk fetch n f b) =
               Inl (Error (''API error: '' @ show_nat (status r) @ '' - '' @ statusText r))) \<and>
        (\<forall>r. fetch (fst (single_request (store b) u n)) (snd (single_request (store b) u n)) =
               Inr r \<and> ok r \<longrightarrow>
             fst (loadObject clk fetch n f b) = json r) \<and>
        (\<forall>e. fst (loadObject clk fetch n f b) = Inl e \<longrightarrow>
             error (store (snd (loadObject clk fetch n f b))) =
               Some (''Failed to load object '' @ quoted n @ '': '' @ message e) \<and>
             objects (store (snd (loadObject clk fetch n f b))) = objects (store b)) \<and>
        (\<forall>d. fst (loadObject clk fetch n f b) = Inr d \<longrightarrow>
             error (store (snd (loadObject clk fetch n f b))) = None)))"
  by (auto simp: loadObject_def Let_def provider_defs callApi_def callApi_init_def js_spread_def
       single_request_def split: sum.splits prod.splits)

lemma show_nat_404: "show_nat 404 = ''404''"
  by code_simp

theorem loadObject_exit_witness:
  "user (store ex_busy) = Some ex_user \<and>
   \<not> isObjectLoaded (store ex_busy) ''x'' \<and>
   isLoading (store ex_busy) \<and>
   ex_offline (fst (single_request (store ex_busy) ex_user ''x''))
              (snd (single_request (store ex_busy) ex_user ''x'')) =
     Inl (TypeError ''Failed to fetch'') \<and>
   fst (loadObject ex_clock ex_offline ''x'' False ex_busy) =
     Inl (TypeError ''Failed to fetch'') \<and>
   \<not> isLoading (store (snd (loadObject ex_clock ex_offline ''x'' False ex_busy))) \<and>
   error (store (snd (loadObject ex_clock ex_offline ''x'' False ex_busy))) =
     Some (''Failed to load object '' @ quoted ''x'' @ '': Failed to fetch'') \<and>
   fst (loadObject ex_clock ex_not_found ''x'' False ex_busy) =
     Inl (Error ''API error: 404 - Not Found'') \<and>
   \<not> isLoading (store (snd (loadObject ex_clock ex_not_found ''x'' False ex_busy))) \<and>
   error (store (snd (loadObject ex_clock ex_not_found ''x'' False ex_busy))) =
     Some (''Failed to load object '' @ quoted ''x'' @ '': API error: 404 - Not Found'') \<and>
   objects (store (snd (loadObject ex_clock ex_not_found ''x'' False ex_busy))) =
     objects (store ex_busy) \<and>
   fst (loadObject ex_clock ex_garbled ''x'' False ex_busy) =
     Inl (SyntaxError ''Unexpected token < in JSON at position 0'') \<and>
   error (store (snd (loadObject ex_clock ex_garbled ''x'' False ex_busy))) =
     Some (''Failed to load object '' @ quoted ''x'' @
           '': Unexpected token < in JSON at position 0'') \<and>
   fst (loadObject ex_clock ex_network ''x'' False ex_busy) = Inr ex_variant \<and>
   \<not> isLoading (store (snd (loadObject ex_clock ex_network ''x'' False ex_busy))) \<and>
   error (store (snd (loadObject ex_clock ex_network ''x'' False ex_busy))) = None \<and>
   isObjectLoaded (store ex_busy) ''a'' \<and>
   isLoading (store (snd (loadObject ex_clock ex_network ''a'' False ex_busy))) =
     isLoading (store ex_busy) \<and>
   error (store (snd (loadObject ex_clock ex_network ''a'' False ex_busy))) =
     error (store ex_busy) \<and>
   user (store ex_anonymous) = None \<and>
   snd (loadObject ex_clock ex_network ''x'' False ex_anonymous) = ex_anonymous"
proof -
  let ?url = "fst (single_request (store ex_busy) ex_user ''x'')"
  let ?init = "snd (single_request (store ex_busy) ex_user ''x'')"
  have h: "user (store ex_busy) = Some ex_user" "user (store ex_anonymous) = None"
    by (simp_all add: ex_busy_def ex_state_def ex_anonymous_def)
  have l: "\<not> isObjectLoaded (store ex_busy) ''x''" "isLoading (store ex_busy)"
    "isObjectLoaded (store ex_busy) ''a''"
    by (simp_all add: ex_busy_def ex_state_def isObjectLoaded_def ex_unloaded_def
          ex_loaded_def dict_get_def)
  have off: "ex_offline ?url ?init = Inl (TypeError ''Failed to fetch'')"
    by (simp add: ex_offline_def)
  have nf: "ex_not_found ?url ?init =
      Inr \<lparr>status = 404, statusText = ''Not Found'', text_body = [], json = Inr JNull\<rparr>"
    "\<not> ok \<lparr>status = 404, statusText = ''Not Found'', text_body = [], json = Inr JNull\<rparr>"
    by (simp_all add: ex_not_found_def ok_def)
  have gb: "ex_garbled ?url ?init =
      Inr \<lparr>status = 200, statusText = ''OK'', text_body = ''<html>'',
           json = Inl (SyntaxError ''Unexpected token < in JSON at position 0'')\<rparr>"
    "ok \<lparr>status = 200, statusText = ''OK'', text_body = ''<html>'',
         json = Inl (SyntaxError ''Unexpected token < in JSON at position 0'')\<rparr>"
    by (simp_all add: ex_garbled_def ok_def)
  have on: "ex_network ?url ?init =
      Inr \<lparr>status = 200, statusText = ''OK'', text_body = [], json = Inr ex_variant\<rparr>"
    "ok \<lparr>status = 200, statusText = ''OK'', text_body = [], json = Inr ex_variant\<rparr>"
    by (simp_all add: ex_network_def ok_def single_request_def ex_busy_def ex_state_def
          ex_config_def)
  note t1 = loadObject_exit[of ex_busy ex_clock ex_offline "''x''" False ex_user]
  note t2 = loadObject_exit[of ex_busy ex_clock ex_not_found "''x''" False ex_user]
  note t3 = loadObject_exit[of ex_busy ex_clock ex_garbled "''x''" False ex_user]
  note t4 = loadObject_exit[of ex_busy ex_clock ex_network "''x''" False ex_user]
  note t5 = loadObject_exit[of ex_busy ex_clock ex_network "''a''" False ex_user]
  note t6 = loadObject_exit[of ex_anonymous ex_clock ex_network "''x''" False ex_user]
  from t1 h l off
  have a1: "fst (loadObject ex_clock ex_offline ''x'' False ex_busy) =
              Inl (TypeError ''Failed to fetch'')"
    by blast
  from t1 h l a1
  have a2: "\<not> isLoading (store (snd (loadObject ex_clock ex_offline ''x'' False ex_busy))) \<and>
     error (store (snd (loadObject ex_clock ex_offline ''x'' False ex_busy))) =
       Some (''Failed to load object '' @ quoted ''x'' @ '': '' @
             message (TypeError ''Failed to fetch''))"
    by blast
  from t2 h l nf
  have b1: "fst (loadObject ex_clock ex_not_found ''x'' False ex_busy) =
      Inl (Error (''API error: '' @
        show_nat (status \<lparr>status = 404, statusText = ''Not Found'', text_body = [],
                           json = Inr JNull\<rparr>) @ '' - '' @
        statusText \<lparr>status = 404, statusText = ''Not Found'', text_body = [],
                    json = Inr JNull\<rparr>))"
    by blast
  then have b1': "fst (loadObject ex_clock ex_not_found ''x'' False ex_busy) =
      Inl (Error ''API error: 404 - Not Found'')"
    by (simp add: show_nat_404 del: show_nat.simps)
  from t2 h l b1'
  have b2: "\<not> isLoading (store (snd (loadObject ex_clock ex_not_found ''x'' False ex_busy))) \<and>
     error (store (snd (loadObject ex_clock ex_not_found ''x'' False ex_busy))) =
       Some (''Failed to load object '' @ quoted ''x'' @ '': '' @
             message (Error ''API error: 404 - Not Found'')) \<and>
     objects (store (snd (loadObject ex_clock ex_not_found ''x'' False ex_busy))) =
       objects (store ex_busy)"
    by blast
  from t3 h l gb
  have c1: "fst (loadObject ex_clock ex_garbled ''x'' False ex_busy) =
      json \<lparr>status = 200, statusText = ''OK'', text_body = ''<html>'',
            json = Inl (SyntaxError ''Unexpected token < in JSON at position 0'')\<rparr>"
    by blast
  then have c1': "fst (loadObject ex_clock ex_garbled ''x'' False ex_busy) =
      Inl (SyntaxError ''Unexpected token < in JSON at position 0'')"
    by simp
  from t3 h l c1'
  have c2: "error (store (snd (loadObject ex_clock ex_garbled ''x'' False ex_busy))) =
       Some (''Failed to load object '' @ quoted ''x'' @ '': '' @
             message (SyntaxError ''Unexpected token < in JSON at position 0''))"
    by blast
  from t4 h l on
  have d1: "fst (loadObject ex_clock ex_network ''x'' False ex_busy) =
      json \<lparr>status = 200, statusText = ''OK'', text_body = [], json = Inr ex_variant\<rparr>"
    by blast
  then have d1': "fst (loadObject ex_clock ex_network ''x'' False ex_busy) = Inr ex_variant"
    by simp
  from t4 h l d1'
  have d2: "\<not> isLoading (store (snd (loadObject ex_clock ex_network ''x'' False ex_busy))) \<and>
     error (store (snd (loadObject ex_clock ex_network ''x'' False ex_busy))) = None"
    by blast
  from t5 h l
  have e1: "isLoading (store (snd (loadObject ex_clock ex_network ''a'' False ex_busy))) =
       isLoading (store ex_busy) \<and>
     error (store (snd (loadObject ex_clock ex_network ''a'' False ex_busy))) =
       error (store ex_busy)"
    by blast
  from t6 h
  have f1: "snd (loadObject ex_clock ex_network ''x'' False ex_anonymous) = ex_anonymous"
    by blast
  from h l off a1 a2 b1' b2 c1' c2 d1' d2 e1 f1 show ?thesis by simp
qed

text \<open>
  The claim as stated fails on the skip path: while another load is in flight the flag is
  true, \<open>loadObject\<close> for the loaded object \<open>a\<close> returns at once, and the flag is still
  true.
\<close>

theorem loadObject_exit_counterexample:
  "isObjectLoaded (store ex_busy) ''a'' \<and>
   fst (loadObject ex_clock ex_network ''a'' False ex_busy) = Inr JNull \<and>
   isLoading (store (snd (loadObject ex_clock ex_network ''a'' False ex_busy)))"
  by (simp add: ex_defs load_eval_defs dict_defs)

section \<open>Loading several objects\<close>

lemma dict_set_own_other: "k \<noteq> n \<Longrightarrow> map_of (own (dict_set d k e)) n = map_of (own d) n"
  by (simp add: dict_set_def update_conv')

lemma map_of_set_bulk_loop_other:
  "n \<notin> fst ` set es \<Longrightarrow> map_of (own (set_bulk_loop clk i es d)) n = map_of (own d) n"
  by (induction es arbitrary: d i) (auto simp: dict_set_own_other)

lemma proto_set_bulk_loop:
  "''__proto__'' \<notin> fst ` set es \<Longrightarrow> proto (set_bulk_loop clk i es d) = proto d"
  by (induction es arbitrary: d i) (auto simp: dict_set_def)

lemma dict_get_after_set:
  "k \<noteq> n \<Longrightarrow> k \<noteq> ''__proto__'' \<Longrightarrow> dict_get (dict_set d k e) n = dict_get d n"
  by (simp add: dict_get_def dict_set_def update_conv' split: option.splits)

lemma set_bulk_entry:
  "distinct (map fst es) \<Longrightarrow> ''__proto__'' \<notin> fst ` set es \<Longrightarrow> (n, p) \<in> set es \<Longrightarrow>
   \<exists>j. i \<le> j \<and> j < i + length es \<and>
     map_of (own (set_bulk_loop clk i es d)) n = Some (loaded_entry (dict_get d n) p (clk j))"
proof (induction es arbitrary: d i)
  case Nil
  then show ?case by simp
next
  case (Cons x es)
  obtain k v where x: "x = (k, v)" by (cases x)
  let ?d = "dict_set d k (loaded_entry (dict_get d k) v (clk i))"
  from Cons.prems(2) x have kp: "k \<noteq> ''__proto__''" by auto
  show ?case
  proof (cases "(n, p) \<in> set es")
    case True
    with Cons.prems(1) x have kn: "k \<noteq> n" by force
    from Cons.prems(1,2) have "distinct (map fst es)" "''__proto__'' \<notin> fst ` set es"
      by auto
    from Cons.IH[OF this True, of "Suc i" ?d] obtain j where
      j: "Suc i \<le> j" "j < Suc i + length es"
         "map_of (own (set_bulk_loop clk (Suc i) es ?d)) n =
            Some (loaded_entry (dict_get ?d n) p (clk j))"
      by blast
    from j x dict_get_after_set[OF kn kp, of d] show ?thesis
      by (intro exI[of _ j]) auto
  next
    case False
    with Cons.prems(3) x have kn: "k = n" "v = p" by auto
    from Cons.prems(1) x kn have "n \<notin> fst ` set es" by auto
    from map_of_set_bulk_loop_other[OF this, of clk "Suc i" ?d] kn kp x
    show ?thesis
      by (intro exI[of _ i]) (auto simp: dict_set_def update_conv')
  qed
qed

lemma loaded_entry_spread_dict:
  "loaded_entry (dict_get (spread_dict d) n) p t = loaded_entry (own_entry d n) p t"
  by (simp add: loaded_entry_def dict_get_def spread_dict_def own_entry_def
        builtin_or_missing_def split: option.splits)

lemma collect_variants_fold_names:
  "fst ` set (fold (\<lambda>(featureName, featureData) objs.
             if featureName \<noteq> [] then
               (if featureName = ''__proto__'' then objs
                else AList.update featureName
                       (js_or (opt_member featureData ''variant_config'') (JObj [])) objs)
             else objs) es acc) =
   fst ` set acc \<union> {k \<in> fst ` set es. k \<noteq> [] \<and> k \<noteq> ''__proto__''}"
proof (induction es arbitrary: acc)
  case Nil
  then show ?case by simp
next
  case (Cons x es)
  obtain k v where x: "x = (k, v)" by (cases x)
  show ?case
    unfolding x by (simp add: Cons.IH dom_update) auto
qed

lemma collect_variants_names:
  "fst ` set (collect_variants es) = {k \<in> fst ` set es. k \<noteq> [] \<and> k \<noteq> ''__proto__''}"
  by (simp add: collect_variants_def collect_variants_fold_names)

lemma collect_variants_fold_distinct:
  "distinct (map fst acc) \<Longrightarrow>
   distinct (map fst (fold (\<lambda>(featureName, featureData) objs.
             if featureName \<noteq> [] then
               (if featureName = ''__proto__'' then objs
                else AList.update featureName
                       (js_or (opt_member featureData ''variant_config'') (JObj [])) objs)
             else objs) es acc))"
proof (induction es arbitrary: acc)
  case Nil
  then show ?case by simp
next
  case (Cons x es)
  obtain k v where x: "x = (k, v)" by (cases x)
  show ?case
    unfolding x using Cons.prems by (auto intro!: Cons.IH simp: distinct_update)
qed

lemma collect_variants_distinct: "distinct (map fst (collect_variants es))"
  by (simp add: collect_variants_def collect_variants_fold_distinct)

lemma bulk_request_fetched:
  "fetched (snd (bulk_request clk fetch url payload b)) =
     fetched b @ [(url, \<lparr>http_method = Some ''POST'', body = Some payload,
                          headers = Some [(''Content-Type'', ''application/json'')]\<rparr>)]"
  by (auto simp: bulk_request_def Let_def provider_defs callApi_def callApi_init_def js_spread_def
       split: sum.splits prod.splits)

lemma bulk_request_objects:
  "objects (store (snd (bulk_request clk fetch url payload b))) =
     (case fst (bulk_request clk fetch url payload b) of
        Inl e \<Rightarrow> objects (store b)
      | Inr objs \<Rightarrow> set_bulk_loop clk 0 objs (spread_dict (objects (store b))))"
  by (auto simp: bulk_request_def Let_def provider_defs callApi_def
       split: sum.splits prod.splits)

lemma bulk_request_result:
  "fst (bulk_request clk fetch url payload b) =
     (case fst (callApi fetch url
                  \<lparr>http_method = Some ''POST'', body = Some payload, headers = None\<rparr> b) of
        Inl e \<Rightarrow> Inl e
      | Inr data \<Rightarrow>
          (case Object_entries data of Inl e \<Rightarrow> Inl e | Inr es \<Rightarrow> Inr (collect_variants es)))"
  by (auto simp: bulk_request_def Let_def provider_defs callApi_def
       split: sum.splits prod.splits)

lemma bulk_request_shape:
  "fst (bulk_request clk fetch url payload b) = Inr objs \<Longrightarrow> \<exists>es. objs = collect_variants es"
  by (auto simp: bulk_request_result split: sum.splits)

text \<open>
  Claim C6, as amended: in a state where a user is set, \<open>loadObjects\<close> without forcing asks
  the batch endpoint for exactly the names of the list that are not marked loaded, in one
  request; when there is no such name it makes no request and changes nothing in the state.
  What it returns, and dispatches the bulk update for, are the entries of the backend's answer
  except those with an empty name and the one named \<open>__proto__\<close>, which are dropped; no
  name comes twice. So the cache entry of every name that is not among the returned entries
  stays as it was (also when the load fails), and the entry of every returned name is
  overwritten, whether or not the name was asked for: it becomes the entry the name had,
  if any, with the returned properties, the mark and a reading of the clock.
\<close>

theorem loadObjects_filtered:
  "user (store b) = Some u \<Longrightarrow>
     (filter (\<lambda>n. \<not> isObjectLoaded (store b) n) ns = [] \<longrightarrow>
        loadObjects clk fetch ns False b =
          (Inr [], console_log ''All requested objects already loaded, skipping...'' b)) \<and>
     (filter (\<lambda>n. \<not> isObjectLoaded (store b) n) ns \<noteq> [] \<longrightarrow>
        fetched (snd (loadObjects clk fetch ns False b)) =
          fetched b @
            [batch_request (store b) u (filter (\<lambda>n. \<not> isObjectLoaded (store b) n) ns)]) \<and>
     (\<forall>r data es.
        filter (\<lambda>n. \<not> isObjectLoaded (store b) n) ns \<noteq> [] \<and>
        fetch (fst (batch_request (store b) u (filter (\<lambda>n. \<not> isObjectLoaded (store b) n) ns)))
              (snd (batch_request (store b) u (filter (\<lambda>n. \<not> isObjectLoaded (store b) n) ns))) =
          Inr r \<and>
        ok r \<and> json r = Inr data \<and> Object_entries data = Inr es \<longrightarrow>
          fst (loadObjects clk fetch ns False b) = Inr (collect_variants es) \<and>
          fst ` set (collect_variants es) =
            {k \<in> fst ` set es. k \<noteq> [] \<and> k \<noteq> ''__proto__''}) \<and>
     (\<forall>e. fst (loadObjects clk fetch ns False b) = Inl e \<longrightarrow>
          objects (store (snd (loadObjects clk fetch ns False b))) = objects (store b)) \<and>
     (\<forall>objs. fst (loadObjects clk fetch ns False b) = Inr objs \<longrightarrow>
          distinct (map fst objs) \<and>
          (filter (\<lambda>n. \<not> isObjectLoaded (store b) n) ns \<noteq> [] \<longrightarrow>
             objects (store (snd (loadObjects clk fetch ns False b))) =
               set_bulk_loop clk 0 objs (spread_dict (objects (store b)))) \<and>
          (\<forall>n. n \<notin> fst ` set objs \<longrightarrow>
               map_of (own (objects (store (snd (loadObjects clk fetch ns False b))))) n =
                 map_of (own (objects (store b))) n) \<and>
          (\<forall>n p. (n, p) \<in> set objs \<longrightarrow>
               (\<exists>j<length objs.
                  map_of (own (objects (store (snd (loadObjects clk fetch ns False b))))) n =
                    Some (loaded_entry (own_entry (objects (store b)) n) p (clk j)))))"
proof -
  assume u: "user (store b) = Some u"
  let ?todo = "filter (\<lambda>n. \<not> isObjectLoaded (store b) n) ns"
  let ?res = "loadObjects clk fetch ns False b"
  let ?req = "batch_request (store b) u ?todo"
  let ?d = "spread_dict (objects (store b))"
  have skip: "?todo = [] \<longrightarrow>
      ?res = (Inr [], console_log ''All requested objects already loaded, skipping...'' b)"
    using u by (simp add: loadObjects_def Let_def)
  have req: "?todo \<noteq> [] \<longrightarrow> fetched (snd ?res) = fetched b @ [?req]"
    using u by (simp add: loadObjects_def Let_def bulk_request_fetched batch_request_def)
  have ret: "fst ?res = Inr (collect_variants es)"
    if "?todo \<noteq> []" "fetch (fst ?req) (snd ?req) = Inr r" "ok r" "json r = Inr data"
      "Object_entries data = Inr es" for r data es
    using u that
    by (simp add: loadObjects_def Let_def bulk_request_result callApi_def callApi_init_def
          js_spread_def batch_request_def)
  have shape: "\<exists>es. objs = collect_variants es" if "fst ?res = Inr objs" for objs
  proof (cases "?todo = []")
    case True
    with skip that have "objs = collect_variants []"
      by (simp add: collect_variants_def)
    then show ?thesis ..
  next
    case False
    with u that show ?thesis
      by (auto simp: loadObjects_def Let_def dest: bulk_request_shape)
  qed
  have own_objs: "map_of (own (objects (store (snd ?res)))) n =
     (case fst ?res of Inl e \<Rightarrow> map_of (own (objects (store b))) n
      | Inr objs \<Rightarrow> map_of (own (set_bulk_loop clk 0 objs ?d)) n)" for n
    using u
    by (auto simp: loadObjects_def Let_def bulk_request_objects console_log_def spread_dict_def
          split: sum.splits)
  have objs: "?todo \<noteq> [] \<Longrightarrow> objects (store (snd ?res)) =
     (case fst ?res of Inl e \<Rightarrow> objects (store b)
      | Inr objs \<Rightarrow> set_bulk_loop clk 0 objs ?d)"
    using u by (simp add: loadObjects_def Let_def bulk_request_objects)
  have upd: "\<exists>j<length objs.
      map_of (own (set_bulk_loop clk 0 objs ?d)) n =
        Some (loaded_entry (own_entry (objects (store b)) n) p (clk j))"
    if "fst ?res = Inr objs" "(n, p) \<in> set objs" for objs n p
  proof -
    from shape[OF that(1)] obtain es where es: "objs = collect_variants es" ..
    have "distinct (map fst objs)" "''__proto__'' \<notin> fst ` set objs"
      using es collect_variants_distinct[of es] collect_variants_names[of es] by auto
    from set_bulk_entry[OF this that(2), of 0 clk ?d] show ?thesis
      by (auto simp: loaded_entry_spread_dict)
  qed
  have frame: "\<forall>objs. fst ?res = Inr objs \<longrightarrow>
          distinct (map fst objs) \<and>
          (?todo \<noteq> [] \<longrightarrow>
             objects (store (snd ?res)) = set_bulk_loop clk 0 objs ?d) \<and>
          (\<forall>n. n \<notin> fst ` set objs \<longrightarrow>
               map_of (own (objects (store (snd ?res)))) n =
                 map_of (own (objects (store b))) n) \<and>
          (\<forall>n p. (n, p) \<in> set objs \<longrightarrow>
               (\<exists>j<length objs.
                  map_of (own (objects (store (snd ?res)))) n =
                    Some (loaded_entry (own_entry (objects (store b)) n) p (clk j))))"
  proof (intro allI impI)
    fix objs assume r: "fst ?res = Inr objs"
    from shape[OF r] collect_variants_distinct have d: "distinct (map fst objs)" by auto
    have a: "?todo \<noteq> [] \<longrightarrow> objects (store (snd ?res)) = set_bulk_loop clk 0 objs ?d"
      using objs r by simp
    have f: "\<forall>n. n \<notin> fst ` set objs \<longrightarrow>
               map_of (own (objects (store (snd ?res)))) n = map_of (own (objects (store b))) n"
      using own_objs r by (simp add: map_of_set_bulk_loop_other spread_dict_def)
    have g: "\<forall>n p. (n, p) \<in> set objs \<longrightarrow>
               (\<exists>j<length objs.
                  map_of (own (objects (store (snd ?res)))) n =
                    Some (loaded_entry (own_entry (objects (store b)) n) p (clk j)))"
      using own_objs r upd[OF r] by simp
    from d a f g show "distinct (map fst objs) \<and>
          (?todo \<noteq> [] \<longrightarrow>
             objects (store (snd ?res)) = set_bulk_loop clk 0 objs ?d) \<and>
          (\<forall>n. n \<notin> fst ` set objs \<longrightarrow>
               map_of (own (objects (store (snd ?res)))) n =
                 map_of (own (objects (store b))) n) \<and>
          (\<forall>n p. (n, p) \<in> set objs \<longrightarrow>
               (\<exists>j<length objs.
                  map_of (own (objects (store (snd ?res)))) n =
                    Some (loaded_entry (own_entry (objects (store b)) n) p (clk j))))"
      by blast
  qed
  have fail: "\<forall>e. fst ?res = Inl e \<longrightarrow> objects (store (snd ?res)) = objects (store b)"
  proof (intro allI impI)
    fix e assume e: "fst ?res = Inl e"
    with skip have "?todo \<noteq> []" by auto
    from objs[OF this] e show "objects (store (snd ?res)) = objects (store b)" by simp
  qed
  from skip req ret collect_variants_names frame fail show ?thesis
    by blast
qed

theorem loadObjects_filtered_witness:
  "user (store ex_browser) = Some ex_user \<and>
   filter (\<lambda>n. \<not> isObjectLoaded (store ex_browser) n) [''a'', ''x'', ''c''] = [''x'', ''c''] \<and>
   fetched (snd (loadObjects ex_clock ex_offline [''a'', ''x'', ''c''] False ex_browser)) =
     [batch_request ex_state ex_user [''x'', ''c'']] \<and>
   fst (loadObjects ex_clock ex_offline [''a'', ''x'', ''c''] False ex_browser) =
     Inl (TypeError ''Failed to fetch'') \<and>
   objects (store (snd (loadObjects ex_clock ex_offline [''a'', ''x'', ''c''] False ex_browser))) =
     objects ex_state \<and>
   filter (\<lambda>n. \<not> isObjectLoaded (store ex_browser) n) [''a''] = [] \<and>
   fetched (snd (loadObjects ex_clock ex_network [''a''] False ex_browser)) = [] \<and>
   store (snd (loadObjects ex_clock ex_network [''a''] False ex_browser)) = ex_state \<and>
   filter (\<lambda>n. \<not> isObjectLoaded (store ex_browser) n) [''x''] = [''x''] \<and>
   ex_network (fst (batch_request (store ex_browser) ex_user [''x'']))
              (snd (batch_request (store ex_browser) ex_user [''x''])) =
     Inr \<lparr>status = 200, statusText = ''OK'', text_body = [],
          json = Inr (JObj [(''a'', ex_variant), (''b'', ex_variant)])\<rparr> \<and>
   ok \<lparr>status = 200, statusText = ''OK'', text_body = [],
       json = Inr (JObj [(''a'', ex_variant), (''b'', ex_variant)])\<rparr> \<and>
   Object_entries (JObj [(''a'', ex_variant), (''b'', ex_variant)]) =
     Inr [(''a'', ex_variant), (''b'', ex_variant)] \<and>
   fst (loadObjects ex_clock ex_network [''x''] False ex_browser) =
     Inr [(''a'', JObj [(''color'', JStr ''green'')]),
          (''b'', JObj [(''color'', JStr ''green'')])] \<and>
   ''x'' \<notin> fst ` set [(''a'', JObj [(''color'', JStr ''green'')]),
                        (''b'', JObj [(''color'', JStr ''green'')])] \<and>
   map_of (own (objects (store (snd (loadObjects ex_clock ex_network [''x''] False ex_browser)))))
     ''x'' = Some ex_unloaded \<and>
   (\<exists>j<2. map_of (own (objects (store (snd (loadObjects ex_clock ex_network [''x''] False
                                          ex_browser))))) ''b'' =
      Some [(''props'', Val (JObj [(''color'', JStr ''green'')])),
            (''isLoaded'', Val (JBool True)), (''lastFetched'', Date (ex_clock j))]) \<and>
   Object_entries (JObj [(''__proto__'', ex_variant), (''b'', ex_variant)]) =
     Inr [(''__proto__'', ex_variant), (''b'', ex_variant)] \<and>
   fst (loadObjects ex_clock ex_network_proto [''x''] False ex_browser) =
     Inr [(''b'', JObj [(''color'', JStr ''green'')])]"
proof -
  let ?r = "\<lparr>status = 200, statusText = ''OK'', text_body = [],
             json = Inr (JObj [(''a'', ex_variant), (''b'', ex_variant)])\<rparr>"
  let ?es = "[(''a'', ex_variant), (''b'', ex_variant)]"
  let ?objs = "[(''a'', JObj [(''color'', JStr ''green'')]),
                (''b'', JObj [(''color'', JStr ''green'')])]"
  let ?rp = "\<lparr>status = 200, statusText = ''OK'', text_body = [],
              json = Inr (JObj [(''__proto__'', ex_variant), (''b'', ex_variant)])\<rparr>"
  let ?esp = "[(''__proto__'', ex_variant), (''b'', ex_variant)]"
  have h: "user (store ex_browser) = Some ex_user"
    by (simp add: ex_browser_def ex_state_def)
  have e: "store ex_browser = ex_state" "fetched ex_browser = []"
    by (simp_all add: ex_browser_def)
  have f1: "filter (\<lambda>n. \<not> isObjectLoaded (store ex_browser) n) [''a'', ''x'', ''c''] =
      [''x'', ''c'']"
    "filter (\<lambda>n. \<not> isObjectLoaded (store ex_browser) n) [''a''] = []"
    "filter (\<lambda>n. \<not> isObjectLoaded (store ex_browser) n) [''x''] = [''x'']"
    by (simp_all add: ex_browser_def ex_state_def isObjectLoaded_def ex_loaded_def
          ex_unloaded_def dict_get_def builtin_or_missing_def object_prototype_names_def)
  have r1: "fst (loadObjects ex_clock ex_offline [''a'', ''x'', ''c''] False ex_browser) =
     Inl (TypeError ''Failed to fetch'')"
    by (simp add: ex_defs load_eval_defs dict_defs)
  have net: "ex_network (fst (batch_request (store ex_browser) ex_user [''x'']))
              (snd (batch_request (store ex_browser) ex_user [''x''])) = Inr ?r"
    by (simp add: ex_network_def batch_request_def ex_browser_def ex_state_def ex_config_def)
  have netp: "ex_network_proto (fst (batch_request (store ex_browser) ex_user [''x'']))
              (snd (batch_request (store ex_browser) ex_user [''x''])) = Inr ?rp"
    by (simp add: ex_network_proto_def)
  have okr: "ok ?r" "json ?r = Inr (JObj ?es)" "Object_entries (JObj ?es) = Inr ?es"
    "ok ?rp" "json ?rp = Inr (JObj ?esp)" "Object_entries (JObj ?esp) = Inr ?esp"
    by (simp_all add: ok_def)
  have cv: "collect_variants ?es = ?objs"
    "collect_variants ?esp = [(''b'', JObj [(''color'', JStr ''green'')])]"
    by (simp_all add: collect_variants_def ex_variant_def opt_member_def js_or_def)
  have x: "map_of (own (objects (store ex_browser))) ''x'' = Some ex_unloaded"
    "own_entry (objects (store ex_browser)) ''b'' = Missing"
    by (simp_all add: ex_browser_def ex_state_def own_entry_def)
  have ne: "[''x'', ''c''] \<noteq> []" "[''x''] \<noteq> []" by simp_all
  note t1 = loadObjects_filtered[OF h, of "[''a'', ''x'', ''c'']" ex_clock ex_offline,
              unfolded f1]
  note t2 = loadObjects_filtered[OF h, of "[''a'']" ex_clock ex_network, unfolded f1]
  note t3 = loadObjects_filtered[OF h, of "[''x'']" ex_clock ex_network, unfolded f1]
  note t4 = loadObjects_filtered[OF h, of "[''x'']" ex_clock ex_network_proto, unfolded f1]
  from t1 ne have a1:
    "fetched (snd (loadObjects ex_clock ex_offline [''a'', ''x'', ''c''] False ex_browser)) =
       fetched ex_browser @ [batch_request (store ex_browser) ex_user [''x'', ''c'']]"
    by blast
  from t1 r1 have a2:
    "objects (store (snd (loadObjects ex_clock ex_offline [''a'', ''x'', ''c''] False
                            ex_browser))) = objects (store ex_browser)"
    by blast
  from t2 have b: "loadObjects ex_clock ex_network [''a''] False ex_browser =
      (Inr [], console_log ''All requested objects already loaded, skipping...'' ex_browser)"
    by blast
  from t3 ne net okr have r2: "fst (loadObjects ex_clock ex_network [''x''] False ex_browser) =
      Inr (collect_variants ?es)"
    by blast
  from t4 ne netp okr
  have r3: "fst (loadObjects ex_clock ex_network_proto [''x''] False ex_browser) =
      Inr (collect_variants ?esp)"
    by blast
  from t3 have c0:
    "fst (loadObjects ex_clock ex_network [''x''] False ex_browser) = Inr objs \<Longrightarrow>
     n \<notin> fst ` set objs \<Longrightarrow>
     map_of (own (objects (store (snd (loadObjects ex_clock ex_network [''x''] False
                                         ex_browser))))) n =
       map_of (own (objects (store ex_browser))) n" for objs n
    by blast
  from t3 have d0:
    "fst (loadObjects ex_clock ex_network [''x''] False ex_browser) = Inr objs \<Longrightarrow>
     (n, p) \<in> set objs \<Longrightarrow>
     \<exists>j<length objs.
       map_of (own (objects (store (snd (loadObjects ex_clock ex_network [''x''] False
                                      ex_browser))))) n =
         Some (loaded_entry (own_entry (objects (store ex_browser)) n) p (ex_clock j))"
    for objs n p
    by blast
  from r2 cv have r2': "fst (loadObjects ex_clock ex_network [''x''] False ex_browser) =
      Inr ?objs"
    by simp
  from r3 cv have r3': "fst (loadObjects ex_clock ex_network_proto [''x''] False ex_browser) =
      Inr [(''b'', JObj [(''color'', JStr ''green'')])]"
    by simp
  from c0[OF r2', of "''x''"] have c:
    "map_of (own (objects (store (snd (loadObjects ex_clock ex_network [''x''] False
                                        ex_browser))))) ''x'' =
       map_of (own (objects (store ex_browser))) ''x''"
    by simp
  from d0[OF r2', of "''b''" "JObj [(''color'', JStr ''green'')]"] x(2) have d:
    "\<exists>j<2. map_of (own (objects (store (snd (loadObjects ex_clock ex_network [''x''] False
                                          ex_browser))))) ''b'' =
      Some [(''props'', Val (JObj [(''color'', JStr ''green'')])),
            (''isLoaded'', Val (JBool True)), (''lastFetched'', Date (ex_clock j))]"
    by (simp add: loaded_entry_def numeral_2_eq_2)
  from a1 a2 b c d h e f1 r1 r2' r3' x net okr show ?thesis
    by (simp add: console_log_def)
qed

text \<open>
  The claim as stated fails when the backend's answer names an object that was filtered out:
  \<open>a\<close> is loaded and is not asked for, the answer carries a variant for \<open>a\<close>, and the
  entry of \<open>a\<close> is replaced.
\<close>

theorem loadObjects_filtered_counterexample:
  "isObjectLoaded (store ex_browser) ''a'' \<and>
   fetched (snd (loadObjects ex_clock ex_network [''a'', ''b''] False ex_browser)) =
     [batch_request ex_state ex_user [''b'']] \<and>
   map_of (own (objects (store ex_browser))) ''a'' = Some ex_loaded \<and>
   map_of (own (objects (store (snd (loadObjects ex_clock ex_network [''a'', ''b''] False
                                  ex_browser))))) ''a'' =
     Some [(''name'', Val (JStr ''a'')), (''defaultProps'', Val ex_defaults),
           (''props'', Val (JObj [(''color'', JStr ''green'')])),
           (''isLoaded'', Val (JBool True)), (''lastFetched'', Date 1000)] \<and>
   [(''name'', Val (JStr ''a'')), (''defaultProps'', Val ex_defaults),
    (''props'', Val (JObj [(''color'', JStr ''green'')])),
    (''isLoaded'', Val (JBool True)), (''lastFetched'', Date 1000)] \<noteq> ex_loaded"
  by (simp add: ex_defs load_eval_defs dict_defs)

section \<open>The transport helper\<close>

lemma map_of_js_spread:
  "map_of (js_spread base extra) = map_of base ++ map_of (rev extra)"
  unfolding js_spread_def
proof (induction extra arbitrary: base)
  case Nil
  then show ?case by simp
next
  case (Cons x xs)
  obtain k v where x: "x = (k, v)" by (cases x)
  have "map_of (fold (\<lambda>(k, v). AList.update k v) (x # xs) base)
      = map_of (AList.update k v base) ++ map_of (rev xs)"
    using Cons.IH[of "AList.update k v base"] x by simp
  also have "\<dots> = map_of base ++ map_of (rev (x # xs))"
    using x by (simp add: update_conv' map_add_def fun_eq_iff split: option.splits)
  finally show ?case .
qed

text \<open>
  Claim C8, as amended: for every URL and options, \<open>callApi\<close> makes one call of \<open>fetch\<close>
  with the caller's method and body, and with a \<open>Content-Type\<close> header that is
  \<open>application/json\<close> unless the caller's own headers carry a \<open>Content-Type\<close>, which then
  replaces it. A response whose status is outside 200 to 299 makes it reject with an error
  whose message holds the status code and the status text; a response inside that range makes
  it settle as \<open>response.json()\<close> does, with whatever value that gives and no check of its
  shape; a rejection of \<open>fetch\<close> is passed on.
\<close>

theorem callApi_contract:
  "fetched (snd (callApi fetch url options b)) = fetched b @ [(url, callApi_init options)] \<and>
   http_method (callApi_init options) = http_method options \<and>
   body (callApi_init options) = body options \<and>
   (\<exists>h. headers (callApi_init options) = Some h \<and>
        map_of h ''Content-Type'' =
          (case headers options of
             None \<Rightarrow> Some ''application/json''
           | Some hs \<Rightarrow>
               (case map_of (rev hs) ''Content-Type'' of
                  None \<Rightarrow> Some ''application/json''
                | Some v \<Rightarrow> Some v))) \<and>
   (\<forall>e. fetch url (callApi_init options) = Inl e \<longrightarrow>
        fst (callApi fetch url options b) = Inl e) \<and>
   (\<forall>r. fetch url (callApi_init options) = Inr r \<and> \<not> ok r \<longrightarrow>
        fst (callApi fetch url options b) =
          Inl (Error (''API error: '' @ show_nat (status r) @ '' - '' @ statusText r))) \<and>
   (\<forall>r. fetch url (callApi_init options) = Inr r \<and> ok r \<longrightarrow>
        fst (callApi fetch url options b) = json r)"
proof -
  have hdr: "\<exists>h. headers (callApi_init options) = Some h \<and>
        map_of h ''Content-Type'' =
          (case headers options of
             None \<Rightarrow> Some ''application/json''
           | Some hs \<Rightarrow>
               (case map_of (rev hs) ''Content-Type'' of
                  None \<Rightarrow> Some ''application/json''
                | Some v \<Rightarrow> Some v))"
    by (simp add: callApi_init_def map_of_js_spread map_add_def split: option.splits)
  have rest: "http_method (callApi_init options) = http_method options"
    "body (callApi_init options) = body options"
    by (simp_all add: callApi_init_def)
  have res: "\<forall>e. fetch url (callApi_init options) = Inl e \<longrightarrow>
        fst (callApi fetch url options b) = Inl e"
    "\<forall>r. fetch url (callApi_init options) = Inr r \<and> \<not> ok r \<longrightarrow>
        fst (callApi fetch url options b) =
          Inl (Error (''API error: '' @ show_nat (status r) @ '' - '' @ statusText r))"
    "\<forall>r. fetch url (callApi_init options) = Inr r \<and> ok r \<longrightarrow>
        fst (callApi fetch url options b) = json r"
    by (simp_all add: callApi_def Let_def)
  from hdr rest res fetched_callApi[of fetch url options b] show ?thesis by blast
qed

theorem callApi_contract_witness:
  "ex_not_found ''https://nova.test/x'' (callApi_init \<lparr>http_method = Some ''POST'', body = None,
       headers = None\<rparr>) =
     Inr \<lparr>status = 404, statusText = ''Not Found'', text_body = [], json = Inr JNull\<rparr> \<and>
   \<not> ok \<lparr>status = 404, statusText = ''Not Found'', text_body = [], json = Inr JNull\<rparr> \<and>
   fst (callApi ex_not_found ''https://nova.test/x''
          \<lparr>http_method = Some ''POST'', body = None, headers = None\<rparr> ex_browser) =
     Inl (Error ''API error: 404 - Not Found'') \<and>
   headers (callApi_init \<lparr>http_method = Some ''POST'', body = None, headers = None\<rparr>) =
     Some [(''Content-Type'', ''application/json'')] \<and>
   ok \<lparr>status = 200, statusText = ''OK'', text_body = [], json = Inr (JNum 7)\<rparr> \<and>
   fst (callApi
          (\<lambda>url init. Inr \<lparr>status = 200, statusText = ''OK'', text_body = [],
                             json = Inr (JNum 7)\<rparr>)
          ''https://nova.test/x'' \<lparr>http_method = Some ''POST'', body = None, headers = None\<rparr>
          ex_browser) = Inr (JNum 7) \<and>
   fst (callApi ex_offline ''https://nova.test/x''
          \<lparr>http_method = Some ''POST'', body = None, headers = None\<rparr> ex_browser) =
     Inl (TypeError ''Failed to fetch'')"
proof -
  let ?o = "\<lparr>http_method = Some ''POST'', body = None, headers = None\<rparr>"
  let ?r = "\<lparr>status = 200, statusText = ''OK'', text_body = [], json = Inr (JNum 7)\<rparr>"
  have n: "ex_not_found ''https://nova.test/x'' (callApi_init ?o) =
     Inr \<lparr>status = 404, statusText = ''Not Found'', text_body = [], json = Inr JNull\<rparr>"
    "ex_offline ''https://nova.test/x'' (callApi_init ?o) = Inl (TypeError ''Failed to fetch'')"
    by (simp_all add: ex_not_found_def ex_offline_def)
  have k: "\<not> ok \<lparr>status = 404, statusText = ''Not Found'', text_body = [], json = Inr JNull\<rparr>"
    "ok ?r"
    by (simp_all add: ok_def)
  have hd: "headers (callApi_init ?o) = Some [(''Content-Type'', ''application/json'')]"
    by (simp add: callApi_init_def js_spread_def)
  from callApi_contract[of ex_not_found "''https://nova.test/x''" ?o ex_browser]
       callApi_contract[of "\<lambda>url init. Inr ?r" "''https://nova.test/x''" ?o ex_browser]
       callApi_contract[of ex_offline "''https://nova.test/x''" ?o ex_browser]
       n k show_nat_404 hd
  show ?thesis by simp
qed

text \<open>
  The claim as stated fails for options that bring their own \<open>Content-Type\<close>: the header
  sent is the caller's \<open>text/plain\<close>, and no JSON content type is sent.
\<close>

theorem callApi_contract_counterexample:
  "headers ex_options = Some [(''Content-Type'', ''text/plain'')] \<and>
   fetched (snd (callApi ex_network ''https://nova.test/x'' ex_options ex_browser)) =
     [(''https://nova.test/x'',
       \<lparr>http_method = Some ''POST'', body = Some JNull,
        headers = Some [(''Content-Type'', ''text/plain'')]\<rparr>)]"
  by (simp add: ex_defs load_eval_defs)

section \<open>Entries for names that were never registered\<close>

lemma fresh_loaded: "spread_looked x = [] \<Longrightarrow> loaded_entry x p t = fresh_entry p t"
  by (simp add: loaded_entry_def fresh_entry_def)

lemma loaded_over_fresh: "loaded_entry (Entry (fresh_entry q t')) p t = fresh_entry p t"
  by (simp add: loaded_entry_def fresh_entry_def)

lemma spread_not_found: "\<not> found x \<Longrightarrow> spread_looked x = []"
proof (cases x)
  case (Field f)
  assume "\<not> found x"
  with Field show ?thesis
  proof (cases f)
    case (Val v)
    assume "\<not> found x"
    with Field Val show ?thesis
      by (cases v) (simp_all add: spread_value_def)
  qed simp
qed simp_all

lemma member_not_found: "\<not> found x \<Longrightarrow> \<not> truthy_val (looked_member x k)"
proof (cases x)
  case (Field f)
  assume "\<not> found x"
  with Field show ?thesis
  proof (cases f)
    case (Val v)
    assume "\<not> found x"
    with Field Val show ?thesis
      by (cases v) (simp_all add: opt_member_def)
  qed simp
qed simp_all

text \<open>
  In a map whose prototype is that of a literal, or an entry that a load has just made,
  a name other than \<open>props\<close> and \<open>__proto__\<close> with no entry of its own has nothing to
  spread.
\<close>

lemma spread_unregistered:
  assumes own: "map_of (own d) n = None" and n: "n \<noteq> ''__proto__''"
    and pr: "proto d = None \<or> (n \<noteq> ''props'' \<and> (\<exists>q t. proto d = Some (fresh_entry q t)))"
  shows "spread_looked (dict_get d n) = []"
proof (cases "proto d")
  case None
  with own show ?thesis
    by (simp add: dict_get_def builtin_or_missing_def)
next
  case (Some e)
  with pr obtain q t where e: "e = fresh_entry q t" and np: "n \<noteq> ''props''" by auto
  from own Some e np n show ?thesis
    by (simp add: dict_get_def inherited_from_def fresh_entry_def builtin_or_missing_def
          spread_value_def)
qed

lemma set_bulk_fresh:
  "distinct (map fst es) \<Longrightarrow> (n, p) \<in> set es \<Longrightarrow> n \<noteq> ''__proto__'' \<Longrightarrow>
   (n = ''props'' \<longrightarrow> ''__proto__'' \<notin> fst ` set es) \<Longrightarrow>
   map_of (own d) n = None \<Longrightarrow>
   proto d = None \<or> (n \<noteq> ''props'' \<and> (\<exists>q t. proto d = Some (fresh_entry q t))) \<Longrightarrow>
   \<exists>j. i \<le> j \<and> j < i + length es \<and>
     map_of (own (set_bulk_loop clk i es d)) n = Some (fresh_entry p (clk j))"
proof (induction es arbitrary: d i)
  case Nil
  then show ?case by simp
next
  case (Cons x es)
  obtain k v where x: "x = (k, v)" by (cases x)
  let ?e = "loaded_entry (dict_get d k) v (clk i)"
  let ?d = "dict_set d k ?e"
  show ?case
  proof (cases "(n, p) \<in> set es")
    case True
    with Cons.prems(1) x have kn: "k \<noteq> n" by force
    from Cons.prems(1,4) x have d: "distinct (map fst es)"
      and np: "n = ''props'' \<longrightarrow> ''__proto__'' \<notin> fst ` set es" "n = ''props'' \<longrightarrow> k \<noteq> ''__proto__''"
      by auto
    have own': "map_of (own ?d) n = None"
      using dict_set_own_other[OF kn] Cons.prems(5) by simp
    have pr': "proto ?d = None \<or> (n \<noteq> ''props'' \<and> (\<exists>q t. proto ?d = Some (fresh_entry q t)))"
    proof (cases "proto ?d = proto d")
      case True
      with Cons.prems(6) show ?thesis by simp
    next
      case False
      then have set: "k = ''__proto__''" "map_of (own d) k = None" "proto ?d = Some ?e"
        by (auto simp: dict_set_def split: if_splits)
      from set(1) np(2) have nprops: "n \<noteq> ''props''" by auto
      have "?e = fresh_entry v (clk i)"
      proof (cases "proto d")
        case None
        with set show ?thesis
          by (simp add: fresh_loaded dict_get_def builtin_or_missing_def
                object_prototype_names_def)
      next
        case (Some e)
        with Cons.prems(6) obtain q t where e: "e = fresh_entry q t" by auto
        have "map_of (fresh_entry q t) ''__proto__'' = None"
          by (simp add: fresh_entry_def)
        with Some set e have "dict_get d k = Entry (fresh_entry q t)"
          by (simp add: dict_get_def inherited_from_def)
        then show ?thesis
          by (simp add: loaded_over_fresh)
      qed
      with set(3) nprops show ?thesis by auto
    qed
    from Cons.IH[OF d True Cons.prems(3) np(1) own' pr', of "Suc i"] obtain j where
      j: "Suc i \<le> j" "j < Suc i + length es"
         "map_of (own (set_bulk_loop clk (Suc i) es ?d)) n = Some (fresh_entry p (clk j))"
      by blast
    from j x show ?thesis
      by (intro exI[of _ j]) auto
  next
    case False
    with Cons.prems(2) x have kn: "k = n" "v = p" by auto
    from Cons.prems(1) x kn have "n \<notin> fst ` set es" by auto
    from map_of_set_bulk_loop_other[OF this, of clk "Suc i" ?d] kn x Cons.prems(3)
      fresh_loaded[OF spread_unregistered[OF Cons.prems(5,3,6)], of p "clk i"]
    show ?thesis
      by (intro exI[of _ i]) (auto simp: dict_set_def update_conv')
  qed
qed

lemma fresh_breaks_invariant:
  "map_of (own (objects s)) n = Some (fresh_entry q t) \<Longrightarrow> \<not> all_have_defaults s"
proof -
  assume "map_of (own (objects s)) n = Some (fresh_entry q t)"
  then have "(n, fresh_entry q t) \<in> set (own (objects s))"
    by (rule map_of_SomeD)
  then show ?thesis
    unfolding all_have_defaults_def list_all_iff by (force simp: fresh_entry_def)
qed

text \<open>
  Claim C10, as amended. Take a state and a name with no entry of its own in the cache.
  Update-single-object-props for that name, in a map with the prototype of a literal, puts a
  new entry under the name that is marked loaded and holds the fetched properties and the
  time of the clock, but has no name and no default properties. So does set-bulk-objects
  with a payload that contains the name, provided the name is not \<open>__proto__\<close> and, if it
  is \<open>props\<close>, the payload has no entry named \<open>__proto__\<close>. In both cases the state
  afterwards does not satisfy "every entry carries default properties", whatever held
  before. The asynchronous \<open>getNovaObject\<close> for a name whose lookup finds nothing (as for
  every name that is not inherited, in a map with the prototype of a literal) loads it, and
  leaves such an entry when the load succeeds; for a name with no entry that
  \<open>Object.prototype\<close> provides it loads nothing and returns \<open>undefined\<close>.
\<close>

theorem unregistered_name_entry:
  "map_of (own (objects s)) n = None \<Longrightarrow>
     (proto (objects s) = None \<longrightarrow>
        map_of (own (objects (novaReducer clk s (UPDATE_OBJECT_PROPS n p)))) n =
          Some (fresh_entry p (clk 0)) \<and>
        \<not> all_have_defaults (novaReducer clk s (UPDATE_OBJECT_PROPS n p))) \<and>
     (distinct (map fst payload) \<and> (n, p) \<in> set payload \<and> n \<noteq> ''__proto__'' \<and>
      (n = ''props'' \<longrightarrow> ''__proto__'' \<notin> fst ` set payload) \<longrightarrow>
        (\<exists>j<length payload.
           map_of (own (objects (novaReducer clk s (SET_BULK_OBJECTS payload)))) n =
             Some (fresh_entry p (clk j))) \<and>
        \<not> all_have_defaults (novaReducer clk s (SET_BULK_OBJECTS payload))) \<and>
     (proto (objects s) = None \<and> n \<notin> set object_prototype_names \<longrightarrow>
        \<not> found (dict_get (objects s) n)) \<and>
     (store b = s \<and> user s = Some u \<and> \<not> found (dict_get (objects s) n) \<and>
      fst (getNovaObject clk fetch n False b) = Inr (Val data) \<longrightarrow>
        map_of (own (objects (store (snd (getNovaObject clk fetch n False b))))) n =
          Some (fresh_entry (opt_member data ''variant_config'') (clk 0)) \<and>
        \<not> all_have_defaults (store (snd (getNovaObject clk fetch n False b)))) \<and>
     (store b = s \<and> proto (objects s) = None \<and> n \<in> set object_prototype_names \<longrightarrow>
        getNovaObject clk fetch n ro b = (Inr (Val JUndefined), b))"
proof -
  assume absent: "map_of (own (objects s)) n = None"
  have single: "map_of (own (objects (novaReducer clk s (UPDATE_OBJECT_PROPS n p)))) n =
       Some (fresh_entry p (clk 0))"
    if "proto (objects s) = None"
    using absent that
    by (simp add: update_conv' fresh_loaded dict_get_def builtin_or_missing_def)
  have bulk: "\<exists>j<length payload.
           map_of (own (objects (novaReducer clk s (SET_BULK_OBJECTS payload)))) n =
             Some (fresh_entry p (clk j))"
    if d: "distinct (map fst payload)" "(n, p) \<in> set payload" "n \<noteq> ''__proto__''"
      "n = ''props'' \<longrightarrow> ''__proto__'' \<notin> fst ` set payload"
  proof -
    have o: "map_of (own (spread_dict (objects s))) n = None"
      using absent by (simp add: spread_dict_def)
    have q: "proto (spread_dict (objects s)) = None \<or>
       (n \<noteq> ''props'' \<and> (\<exists>q t. proto (spread_dict (objects s)) = Some (fresh_entry q t)))"
      by (simp add: spread_dict_def)
    from set_bulk_fresh[OF d o q, of 0 clk] show ?thesis by auto
  qed
  have plain: "\<not> found (dict_get (objects s) n)"
    if "proto (objects s) = None" "n \<notin> set object_prototype_names"
    using absent that by (simp add: dict_get_def builtin_or_missing_def)
  have get: "map_of (own (objects (store (snd (getNovaObject clk fetch n False b))))) n =
          Some (fresh_entry (opt_member data ''variant_config'') (clk 0))"
    if g: "store b = s" "user s = Some u" "\<not> found (dict_get (objects s) n)"
      "fst (getNovaObject clk fetch n False b) = Inr (Val data)"
  proof -
    from g have eq: "getNovaObject clk fetch n False b =
        as_val (loadObject clk fetch n False b)"
      by (simp add: getNovaObject_def Let_def)
    from g(1,3) have nl: "\<not> isObjectLoaded (store b) n"
      by (simp add: isObjectLoaded_def member_not_found)
    from eq g(4) have r: "fst (loadObject clk fetch n False b) = Inr data"
      by (auto simp: as_val_def split: prod.splits sum.splits)
    from eq have sn: "snd (getNovaObject clk fetch n False b) =
        snd (loadObject clk fetch n False b)"
      by (auto simp: as_val_def split: prod.splits sum.splits)
    from loadObject_entry[of b u False n clk fetch data] g(1,2) nl r sn
      fresh_loaded[OF spread_not_found[OF g(3)]]
    show ?thesis by (simp add: update_conv')
  qed
  have inherited: "getNovaObject clk fetch n ro b = (Inr (Val JUndefined), b)"
    if "store b = s" "proto (objects s) = None" "n \<in> set object_prototype_names"
    using absent that
    by (simp add: getNovaObject_def Let_def dict_get_def builtin_or_missing_def val_or_def)
  from single bulk plain get inherited fresh_breaks_invariant show ?thesis
    by (meson fresh_breaks_invariant)
qed

theorem unregistered_name_entry_witness:
  "map_of (own (objects ex_state)) ''zzz'' = None \<and>
   proto (objects ex_state) = None \<and>
   all_have_defaults ex_state \<and>
   map_of (own (objects (novaReducer ex_clock ex_state (UPDATE_OBJECT_PROPS ''zzz'' (JNum 5)))))
     ''zzz'' =
     Some [(''props'', Val (JNum 5)), (''isLoaded'', Val (JBool True)),
           (''lastFetched'', Date 1000)] \<and>
   \<not> all_have_defaults (novaReducer ex_clock ex_state (UPDATE_OBJECT_PROPS ''zzz'' (JNum 5))) \<and>
   distinct (map fst [(''a'', JNull), (''zzz'', JNum 5)]) \<and>
   (''zzz'', JNum 5) \<in> set [(''a'', JNull), (''zzz'', JNum 5)] \<and>
   map_of (own (objects (novaReducer ex_clock ex_state
                      (SET_BULK_OBJECTS [(''a'', JNull), (''zzz'', JNum 5)])))) ''zzz'' =
     Some [(''props'', Val (JNum 5)), (''isLoaded'', Val (JBool True)),
           (''lastFetched'', Date 1001)] \<and>
   \<not> all_have_defaults (novaReducer ex_clock ex_state
                          (SET_BULK_OBJECTS [(''a'', JNull), (''zzz'', JNum 5)])) \<and>
   ''zzz'' \<notin> set object_prototype_names \<and>
   \<not> found (dict_get (objects ex_state) ''zzz'') \<and>
   store ex_browser = ex_state \<and> user ex_state = Some ex_user \<and>
   fst (getNovaObject ex_clock ex_network ''zzz'' False ex_browser) = Inr (Val ex_variant) \<and>
   map_of (own (objects (store (snd (getNovaObject ex_clock ex_network ''zzz'' False
                                       ex_browser))))) ''zzz'' =
     Some [(''props'', Val (JObj [(''color'', JStr ''green'')])),
           (''isLoaded'', Val (JBool True)), (''lastFetched'', Date 1000)] \<and>
   map_of (own (objects ex_state)) ''valueOf'' = None \<and>
   ''valueOf'' \<in> set object_prototype_names \<and>
   getNovaObject ex_clock ex_network ''valueOf'' False ex_browser =
     (Inr (Val JUndefined), ex_browser)"
proof -
  let ?pl = "[(''a'', JNull), (''zzz'', JNum 5)]"
  have h: "map_of (own (objects ex_state)) ''zzz'' = None"
    "map_of (own (objects ex_state)) ''valueOf'' = None"
    "proto (objects ex_state) = None"
    by (simp_all add: ex_state_def)
  have nm: "''zzz'' \<notin> set object_prototype_names" "''valueOf'' \<in> set object_prototype_names"
    by (simp_all add: object_prototype_names_def)
  have inv: "all_have_defaults ex_state"
    by (simp add: all_have_defaults_def ex_state_def ex_loaded_def ex_unloaded_def)
  have d: "distinct (map fst ?pl)" "(''zzz'', JNum 5) \<in> set ?pl" "''zzz'' \<noteq> ''__proto__''"
    "''zzz'' = ''props'' \<longrightarrow> ''__proto__'' \<notin> fst ` set ?pl"
    by simp_all
  have g: "store ex_browser = ex_state" "user ex_state = Some ex_user"
    "fst (getNovaObject ex_clock ex_network ''zzz'' False ex_browser) = Inr (Val ex_variant)"
    by (simp_all add: ex_defs load_eval_defs dict_defs)
  have v: "opt_member ex_variant ''variant_config'' = JObj [(''color'', JStr ''green'')]"
    by (simp add: ex_variant_def opt_member_def)
  have bulk: "map_of (own (objects (novaReducer ex_clock ex_state
                      (SET_BULK_OBJECTS ?pl)))) ''zzz'' =
     Some [(''props'', Val (JNum 5)), (''isLoaded'', Val (JBool True)),
           (''lastFetched'', Date 1001)]"
    by (simp add: ex_state_def ex_clock_def ex_loaded_def dict_defs)
  note t1 = unregistered_name_entry[OF h(1), of ex_clock "JNum 5" ?pl ex_browser ex_user
              ex_network ex_variant False]
  note t2 = unregistered_name_entry[OF h(2), of ex_clock "JNum 5" ?pl ex_browser ex_user
              ex_network ex_variant False]
  from t1 h(3) have a:
    "map_of (own (objects (novaReducer ex_clock ex_state (UPDATE_OBJECT_PROPS ''zzz'' (JNum 5)))))
       ''zzz'' = Some (fresh_entry (JNum 5) (ex_clock 0)) \<and>
     \<not> all_have_defaults (novaReducer ex_clock ex_state (UPDATE_OBJECT_PROPS ''zzz'' (JNum 5)))"
    by blast
  from t1 d have b:
    "\<not> all_have_defaults (novaReducer ex_clock ex_state (SET_BULK_OBJECTS ?pl))"
    by blast
  from t1 h(3) nm(1) have nf: "\<not> found (dict_get (objects ex_state) ''zzz'')"
    by blast
  from t1 g nf have c:
    "map_of (own (objects (store (snd (getNovaObject ex_clock ex_network ''zzz'' False
                                        ex_browser))))) ''zzz'' =
       Some (fresh_entry (opt_member ex_variant ''variant_config'') (ex_clock 0))"
    by blast
  from t2 g(1) h(3) nm(2) have e:
    "getNovaObject ex_clock ex_network ''valueOf'' False ex_browser =
       (Inr (Val JUndefined), ex_browser)"
    by blast
  from a b c e nf h nm inv d g v bulk show ?thesis
    by (simp add: ex_clock_def fresh_entry_def)
qed

text \<open>
  The claim as stated fails for the name \<open>__proto__\<close>: it has no entry in the sample state,
  and set-bulk-objects with a payload that holds it inserts none, since the assignment
  runs the setter of \<open>Object.prototype\<close>; the own entries are those of before, and each
  still carries default properties. After such an assignment the name \<open>props\<close>, which has
  no entry either, is looked up in the entry that has become the prototype, so the new entry
  under \<open>props\<close> can carry default properties, in the same set-bulk-objects and in an
  update-single-object-props on the state it returns. And \<open>getNovaObject\<close> for the
  unregistered name \<open>toString\<close> does not load: it makes no request and leaves no entry.
\<close>

theorem unregistered_name_entry_counterexample:
  "map_of (own (objects ex_state)) ''__proto__'' = None \<and>
   (''__proto__'', JNum 5) \<in> set [(''__proto__'', JNum 5)] \<and>
   own (objects (novaReducer ex_clock ex_state (SET_BULK_OBJECTS [(''__proto__'', JNum 5)]))) =
     own (objects ex_state) \<and>
   map_of (own (objects (novaReducer ex_clock ex_state
                           (SET_BULK_OBJECTS [(''__proto__'', JNum 5)])))) ''__proto__'' = None \<and>
   all_have_defaults (novaReducer ex_clock ex_state (SET_BULK_OBJECTS [(''__proto__'', JNum 5)])) \<and>
   map_of (own (objects ex_state)) ''props'' = None \<and>
   map_of (own (objects (novaReducer ex_clock ex_state
      (SET_BULK_OBJECTS [(''__proto__'', JObj [(''defaultProps'', JNum 1)]),
                         (''props'', JNum 5)])))) ''props'' =
     Some [(''defaultProps'', Val (JNum 1)), (''props'', Val (JNum 5)),
           (''isLoaded'', Val (JBool True)), (''lastFetched'', Date 1001)] \<and>
   map_of (own (objects (novaReducer ex_clock ex_state
      (SET_BULK_OBJECTS [(''__proto__'', JObj [(''defaultProps'', JNum 1)])])))) ''props'' =
     None \<and>
   map_of (own (objects (novaReducer ex_clock
      (novaReducer ex_clock ex_state
         (SET_BULK_OBJECTS [(''__proto__'', JObj [(''defaultProps'', JNum 1)])]))
      (UPDATE_OBJECT_PROPS ''props'' (JNum 5))))) ''props'' =
     Some [(''defaultProps'', Val (JNum 1)), (''props'', Val (JNum 5)),
           (''isLoaded'', Val (JBool True)), (''lastFetched'', Date 1000)] \<and>
   map_of (own (objects (store ex_browser))) ''toString'' = None \<and>
   snd (getNovaObject ex_clock ex_network ''toString'' False ex_browser) = ex_browser \<and>
   fetched ex_browser = []"
  by (simp add: ex_defs load_eval_defs dict_defs all_have_defaults_def)

section \<open>The registry sync command\<close>

lemma read_json_quiet:
  "fst (read_json env p) = [] \<or> fst (read_json env p) = [ReadFile p]"
  by (simp add: read_json_def split: option.splits json_file.splits)

lemma loadConfig_quiet:
  "list_all (\<lambda>e. \<not> outward e \<and> e \<noteq> ReadFile manifest_path) (fst (loadConfig env))"
  using read_json_quiet[of env "''.novarc''"] read_json_quiet[of env "''package.json''"]
  by (auto simp: loadConfig_def Let_def outward_def manifest_path_def
      split: prod.splits sum.splits if_splits)

lemma check_package_quiet:
  "list_all (\<lambda>e. \<not> outward e \<and> e \<noteq> ReadFile manifest_path) (fst (check_package env))"
  using read_json_quiet[of env "''package.json''"]
  by (auto simp: check_package_def Let_def outward_def manifest_path_def
      split: prod.splits sum.splits if_splits)

lemma validateProject_events:
  "fst (validateProject env cfg) = fst (check_package env)"
  by (simp add: validateProject_def split: prod.splits sum.splits)

lemma missing_config_nonempty:
  "(missing_config cfg \<noteq> []) =
     (\<not> truthy (field cfg ''orgId'') \<or> \<not> truthy (field cfg ''appId'') \<or>
      \<not> truthy (field cfg ''apiKey''))"
  by (simp add: missing_config_def)

lemma validateProject_missing:
  "missing_config cfg \<noteq> [] \<Longrightarrow> \<exists>e. snd (validateProject env cfg) = Inl e"
  by (auto simp: validateProject_def missing_config_nonempty split: prod.splits sum.splits)

lemma validateProject_missing_message:
  "missing_config cfg \<noteq> [] \<Longrightarrow> check_package env = (ev, Inr ()) \<Longrightarrow>
   validateProject env cfg =
     (ev, Inl (Error (''Missing required configuration: '' @ join '', '' (missing_config cfg))))"
  by (auto simp: validateProject_def missing_config_nonempty)

lemma loadObjectsFromJson_quiet:
  "list_all (\<lambda>e. \<not> outward e) (fst (loadObjectsFromJson env))"
  using read_json_quiet[of env manifest_path]
  by (auto simp: loadObjectsFromJson_def Let_def outward_def
      split: prod.splits sum.splits if_splits)

lemma check_manifest_incomplete:
  "opt_member d ''experiences'' = JUndefined \<or> opt_member d ''objects'' = JUndefined \<Longrightarrow>
   \<exists>e. check_manifest d = Inl e"
  by (auto simp: check_manifest_def opt_member_def split: sum.splits)

lemma loadObjectsFromJson_incomplete:
  "files env manifest_path = Some (Json d) \<Longrightarrow>
   opt_member d ''experiences'' = JUndefined \<or> opt_member d ''objects'' = JUndefined \<Longrightarrow>
   \<exists>e. snd (loadObjectsFromJson env) = Inl e"
  using check_manifest_incomplete[of d]
  by (auto simp: loadObjectsFromJson_def Let_def read_json_def split: js_error.splits)

lemma member_defined: "member d k = Inr x \<Longrightarrow> member d k' = Inr (opt_member d k')"
  by (cases d) (simp_all add: opt_member_def)

lemma member_error: "member d k = Inl e \<Longrightarrow> \<exists>m. e = TypeError m"
  by (cases d) auto

lemma loadObjectsFromJson_rejected:
  "files env manifest_path = Some (Json d) \<Longrightarrow> check_manifest d = Inl e \<Longrightarrow>
   (\<forall>m. e \<noteq> SyntaxError m) \<Longrightarrow>
   loadObjectsFromJson env =
     ([Print (Log ''Loading objects from nova-objects.json...''), ReadFile manifest_path],
      Inl e)"
  by (cases e) (simp_all add: loadObjectsFromJson_def Let_def read_json_def)

lemma run_validate_fails:
  "validateProject env (snd (loadConfig env)) = (ev, Inl e) \<Longrightarrow>
   run env = fst (loadConfig env) @ [Print (Log ''Nova Registry Sync'')] @ ev @
             [Print (ErrorLine (message e)), Exit 1]"
  by (cases "loadConfig env") (simp add: run_def Let_def failed_def)

lemma run_manifest_fails:
  "validateProject env (snd (loadConfig env)) = (ev, Inr u) \<Longrightarrow>
   loadObjectsFromJson env = (ev', Inl e) \<Longrightarrow>
   run env = fst (loadConfig env) @ [Print (Log ''Nova Registry Sync'')] @ ev @ ev' @
             [Print (ErrorLine (message e)), Exit 1]"
  by (cases "loadConfig env") (simp add: run_def Let_def failed_def)

lemmas cli_defs =
  run_def loadConfig_def validateProject_def check_package_def loadObjectsFromJson_def
  check_manifest_def saveRegistryFile_def getPackageVersion_def sync_def failed_def
  read_json_def env_value_def missing_config_def field_def Object_assign_def assign_entry_def
  keys_length_def manifest_path_def js_or_def opt_member_def js_spread_def Let_def ok_def

lemmas ex_env_defs =
  ex_env_def ex_env_incomplete_def ex_env_no_objects_def ex_env_null_def ex_env_no_key_def
  ex_env_bare_def
  ex_files_def ex_vars_def ex_package_def ex_manifest_def

lemma show_nat_1: "show_nat (Suc 0) = ''1''"
  by code_simp

text \<open>A complete run on the sample project: the registry is written, then posted.\<close>

lemma run_sample:
  "run ex_env =
     [ReadFile ''package.json'', Print (Log ''Nova Registry Sync''), ReadFile ''package.json'',
      Print (Log ''Loading objects from nova-objects.json...''),
      ReadFile ''src/nova-objects.json'', Print (Log ''Found 1 objects''),
      ReadFile ''package.json'',
      WriteFile ''nova-registry.json''
        (JObj [(''metadata'',
                JObj [(''generatedAt'', JStr ''2025-01-01T00:00:00.000Z''),
                      (''orgId'', JStr ''org1''), (''appId'', JStr ''app1''),
                      (''version'', JStr ''2.0.0''), (''totalObjects'', JNum 1)]),
               (''objects'', JObj [(''x'', JObj [(''color'', JStr ''red'')])]),
               (''errors'', JArr [])]),
      Print (Log (''Registry saved to '' @ quoted ''nova-registry.json'')),
      Print (Log ''Syncing to Nova backend...''),
      Fetch ''https://api.nova.com/api/v1/feature-flags/sync-nova-objects/''
        \<lparr>http_method = Some ''POST'',
         body = Some (JObj [(''organisation_id'', JStr ''org1''), (''app_id'', JStr ''app1''),
                            (''objects'', JObj [(''x'', JObj [(''color'', JStr ''red'')])]),
                            (''experiences'', JObj [])]),
         headers = Some [(''Content-Type'', ''application/json''),
                         (''Authorization'', ''Bearer key1'')]\<rparr>,
      Print (Log ''Sync successful!''), Print (Log ''Complete!''), Exit 0]"
  by (simp add: ex_env_defs cli_defs show_nat_1 del: show_nat.simps)

text \<open>
  Claim C9, as amended: for every manifest that lacks the \<open>experiences\<close> key or the
  \<open>objects\<close> key, the command ends with an error line and status 1, and makes no network
  call and writes no file. When the project and the configuration are in order, the error
  is the descriptive one: the one that names \<open>objects\<close> when that property is missing,
  falsy or not an object, and the one that names \<open>experiences\<close> when \<open>objects\<close> is in
  order and \<open>experiences\<close> is missing; only a manifest that is \<open>null\<close>, which has no
  properties to read, gives the error of the read instead. For every configuration that
  lacks the organisation id, the application id or the API key, the command ends with an
  error line and status 1 without reading the manifest, calling the network or writing a
  file; when \<open>package.json\<close> passes its own check, which comes first, the error is "Missing
  required configuration:" followed by exactly the variables that are missing.
\<close>

theorem run_fails_early:
  "(files env manifest_path = Some (Json d) \<and>
    (opt_member d ''experiences'' = JUndefined \<or> opt_member d ''objects'' = JUndefined) \<longrightarrow>
      (\<exists>evs m. run env = evs @ [Print (ErrorLine m), Exit 1]) \<and>
      list_all (\<lambda>e. \<not> outward e) (run env)) \<and>
   (files env manifest_path = Some (Json d) \<and>
    validateProject env (snd (loadConfig env)) = (ev, Inr ()) \<and>
    member d ''objects'' = Inr objs \<and> (\<not> truthy objs \<or> \<not> typeof_object objs) \<longrightarrow>
      run env =
        fst (loadConfig env) @ [Print (Log ''Nova Registry Sync'')] @ ev @
        [Print (Log ''Loading objects from nova-objects.json...''), ReadFile manifest_path,
         Print (ErrorLine objects_required), Exit 1]) \<and>
   (files env manifest_path = Some (Json d) \<and>
    validateProject env (snd (loadConfig env)) = (ev, Inr ()) \<and>
    member d ''objects'' = Inr objs \<and> truthy objs \<and> typeof_object objs \<and>
    opt_member d ''experiences'' = JUndefined \<longrightarrow>
      run env =
        fst (loadConfig env) @ [Print (Log ''Nova Registry Sync'')] @ ev @
        [Print (Log ''Loading objects from nova-objects.json...''), ReadFile manifest_path,
         Print (ErrorLine experiences_required), Exit 1]) \<and>
   (files env manifest_path = Some (Json d) \<and>
    validateProject env (snd (loadConfig env)) = (ev, Inr ()) \<and>
    member d ''objects'' = Inl err \<longrightarrow>
      (d = JNull \<or> d = JUndefined) \<and>
      run env =
        fst (loadConfig env) @ [Print (Log ''Nova Registry Sync'')] @ ev @
        [Print (Log ''Loading objects from nova-objects.json...''), ReadFile manifest_path,
         Print (ErrorLine (message err)), Exit 1]) \<and>
   (missing_config (snd (loadConfig env)) \<noteq> [] \<longrightarrow>
      (\<exists>evs m. run env = evs @ [Print (ErrorLine m), Exit 1]) \<and>
      list_all (\<lambda>e. \<not> outward e \<and> e \<noteq> ReadFile manifest_path) (run env)) \<and>
   (missing_config (snd (loadConfig env)) \<noteq> [] \<and> check_package env = (ev, Inr ()) \<longrightarrow>
      run env =
        fst (loadConfig env) @ [Print (Log ''Nova Registry Sync'')] @ ev @
        [Print (ErrorLine (''Missing required configuration: '' @
                           join '', '' (missing_config (snd (loadConfig env))))),
         Exit 1]) \<and>
   (''NOVA_ORG_ID'' \<in> set (missing_config cfg)) = (\<not> truthy (field cfg ''orgId'')) \<and>
   (''NOVA_APP_ID'' \<in> set (missing_config cfg)) = (\<not> truthy (field cfg ''appId'')) \<and>
   (''NOVA_API_KEY'' \<in> set (missing_config cfg)) = (\<not> truthy (field cfg ''apiKey''))"
proof -
  let ?cfg = "snd (loadConfig env)"
  let ?head = "fst (loadConfig env) @ [Print (Log ''Nova Registry Sync'')]"
  obtain ev1 r1 where v: "validateProject env ?cfg = (ev1, r1)"
    by (cases "validateProject env ?cfg")
  obtain ev2 r2 where l: "loadObjectsFromJson env = (ev2, r2)"
    by (cases "loadObjectsFromJson env")
  have q1: "list_all (\<lambda>e. \<not> outward e \<and> e \<noteq> ReadFile manifest_path) (?head @ ev1)"
    using loadConfig_quiet[of env] check_package_quiet[of env]
      validateProject_events[of env ?cfg] v
    by (simp add: outward_def)
  have q2: "list_all (\<lambda>e. \<not> outward e) ev2"
    using loadObjectsFromJson_quiet[of env] l by simp
  have part1: "(\<exists>evs m. run env = evs @ [Print (ErrorLine m), Exit 1]) \<and>
      list_all (\<lambda>e. \<not> outward e) (run env)"
    if m: "files env manifest_path = Some (Json d)"
      "opt_member d ''experiences'' = JUndefined \<or> opt_member d ''objects'' = JUndefined"
  proof (cases r1)
    case (Inl e)
    from run_validate_fails[of env ev1 e] v Inl
    have r: "run env = (?head @ ev1) @ [Print (ErrorLine (message e)), Exit 1]" by simp
    have "list_all (\<lambda>e. \<not> outward e) (?head @ ev1)"
      using q1 by (auto simp: list_all_iff)
    with r show ?thesis by (auto simp: outward_def simp del: append_assoc)
  next
    case (Inr u)
    from loadObjectsFromJson_incomplete[OF m] l obtain e where e: "r2 = Inl e" by auto
    from run_manifest_fails[of env ev1 u ev2 e] v l Inr e
    have r: "run env = (?head @ ev1 @ ev2) @ [Print (ErrorLine (message e)), Exit 1]" by simp
    have "list_all (\<lambda>e. \<not> outward e) (?head @ ev1 @ ev2)"
      using q1 q2 by (auto simp: list_all_iff)
    with r show ?thesis by (auto simp: outward_def simp del: append_assoc)
  qed
  have rejected: "run env = fst (loadConfig env) @ [Print (Log ''Nova Registry Sync'')] @ ev @
        [Print (Log ''Loading objects from nova-objects.json...''), ReadFile manifest_path,
         Print (ErrorLine (message e)), Exit 1]"
    if m: "files env manifest_path = Some (Json d)"
      "validateProject env ?cfg = (ev, Inr ())" "check_manifest d = Inl e"
      "\<forall>m. e \<noteq> SyntaxError m" for e
    using run_manifest_fails[OF m(2) loadObjectsFromJson_rejected[OF m(1,3,4)]] by simp
  have part2a: "run env = fst (loadConfig env) @ [Print (Log ''Nova Registry Sync'')] @ ev @
        [Print (Log ''Loading objects from nova-objects.json...''), ReadFile manifest_path,
         Print (ErrorLine objects_required), Exit 1]"
    if m: "files env manifest_path = Some (Json d)"
      "validateProject env ?cfg = (ev, Inr ())"
      "member d ''objects'' = Inr objs" "\<not> truthy objs \<or> \<not> typeof_object objs"
  proof -
    from m(3,4) have c: "check_manifest d = Inl (Error objects_required)"
      by (auto simp: check_manifest_def)
    from rejected[OF m(1,2) c] show ?thesis by simp
  qed
  have part2: "run env = fst (loadConfig env) @ [Print (Log ''Nova Registry Sync'')] @ ev @
        [Print (Log ''Loading objects from nova-objects.json...''), ReadFile manifest_path,
         Print (ErrorLine experiences_required), Exit 1]"
    if m: "files env manifest_path = Some (Json d)"
      "validateProject env ?cfg = (ev, Inr ())"
      "member d ''objects'' = Inr objs" "truthy objs" "typeof_object objs"
      "opt_member d ''experiences'' = JUndefined"
  proof -
    from member_defined[OF m(3), of "''experiences''"] m(3,4,5,6)
    have c: "check_manifest d = Inl (Error experiences_required)"
      by (simp add: check_manifest_def)
    from rejected[OF m(1,2) c] show ?thesis by simp
  qed
  have part2c: "(d = JNull \<or> d = JUndefined) \<and>
      run env = fst (loadConfig env) @ [Print (Log ''Nova Registry Sync'')] @ ev @
        [Print (Log ''Loading objects from nova-objects.json...''), ReadFile manifest_path,
         Print (ErrorLine (message err)), Exit 1]"
    if m: "files env manifest_path = Some (Json d)"
      "validateProject env ?cfg = (ev, Inr ())"
      "member d ''objects'' = Inl err"
  proof -
    from m(3) have c: "check_manifest d = Inl err"
      by (simp add: check_manifest_def)
    from member_error[OF m(3)] have ns: "\<forall>m. err \<noteq> SyntaxError m" by auto
    from m(3) have dn: "d = JNull \<or> d = JUndefined"
      by (cases d) simp_all
    from rejected[OF m(1,2) c ns] dn show ?thesis by simp
  qed
  have part3: "(\<exists>evs m. run env = evs @ [Print (ErrorLine m), Exit 1]) \<and>
      list_all (\<lambda>e. \<not> outward e \<and> e \<noteq> ReadFile manifest_path) (run env)"
    if m: "missing_config ?cfg \<noteq> []"
  proof -
    from validateProject_missing[OF m, of env] v obtain e where e: "r1 = Inl e" by auto
    from run_validate_fails[of env ev1 e] v e
    have r: "run env = (?head @ ev1) @ [Print (ErrorLine (message e)), Exit 1]" by simp
    with q1 show ?thesis by (auto simp: outward_def simp del: append_assoc)
  qed
  have part4: "run env = fst (loadConfig env) @ [Print (Log ''Nova Registry Sync'')] @ ev @
        [Print (ErrorLine (''Missing required configuration: '' @
                           join '', '' (missing_config ?cfg))), Exit 1]"
    if m: "missing_config ?cfg \<noteq> []" "check_package env = (ev, Inr ())"
    using run_validate_fails[OF validateProject_missing_message[OF m]] by simp
  have names: "(''NOVA_ORG_ID'' \<in> set (missing_config cfg)) = (\<not> truthy (field cfg ''orgId''))"
    "(''NOVA_APP_ID'' \<in> set (missing_config cfg)) = (\<not> truthy (field cfg ''appId''))"
    "(''NOVA_API_KEY'' \<in> set (missing_config cfg)) = (\<not> truthy (field cfg ''apiKey''))"
    by (simp_all add: missing_config_def)
  from part1 part2a part2 part2c part3 part4 names show ?thesis by blast
qed

theorem run_fails_early_witness:
  "files ex_env_incomplete manifest_path =
     Some (Json (JObj [(''objects'', JObj [(''x'', JObj [(''color'', JStr ''red'')])])])) \<and>
   opt_member (JObj [(''objects'', JObj [(''x'', JObj [(''color'', JStr ''red'')])])])
     ''experiences'' = JUndefined \<and>
   validateProject ex_env_incomplete (snd (loadConfig ex_env_incomplete)) =
     ([ReadFile ''package.json''], Inr ()) \<and>
   run ex_env_incomplete =
     [ReadFile ''package.json'', Print (Log ''Nova Registry Sync''), ReadFile ''package.json'',
      Print (Log ''Loading objects from nova-objects.json...''),
      ReadFile ''src/nova-objects.json'', Print (ErrorLine experiences_required), Exit 1] \<and>
   list_all (\<lambda>e. \<not> outward e) (run ex_env_incomplete) \<and>
   files ex_env_no_objects manifest_path = Some (Json (JObj [(''experiences'', JObj [])])) \<and>
   member (JObj [(''experiences'', JObj [])]) ''objects'' = Inr JUndefined \<and>
   validateProject ex_env_no_objects (snd (loadConfig ex_env_no_objects)) =
     ([ReadFile ''package.json''], Inr ()) \<and>
   run ex_env_no_objects =
     [ReadFile ''package.json'', Print (Log ''Nova Registry Sync''), ReadFile ''package.json'',
      Print (Log ''Loading objects from nova-objects.json...''),
      ReadFile ''src/nova-objects.json'', Print (ErrorLine objects_required), Exit 1] \<and>
   list_all (\<lambda>e. \<not> outward e) (run ex_env_no_objects) \<and>
   files ex_env_null manifest_path = Some (Json JNull) \<and>
   validateProject ex_env_null (snd (loadConfig ex_env_null)) =
     ([ReadFile ''package.json''], Inr ()) \<and>
   run ex_env_null =
     [ReadFile ''package.json'', Print (Log ''Nova Registry Sync''), ReadFile ''package.json'',
      Print (Log ''Loading objects from nova-objects.json...''),
      ReadFile ''src/nova-objects.json'',
      Print (ErrorLine (''Cannot read properties of null (reading '' @ [CHR 0x27] @
                        ''objects'' @ [CHR 0x27] @ '')'')), Exit 1] \<and>
   missing_config (snd (loadConfig ex_env_no_key)) = [''NOVA_ORG_ID'', ''NOVA_API_KEY''] \<and>
   check_package ex_env_no_key = ([ReadFile ''package.json''], Inr ()) \<and>
   run ex_env_no_key =
     [ReadFile ''package.json'', Print (Log ''Nova Registry Sync''), ReadFile ''package.json'',
      Print (ErrorLine ''Missing required configuration: NOVA_ORG_ID, NOVA_API_KEY''),
      Exit 1] \<and>
   list_all (\<lambda>e. \<not> outward e \<and> e \<noteq> ReadFile manifest_path) (run ex_env_no_key)"
proof -
  let ?d = "JObj [(''objects'', JObj [(''x'', JObj [(''color'', JStr ''red'')])])]"
  let ?d2 = "JObj [(''experiences'', JObj [])]"
  let ?ev = "[ReadFile ''package.json'']"
  let ?te = "TypeError (''Cannot read properties of null (reading '' @ [CHR 0x27] @
                        ''objects'' @ [CHR 0x27] @ '')'')"
  have f: "files ex_env_incomplete manifest_path = Some (Json ?d)"
    "files ex_env_no_objects manifest_path = Some (Json ?d2)"
    "files ex_env_null manifest_path = Some (Json JNull)"
    by (simp_all add: ex_env_defs manifest_path_def)
  have x: "opt_member ?d ''experiences'' = JUndefined"
    "member ?d ''objects'' = Inr (JObj [(''x'', JObj [(''color'', JStr ''red'')])])"
    "truthy (JObj [(''x'', JObj [(''color'', JStr ''red'')])])"
    "typeof_object (JObj [(''x'', JObj [(''color'', JStr ''red'')])])"
    by (simp_all add: opt_member_def)
  have x2: "member ?d2 ''objects'' = Inr JUndefined" "\<not> truthy JUndefined"
    "opt_member ?d2 ''objects'' = JUndefined"
    by (simp_all add: opt_member_def)
  have x3: "member JNull ''objects'' = Inl ?te"
    by simp
  have c1: "fst (loadConfig ex_env_incomplete) = ?ev"
    "fst (loadConfig ex_env_no_objects) = ?ev"
    "fst (loadConfig ex_env_null) = ?ev"
    "fst (loadConfig ex_env_no_key) = ?ev"
    by (simp_all add: ex_env_defs cli_defs)
  have v: "validateProject ex_env_incomplete (snd (loadConfig ex_env_incomplete)) =
     (?ev, Inr ())"
    "validateProject ex_env_no_objects (snd (loadConfig ex_env_no_objects)) = (?ev, Inr ())"
    "validateProject ex_env_null (snd (loadConfig ex_env_null)) = (?ev, Inr ())"
    by (simp_all add: ex_env_defs cli_defs)
  have m: "missing_config (snd (loadConfig ex_env_no_key)) = [''NOVA_ORG_ID'', ''NOVA_API_KEY'']"
    by (simp add: ex_env_defs cli_defs)
  have p: "check_package ex_env_no_key = (?ev, Inr ())"
    by (simp add: ex_env_defs cli_defs)
  note t1 = run_fails_early[of ex_env_incomplete ?d ?ev
              "JObj [(''x'', JObj [(''color'', JStr ''red'')])]" ?te "[]"]
  note t2 = run_fails_early[of ex_env_no_key ?d ?ev JNull ?te "[]"]
  note t3 = run_fails_early[of ex_env_no_objects ?d2 ?ev JUndefined ?te "[]"]
  note t4 = run_fails_early[of ex_env_null JNull ?ev JUndefined ?te "[]"]
  from t1 f(1) x v(1) have a: "run ex_env_incomplete =
        fst (loadConfig ex_env_incomplete) @ [Print (Log ''Nova Registry Sync'')] @ ?ev @
        [Print (Log ''Loading objects from nova-objects.json...''), ReadFile manifest_path,
         Print (ErrorLine experiences_required), Exit 1] \<and>
      list_all (\<lambda>e. \<not> outward e) (run ex_env_incomplete)"
    by blast
  from t3 f(2) x2 v(2) have a2: "run ex_env_no_objects =
        fst (loadConfig ex_env_no_objects) @ [Print (Log ''Nova Registry Sync'')] @ ?ev @
        [Print (Log ''Loading objects from nova-objects.json...''), ReadFile manifest_path,
         Print (ErrorLine objects_required), Exit 1] \<and>
      list_all (\<lambda>e. \<not> outward e) (run ex_env_no_objects)"
    by blast
  from t4 f(3) x3 v(3) have a3: "run ex_env_null =
        fst (loadConfig ex_env_null) @ [Print (Log ''Nova Registry Sync'')] @ ?ev @
        [Print (Log ''Loading objects from nova-objects.json...''), ReadFile manifest_path,
         Print (ErrorLine (message ?te)), Exit 1]"
    by blast
  from m have mne: "missing_config (snd (loadConfig ex_env_no_key)) \<noteq> []"
    by simp
  from t2 mne p have b: "run ex_env_no_key =
        fst (loadConfig ex_env_no_key) @ [Print (Log ''Nova Registry Sync'')] @ ?ev @
        [Print (ErrorLine (''Missing required configuration: '' @
                           join '', '' (missing_config (snd (loadConfig ex_env_no_key))))),
         Exit 1] \<and>
      list_all (\<lambda>e. \<not> outward e \<and> e \<noteq> ReadFile manifest_path) (run ex_env_no_key)"
    by blast
  from a a2 a3 b f x x2 v m p c1 show ?thesis
    by (simp add: manifest_path_def outward_def)
qed

text \<open>
  The claim as stated fails for the error's content. With no \<open>package.json\<close> the check
  of the project fails first, and the error printed names none of the three missing
  variables. And a manifest whose content is \<open>null\<close> has neither key, but the error
  printed is that of the property read, not one that describes what the manifest must
  hold.
\<close>

theorem run_fails_early_counterexample:
  "missing_config (snd (loadConfig ex_env_bare)) =
     [''NOVA_ORG_ID'', ''NOVA_APP_ID'', ''NOVA_API_KEY''] \<and>
   run ex_env_bare =
     [Print (Log ''Nova Registry Sync''),
      Print (ErrorLine ''No package.json found. Run this command from your project root.''),
      Exit 1] \<and>
   \<not> str_includes ''No package.json found. Run this command from your project root.''
       ''NOVA_'' \<and>
   files ex_env_null manifest_path = Some (Json JNull) \<and>
   opt_member JNull ''objects'' = JUndefined \<and> opt_member JNull ''experiences'' = JUndefined \<and>
   run ex_env_null =
     [ReadFile ''package.json'', Print (Log ''Nova Registry Sync''), ReadFile ''package.json'',
      Print (Log ''Loading objects from nova-objects.json...''),
      ReadFile ''src/nova-objects.json'',
      Print (ErrorLine (''Cannot read properties of null (reading '' @ [CHR 0x27] @
                        ''objects'' @ [CHR 0x27] @ '')'')), Exit 1]"
  by (simp add: ex_env_defs cli_defs)

end
